theory Spec2Isabelle
  imports Complex_Main "HOL-Library.Sublist" "HOL-Library.AList"
begin

section \<open>The questionnaire's answers\<close>

text \<open>
  \<^verbatim>\<open>src/index.js\<close> collects five answers with \<^verbatim>\<open>p.group\<close>. The two
  \<^verbatim>\<open>p.select\<close> prompts can only return one of their listed option values, so the
  project type and the validation language are enumerations.
\<close>

datatype project_type = Fullstack | Backend | Frontend

datatype validation_language = Typescript | Javascript

record project =
  path :: string
  projectType :: project_type
  validationLanguage :: validation_language
  includeObservability :: bool
  includeCI :: bool

section \<open>Template catalog\<close>

text \<open>
  File contents are byte strings: the UTF-8 encoding that \<^verbatim>\<open>writeFileSync\<close> puts on
  disk. A template literal that spans several source lines is the list of its lines joined
  by the newline character, which is what \<open>join_lines\<close> computes; an interpolation
  \<^verbatim>\<open>${...}\<close> is the corresponding expression at its place in the line. The escapes of
  the JavaScript template literal (backslash-backtick, backslash-dollar, double backslash)
  are resolved, so the strings below are the emitted text, not the source text.
\<close>

fun join_lines :: "string list \<Rightarrow> string" where
  "join_lines [] = []"
| "join_lines [l] = l"
| "join_lines (l # m # ls) = l @ CHR 0x0A # join_lines (m # ls)"

text \<open>Characters that cannot stand inside a string literal here: the single quote at the end
  of a literal, the backslash, and the code points beyond ASCII (as their UTF-8 bytes).\<close>

abbreviation SQ :: string where "SQ \<equiv> [CHR 0x27]"
abbreviation BSL :: string where "BSL \<equiv> [CHR 0x5C]"


subsection \<open>Code points beyond ASCII\<close>

abbreviation U00B1 :: string where \<comment> \<open>plus-minus sign\<close>
  "U00B1 \<equiv> [CHR 0xC2, CHR 0xB1]"

abbreviation U1F3D7 :: string where \<comment> \<open>building construction\<close>
  "U1F3D7 \<equiv> [CHR 0xF0, CHR 0x9F, CHR 0x8F, CHR 0x97]"

abbreviation U1F4D6 :: string where \<comment> \<open>open book\<close>
  "U1F4D6 \<equiv> [CHR 0xF0, CHR 0x9F, CHR 0x93, CHR 0x96]"

abbreviation U1F4DA :: string where \<comment> \<open>books\<close>
  "U1F4DA \<equiv> [CHR 0xF0, CHR 0x9F, CHR 0x93, CHR 0x9A]"

abbreviation U1F4DD :: string where \<comment> \<open>memo\<close>
  "U1F4DD \<equiv> [CHR 0xF0, CHR 0x9F, CHR 0x93, CHR 0x9D]"

abbreviation U1F50D :: string where \<comment> \<open>left-pointing magnifying glass\<close>
  "U1F50D \<equiv> [CHR 0xF0, CHR 0x9F, CHR 0x94, CHR 0x8D]"

abbreviation U1F680 :: string where \<comment> \<open>rocket\<close>
  "U1F680 \<equiv> [CHR 0xF0, CHR 0x9F, CHR 0x9A, CHR 0x80]"

abbreviation U1F6E0 :: string where \<comment> \<open>hammer and wrench\<close>
  "U1F6E0 \<equiv> [CHR 0xF0, CHR 0x9F, CHR 0x9B, CHR 0xA0]"

abbreviation U1F916 :: string where \<comment> \<open>robot face\<close>
  "U1F916 \<equiv> [CHR 0xF0, CHR 0x9F, CHR 0xA4, CHR 0x96]"

abbreviation U1F91D :: string where \<comment> \<open>handshake\<close>
  "U1F91D \<equiv> [CHR 0xF0, CHR 0x9F, CHR 0xA4, CHR 0x9D]"

abbreviation U2014 :: string where \<comment> \<open>em dash\<close>
  "U2014 \<equiv> [CHR 0xE2, CHR 0x80, CHR 0x94]"

abbreviation U2191 :: string where \<comment> \<open>upwards arrow\<close>
  "U2191 \<equiv> [CHR 0xE2, CHR 0x86, CHR 0x91]"

abbreviation U2192 :: string where \<comment> \<open>rightwards arrow\<close>
  "U2192 \<equiv> [CHR 0xE2, CHR 0x86, CHR 0x92]"

abbreviation U2500 :: string where \<comment> \<open>box drawings light horizontal\<close>
  "U2500 \<equiv> [CHR 0xE2, CHR 0x94, CHR 0x80]"

abbreviation U2502 :: string where \<comment> \<open>box drawings light vertical\<close>
  "U2502 \<equiv> [CHR 0xE2, CHR 0x94, CHR 0x82]"

abbreviation U2514 :: string where \<comment> \<open>box drawings light up and right\<close>
  "U2514 \<equiv> [CHR 0xE2, CHR 0x94, CHR 0x94]"

abbreviation U251C :: string where \<comment> \<open>box drawings light vertical and right\<close>
  "U251C \<equiv> [CHR 0xE2, CHR 0x94, CHR 0x9C]"

abbreviation U26A0 :: string where \<comment> \<open>warning sign\<close>
  "U26A0 \<equiv> [CHR 0xE2, CHR 0x9A, CHR 0xA0]"

abbreviation U2705 :: string where \<comment> \<open>white heavy check mark\<close>
  "U2705 \<equiv> [CHR 0xE2, CHR 0x9C, CHR 0x85]"

abbreviation U274C :: string where \<comment> \<open>cross mark\<close>
  "U274C \<equiv> [CHR 0xE2, CHR 0x9D, CHR 0x8C]"

abbreviation UFE0F :: string where \<comment> \<open>variation selector-16\<close>
  "UFE0F \<equiv> [CHR 0xEF, CHR 0xB8, CHR 0x8F]"

subsection \<open>The templates of \<^verbatim>\<open>templates.js\<close>\<close>

definition getAgentsTemplate :: "project_type \<Rightarrow> string" where
  \<open>getAgentsTemplate projectType' =
   join_lines [
    ''# Agent Development Guide'',
    '''',
    ''**This file serves as the table of contents for agent development in this repository.**'',
    '''',
    ''Humans steer. Agents execute.'',
    '''',
    ''## Quick Reference'',
    '''',
    ''- **Architecture:** See [ARCHITECTURE.md](./ARCHITECTURE.md)'',
    ''- **Design Principles:** See [DESIGN.md](./DESIGN.md)'',
    ''- **Security:** See [SECURITY.md](./SECURITY.md)'',
    ''- **Quality Standards:** See [QUALITY_SCORE.md](./QUALITY_SCORE.md)'',
    ''- **Reliability:** See [RELIABILITY.md](./RELIABILITY.md)'',
    ''- **Product Sense:** See [PRODUCT_SENSE.md](./PRODUCT_SENSE.md)'',
    ''- **Planning:** See [PLANS.md](./PLANS.md)'',
    (if projectType' = Fullstack \<or> projectType' = Frontend then ''- **Frontend:** See [FRONTEND.md](./FRONTEND.md)\<newline>'' else []),
    '''',
    ''## Documentation Structure'',
    '''',
    ''### Design Documents'',
    ''Location: `docs/design-docs/`'',
    '''',
    ''All design decisions and architectural choices are documented here. Before implementing features:'',
    ''1. Check for existing design docs'',
    ''2. Create new design docs for significant changes'',
    ''3. Link to relevant designs in your PRs'',
    '''',
    ''See: [docs/design-docs/index.md](./docs/design-docs/index.md)'',
    '''',
    ''### Execution Plans'',
    ''Location: `docs/exec-plans/`'',
    '''',
    ''Complex work is broken down into execution plans:'',
    ''- **Active plans:** `docs/exec-plans/active/`'',
    ''- **Completed plans:** `docs/exec-plans/completed/`'',
    ''- **Tech debt tracker:** `docs/exec-plans/tech-debt-tracker.md`'',
    '''',
    ''See: [PLANS.md](./PLANS.md) for planning guidelines.'',
    '''',
    ''### Product Specifications'',
    ''Location: `docs/product-specs/`'',
    '''',
    ''Product requirements and feature specifications live here. Before building:'',
    ''1. Review relevant product specs'',
    ''2. Ask clarifying questions if specs are incomplete'',
    ''3. Update specs based on implementation learnings'',
    '''',
    ''See: [docs/product-specs/index.md](./docs/product-specs/index.md)'',
    '''',
    ''### Reference Documentation'',
    ''Location: `docs/references/`'',
    '''',
    ''External library documentation optimized for LLM consumption. When integrating new libraries:'',
    ''1. Extract key documentation'',
    ''2. Format for agent readability'',
    ''3. Store in `docs/references/[library-name]-llms.txt`'',
    '''',
    ''### Generated Documentation'',
    ''Location: `docs/generated/`'',
    '''',
    ''Auto-generated documentation (schemas, API docs, etc.). This directory is maintained by automation.'',
    '''',
    ''## Core Principles'',
    '''',
    ''1. **Repository is the source of truth** - If it's not in the repo, it doesn't exist to agents'',
    ''2. **Progressive disclosure** - Start with this file, navigate to deeper sources'',
    ''3. **Enforce mechanically** - Use linters and tests, not manual review'',
    ''4. **Agent legibility first** - Optimize for agent reasoning, not just human readability'',
    ''5. **Continuous cleanup** - Fix patterns as soon as they drift, don't let debt compound'',
    '''',
    ''## Workflow'',
    '''',
    ''1. **Context gathering:** Read relevant docs before coding'',
    ''2. **Plan:** Create execution plans for complex work'',
    ''3. **Implement:** Follow architectural constraints and quality standards'',
    ''4. **Validate:** Run tests, linters, and validation scripts'',
    ''5. **Review:** Get agent and human feedback'',
    ''6. **Iterate:** Respond to feedback, fix issues'',
    ''7. **Document:** Update design docs and specs based on learnings'',
    '''',
    ''## Validation'',
    '''',
    ''Before opening PRs, ensure:'',
    ''- [ ] All tests pass'',
    ''- [ ] Linters pass'',
    ''- [ ] Documentation is updated'',
    ''- [ ] Architectural constraints are satisfied'',
    ''- [ ] Security guidelines are followed'',
    '''',
    ''Run validation: `npm run validate` or `node scripts/validate-structure.js`'',
    '''',
    ''## Getting Help'',
    '''',
    ''When stuck:'',
    ''1. Check [docs/design-docs/core-beliefs.md](./docs/design-docs/core-beliefs.md)'',
    ''2. Review similar implementations in the codebase'',
    ''3. Check [docs/exec-plans/tech-debt-tracker.md](./docs/exec-plans/tech-debt-tracker.md) for known issues'',
    ''4. Ask humans for clarification on requirements'',
    '''',
    ''---'',
    '''',
    ''*This file is intentionally kept short (~100 lines). For detailed guidance, follow the links above.*'',
    ''''
  ]\<close>

definition getArchitectureTemplate :: "project_type \<Rightarrow> string" where
  \<open>getArchitectureTemplate projectType' =
   join_lines [
    ''# Architecture Overview'',
    '''',
    ''**Top-level map of system domains and package layering.**'',
    '''',
    ''## System Domains'',
    '''',
    ''This section will be populated as your application grows. Document major domains here (e.g., Auth, Users, Payments, etc.).'',
    '''',
    ''### Example Domain: [Domain Name]'',
    '''',
    ''**Purpose:** Brief description'',
    '''',
    ''**Boundaries:**'',
    ''- Owns: What this domain is responsible for'',
    ''- Depends on: What other domains it uses'',
    ''- Used by: What domains depend on it'',
    '''',
    ''**Key files:**'',
    ''- `src/[domain]/` - Main implementation'',
    '''',
    ''## Layered Architecture'',
    '''',
    ''Within each domain, code follows a strict layering model:'',
    '''',
    ''```'',
    ''Types '' @ U2192 @ '' Config '' @ U2192 @ '' Repository '' @ U2192 @ '' Service '' @ U2192 @ '' Runtime '' @ U2192 @ '' UI'',
    ''         '' @ U2191,
    ''    Providers (cross-cutting concerns)'',
    ''```'',
    '''',
    ''### Layer Responsibilities'',
    '''',
    ''1. **Types** - Data shapes, interfaces, domain models'',
    ''2. **Config** - Configuration schemas and defaults'',
    ''3. **Repository** - Data access layer (database, external APIs)'',
    ''4. **Service** - Business logic'',
    ''5. **Runtime** - Application runtime concerns (initialization, shutdown)'',
    ''6. **UI** - User interface components'',
    '''',
    ''### Providers (Cross-cutting)'',
    '''',
    ''Cross-cutting concerns enter through explicit Provider interfaces:'',
    ''- Authentication'',
    ''- Logging/Telemetry'',
    ''- Feature flags'',
    ''- External connectors'',
    '''',
    ''### Dependency Rules'',
    '''',
    U2705 @ '' **Allowed:** Forward dependencies (Types '' @ U2192 @ '' Config '' @ U2192 @ '' Repo '' @ U2192 @ '' Service '' @ U2192 @ '' Runtime '' @ U2192 @ '' UI)'',
    U274C @ '' **Forbidden:** Backward dependencies (UI cannot import from Service directly without going through Runtime)'',
    '''',
    ''These rules are enforced mechanically via custom linters.'',
    '''',
    ''## Technology Choices'',
    '''',
    (if projectType' = Fullstack then ''### Frontend\<newline>\<newline>[To be determined - document your framework choice]\<newline>\<newline>### Backend\<newline>\<newline>[To be determined - document your framework choice]\<newline>'' else if projectType' = Frontend then ''### Frontend\<newline>\<newline>[To be determined - document your framework choice]\<newline>'' else ''### Backend\<newline>\<newline>[To be determined - document your framework choice]\<newline>''),
    ''### Infrastructure'',
    '''',
    ''[Document infrastructure choices as they're made]'',
    '''',
    ''## Architectural Constraints'',
    '''',
    ''1. **Parsing at boundaries** - All external data must be validated/parsed at system boundaries'',
    ''2. **No circular dependencies** - Enforce strict DAG structure'',
    ''3. **Explicit cross-cutting** - Cross-cutting concerns go through Provider interfaces'',
    ''4. **Testability** - All layers must be independently testable'',
    '''',
    ''## Decision Log'',
    '''',
    ''| Date | Decision | Rationale | Status |'',
    ''|------|----------|-----------|--------|'',
    ''| TBD  | Example  | Why      | Active |'',
    '''',
    ''---'',
    '''',
    ''*Keep this document updated as architectural decisions are made. Link to detailed design docs for complex changes.*'',
    ''''
  ]\<close>

definition getDesignTemplate :: "string" where
  \<open>getDesignTemplate =
   join_lines [
    ''# Design Principles'',
    '''',
    ''**Core design beliefs and patterns for this codebase.**'',
    '''',
    ''## Philosophy'',
    '''',
    ''1. **Simple over clever** - Readable code beats optimized code'',
    ''2. **Explicit over implicit** - Make behavior obvious'',
    ''3. **Boring over exciting** - Prefer proven technologies'',
    ''4. **Strict boundaries** - Enforce constraints mechanically'',
    '''',
    ''## Code Organization'',
    '''',
    ''### File Structure'',
    ''- One primary export per file'',
    ''- Co-locate related code (tests next to implementation)'',
    ''- Group by domain, not by type'',
    '''',
    ''### Naming Conventions'',
    ''- Verbose and descriptive: `calculateTotalRevenue()` not `calcRev()`'',
    ''- Consistent patterns across domains'',
    ''- No abbreviations unless universally understood'',
    '''',
    ''### Comments'',
    ''- Comment **why**, not **what**'',
    ''- Explain business logic and constraints'',
    ''- Document security-critical sections'',
    ''- Avoid obvious comments'',
    '''',
    ''## Error Handling'',
    '''',
    ''1. **Fail fast** - Validate inputs early'',
    ''2. **Explicit errors** - Use typed error objects'',
    ''3. **Graceful degradation** - Never fail silently'',
    ''4. **Comprehensive logging** - All errors are logged with context'',
    '''',
    ''## Testing Philosophy'',
    '''',
    ''1. **Real environments over mocks** - Use Docker for databases, Redis, etc.'',
    ''2. **Integration tests preferred** - Test real behavior, not mocked behavior'',
    ''3. **Test the contract** - Focus on behavior, not implementation'',
    ''4. **Fail meaningfully** - Tests should fail when logic breaks'',
    '''',
    ''## Security Principles'',
    '''',
    ''1. **Zero trust** - Sanitize all user inputs'',
    ''2. **Least privilege** - Minimal access rights'',
    ''3. **No secrets in code** - Use environment variables'',
    ''4. **Defense in depth** - Multiple layers of security'',
    '''',
    ''See [SECURITY.md](./SECURITY.md) for detailed security guidelines.'',
    '''',
    ''## Performance Philosophy'',
    '''',
    ''1. **Measure before optimizing** - No premature optimization'',
    ''2. **Optimize for maintainability** - Clear code is fast enough'',
    ''3. **Scale when needed** - Don't over-engineer for imaginary scale'',
    '''',
    ''## Dependencies'',
    '''',
    ''1. **Minimize dependencies** - Prefer standard library'',
    ''2. **Agent-legible libraries** - Choose well-documented, stable libraries'',
    ''3. **Internalize when needed** - Sometimes it's cheaper to implement than integrate'',
    '''',
    ''---'',
    '''',
    ''*These principles guide all code written by humans and agents in this repository.*'',
    ''''
  ]\<close>

definition getFrontendTemplate :: "string" where
  \<open>getFrontendTemplate =
   join_lines [
    ''# Frontend Development Guide'',
    '''',
    ''**Guidelines for building user interfaces in this project.**'',
    '''',
    ''## Framework'',
    '''',
    ''[Document your chosen framework here - React, Vue, Svelte, etc.]'',
    '''',
    ''## Component Architecture'',
    '''',
    ''### Component Organization'',
    ''```'',
    ''components/'',
    U251C @ U2500 @ U2500 @ '' ui/           # Reusable UI primitives (buttons, inputs, etc.)'',
    U251C @ U2500 @ U2500 @ '' features/     # Feature-specific components'',
    U2514 @ U2500 @ U2500 @ '' layouts/      # Page layouts and shells'',
    ''```'',
    '''',
    ''### Component Guidelines'',
    '''',
    ''1. **Single Responsibility** - Each component does one thing well'',
    ''2. **Props over State** - Prefer passing data down'',
    ''3. **Composition over Inheritance** - Build complex UIs from simple pieces'',
    ''4. **Accessibility First** - ARIA labels, keyboard navigation, screen readers'',
    '''',
    ''## State Management'',
    '''',
    ''[Document state management approach - Context, Redux, Zustand, etc.]'',
    '''',
    ''### State Principles'',
    ''1. **Minimize global state** - Keep state as local as possible'',
    ''2. **Immutable updates** - Never mutate state directly'',
    ''3. **Derived state** - Compute from source of truth, don't duplicate'',
    '''',
    ''## Styling'',
    '''',
    ''[Document styling approach - CSS Modules, Tailwind, Styled Components, etc.]'',
    '''',
    ''### Styling Guidelines'',
    ''1. **Consistent design tokens** - Use variables for colors, spacing, typography'',
    ''2. **Mobile-first** - Design for small screens first'',
    ''3. **Performance** - Minimize CSS bundle size'',
    '''',
    ''## Data Fetching'',
    '''',
    ''[Document data fetching approach - React Query, SWR, GraphQL, etc.]'',
    '''',
    ''### Data Fetching Principles'',
    ''1. **Loading states** - Always show loading UI'',
    ''2. **Error handling** - Display meaningful error messages'',
    ''3. **Caching** - Minimize redundant requests'',
    ''4. **Optimistic updates** - Update UI immediately, rollback on error'',
    '''',
    ''## Chrome DevTools Integration'',
    '''',
    ''For agent validation, the UI can be:'',
    ''- Launched per git worktree'',
    ''- Driven via Chrome DevTools Protocol'',
    ''- Validated via DOM snapshots and screenshots'',
    '''',
    ''Ensure all critical user journeys are testable via automation.'',
    '''',
    ''## Performance Budgets'',
    '''',
    ''- **Initial Load:** < 3s on 3G'',
    ''- **Time to Interactive:** < 5s'',
    ''- **Lighthouse Score:** > 90'',
    '''',
    ''## Accessibility Requirements'',
    '''',
    ''- **WCAG 2.1 Level AA** compliance'',
    ''- **Keyboard navigation** for all interactive elements'',
    ''- **Screen reader** friendly'',
    '''',
    ''---'',
    '''',
    ''*Update this document as frontend patterns evolve.*'',
    ''''
  ]\<close>

definition getPlansTemplate :: "string" where
  \<open>getPlansTemplate =
   join_lines [
    ''# Planning Guidelines'',
    '''',
    ''**How to create and manage execution plans.**'',
    '''',
    ''## When to Create a Plan'',
    '''',
    ''Create an execution plan when:'',
    ''1. Work will span multiple PRs'',
    ''2. Work involves multiple domains or systems'',
    ''3. Implementation approach needs alignment'',
    ''4. Work will take > 1 day'',
    ''5. Work has significant architectural impact'',
    '''',
    ''## Plan Types'',
    '''',
    ''### Lightweight Plans (< 1 day work)'',
    ''- Documented in PR description'',
    ''- No separate plan document needed'',
    ''- Focus on "what" and "why"'',
    '''',
    ''### Execution Plans (> 1 day work)'',
    ''- Full plan document in `docs/exec-plans/active/`'',
    ''- Detailed implementation steps'',
    ''- Decision log'',
    ''- Progress tracking'',
    '''',
    ''## Execution Plan Template'',
    '''',
    ''See [docs/exec-plans/template.md](./docs/exec-plans/template.md)'',
    '''',
    ''## Plan Lifecycle'',
    '''',
    ''1. **Draft** - Initial plan created'',
    ''2. **In Review** - Plan being reviewed by humans/agents'',
    ''3. **Approved** - Plan approved, ready to execute'',
    ''4. **In Progress** - Work is happening'',
    ''5. **Completed** - Work done, plan moved to `completed/`'',
    '''',
    ''## Plan Structure'',
    '''',
    ''### 1. Context'',
    ''- Why is this work needed?'',
    ''- What problem does it solve?'',
    ''- What is the current state?'',
    '''',
    ''### 2. Goals'',
    ''- What are we trying to achieve?'',
    ''- What are non-goals?'',
    ''- How will we measure success?'',
    '''',
    ''### 3. Approach'',
    ''- High-level implementation strategy'',
    ''- Key technical decisions'',
    ''- Tradeoffs considered'',
    '''',
    ''### 4. Implementation Steps'',
    ''- Ordered list of tasks'',
    ''- Dependencies between tasks'',
    ''- Estimated complexity (S/M/L)'',
    '''',
    ''### 5. Validation'',
    ''- How will we know it works?'',
    ''- What tests need to be written?'',
    ''- What edge cases to consider?'',
    '''',
    ''### 6. Risks'',
    ''- What could go wrong?'',
    ''- Mitigation strategies'',
    '''',
    ''### 7. Decision Log'',
    ''- Track decisions made during implementation'',
    ''- Rationale for changes to original plan'',
    '''',
    ''## Tech Debt Tracker'',
    '''',
    ''All known technical debt is tracked in [docs/exec-plans/tech-debt-tracker.md](./docs/exec-plans/tech-debt-tracker.md)'',
    '''',
    ''### Adding Tech Debt'',
    ''When you identify tech debt:'',
    ''1. Document it in the tracker'',
    ''2. Prioritize (P0/P1/P2/P3)'',
    ''3. Link to related code'',
    ''4. Propose resolution approach'',
    '''',
    ''### Resolving Tech Debt'',
    ''When fixing tech debt:'',
    ''1. Update tracker status'',
    ''2. Link to PR that resolved it'',
    ''3. Document learnings'',
    '''',
    ''---'',
    '''',
    ''*Plans are living documents. Update them as you learn.*'',
    ''''
  ]\<close>

definition getProductSenseTemplate :: "string" where
  \<open>getProductSenseTemplate =
   join_lines [
    ''# Product Sense'',
    '''',
    ''**Product principles and user-facing guidelines.**'',
    '''',
    ''## Product Principles'',
    '''',
    ''1. **User value first** - Every feature must solve a real user problem'',
    ''2. **Simple by default** - Hide complexity, expose power'',
    ''3. **Fast and reliable** - Performance and reliability are features'',
    ''4. **Accessible to all** - Build for everyone'',
    '''',
    ''## User Experience Guidelines'',
    '''',
    ''### Core User Flows'',
    ''[Document your critical user journeys]'',
    '''',
    ''Example:'',
    ''1. **New user onboarding**'',
    ''   - What do first-time users see?'',
    ''   - How do we guide them to value?'',
    '''',
    ''2. **Core workflow**'',
    ''   - What is the main user action?'',
    ''   - How do we make it effortless?'',
    '''',
    ''### UX Principles'',
    '''',
    ''1. **Immediate feedback** - User actions get instant response'',
    ''2. **Forgiving** - Easy to undo, hard to break'',
    ''3. **Consistent** - Same patterns throughout'',
    ''4. **Predictable** - Users can anticipate behavior'',
    '''',
    ''## Feature Development'',
    '''',
    ''### Feature Spec Requirements'',
    '''',
    ''Every feature needs:'',
    ''- [ ] User story (who, what, why)'',
    ''- [ ] Success metrics'',
    ''- [ ] Acceptance criteria'',
    ''- [ ] Edge cases identified'',
    ''- [ ] Failure modes considered'',
    '''',
    ''### Product Quality Bar'',
    '''',
    ''Before shipping:'',
    ''- [ ] Works on happy path'',
    ''- [ ] Handles errors gracefully'',
    ''- [ ] Has loading states'',
    ''- [ ] Has empty states'',
    ''- [ ] Is accessible'',
    ''- [ ] Is performant'',
    ''- [ ] Is secure'',
    '''',
    ''## Metrics & Analytics'',
    '''',
    ''[Document what you measure and why]'',
    '''',
    ''### Key Metrics'',
    ''- **Acquisition:** How users find the product'',
    ''- **Activation:** How users get to first value'',
    ''- **Retention:** How often users return'',
    ''- **Revenue:** How the business makes money (if applicable)'',
    '''',
    ''## User Feedback Loop'',
    '''',
    ''1. **Collect** - Gather user feedback (support tickets, interviews, analytics)'',
    ''2. **Synthesize** - Identify patterns and themes'',
    ''3. **Prioritize** - Decide what to build based on impact'',
    ''4. **Build** - Implement with quality'',
    ''5. **Measure** - Track if it solved the problem'',
    '''',
    ''---'',
    '''',
    ''*Product sense guides what we build and why.*'',
    ''''
  ]\<close>

definition getQualityScoreTemplate :: "string" where
  \<open>getQualityScoreTemplate =
   join_lines [
    ''# Quality Score'',
    '''',
    ''**Track quality metrics across domains and architectural layers.**'',
    '''',
    ''## Scoring System'',
    '''',
    ''Each domain and layer is graded on:'',
    ''- **Test Coverage:** % of code covered by tests'',
    ''- **Type Safety:** % of code that is type-checked'',
    ''- **Documentation:** Are interfaces and behaviors documented?'',
    ''- **Linting:** Are linting rules passing?'',
    ''- **Performance:** Meet performance budgets?'',
    '''',
    ''### Grades'',
    '''',
    ''- **A** - Excellent (90-100%)'',
    ''- **B** - Good (75-89%)'',
    ''- **C** - Acceptable (60-74%)'',
    ''- **D** - Needs Improvement (40-59%)'',
    ''- **F** - Unacceptable (< 40%)'',
    '''',
    ''## Domain Quality'',
    '''',
    ''| Domain | Test Coverage | Type Safety | Documentation | Linting | Performance | Overall |'',
    ''|--------|---------------|-------------|---------------|---------|-------------|---------|'',
    ''| TBD    | -             | -           | -             | -       | -           | -       |'',
    '''',
    ''## Layer Quality'',
    '''',
    ''| Layer      | Test Coverage | Type Safety | Documentation | Linting | Overall |'',
    ''|------------|---------------|-------------|---------------|---------|---------|'',
    ''| Types      | -             | -           | -             | -       | -       |'',
    ''| Config     | -             | -           | -             | -       | -       |'',
    ''| Repository | -             | -           | -             | -       | -       |'',
    ''| Service    | -             | -           | -             | -       | -       |'',
    ''| Runtime    | -             | -           | -             | -       | -       |'',
    ''| UI         | -             | -           | -             | -       | -       |'',
    '''',
    ''## Quality Targets'',
    '''',
    ''### Minimum Acceptable (Launch)'',
    ''- Test Coverage: 70%'',
    ''- Type Safety: 80%'',
    ''- Documentation: 60%'',
    ''- Linting: 100%'',
    ''- Performance: Meets budgets'',
    '''',
    ''### Production Ready'',
    ''- Test Coverage: 85%'',
    ''- Type Safety: 95%'',
    ''- Documentation: 80%'',
    ''- Linting: 100%'',
    ''- Performance: Exceeds budgets'',
    '''',
    ''## Known Quality Gaps'',
    '''',
    ''[Track areas that need improvement]'',
    '''',
    ''| Gap | Severity | Tracked In | Target Date |'',
    ''|-----|----------|------------|-------------|'',
    ''| TBD | P1       | Issue #X   | 2026-XX-XX  |'',
    '''',
    ''## Quality Improvement Process'',
    '''',
    ''1. **Automated Scanning** - CI runs quality checks on every PR'',
    ''2. **Quality Reports** - Weekly quality score updates'',
    ''3. **Improvement Plans** - Create execution plans for quality gaps'',
    ''4. **Continuous Monitoring** - Track quality trends over time'',
    '''',
    ''---'',
    '''',
    ''*Quality scores are updated automatically by CI. Manual updates indicate automation gaps.*'',
    ''''
  ]\<close>

definition getReliabilityTemplate :: "string" where
  \<open>getReliabilityTemplate =
   join_lines [
    ''# Reliability Standards'',
    '''',
    ''**Guidelines for building reliable, production-ready systems.**'',
    '''',
    ''## Reliability Principles'',
    '''',
    ''1. **Fail gracefully** - Degrade functionality, never crash'',
    ''2. **Observable** - Emit logs, metrics, and traces for all critical paths'',
    ''3. **Recoverable** - Automatic retry with backoff'',
    ''4. **Tested** - Integration tests against real infrastructure'',
    '''',
    ''## Error Handling'',
    '''',
    ''### Error Categories'',
    '''',
    ''1. **Expected errors** - User input validation, not found, etc.'',
    ''   - Return typed error objects'',
    ''   - Log at INFO level'',
    ''   - Show user-friendly messages'',
    '''',
    ''2. **Unexpected errors** - System failures, network issues, etc.'',
    ''   - Log at ERROR level with full context'',
    ''   - Alert on-call if production'',
    ''   - Retry with exponential backoff'',
    '''',
    ''### Error Response Format'',
    '''',
    ''All errors should include:'',
    ''- `code` - Machine-readable error code'',
    ''- `message` - Human-readable message'',
    ''- `details` - Additional context (safe for logging)'',
    ''- `requestId` - Trace ID for debugging'',
    '''',
    ''## Observability'',
    '''',
    ''### Logging'',
    '''',
    ''Use structured logging:'',
    ''```javascript'',
    ''logger.info({'',
    ''  event: 'user_login','',
    ''  userId: '123','',
    ''  duration: 45,'',
    ''  success: true'',
    ''});'',
    ''```'',
    '''',
    ''**Log Levels:**'',
    ''- **DEBUG** - Detailed debugging (not in production)'',
    ''- **INFO** - Normal operations'',
    ''- **WARN** - Potential issues (rate limits, retries)'',
    ''- **ERROR** - Failures requiring attention'',
    '''',
    ''### Metrics'',
    '''',
    ''Track:'',
    ''- **Request latency** (p50, p95, p99)'',
    ''- **Error rate** (% of failed requests)'',
    ''- **Throughput** (requests per second)'',
    ''- **Resource usage** (CPU, memory, database connections)'',
    '''',
    ''### Tracing'',
    '''',
    ''- Generate trace ID for every request'',
    ''- Propagate trace ID across services'',
    ''- Emit spans for all significant operations'',
    '''',
    ''## Performance Requirements'',
    '''',
    ''### Latency Budgets'',
    '''',
    ''| Operation | p50 | p95 | p99 |'',
    ''|-----------|-----|-----|-----|'',
    ''| API requests | < 100ms | < 300ms | < 1s |'',
    ''| Database queries | < 50ms | < 150ms | < 500ms |'',
    ''| Background jobs | < 5s | < 30s | < 2m |'',
    '''',
    ''### Resource Limits'',
    '''',
    ''- **Memory** - Monitor heap usage, set max heap size'',
    ''- **CPU** - Alert on sustained > 70% usage'',
    ''- **Connections** - Pool and limit database/external connections'',
    '''',
    ''## Retry & Circuit Breaker'',
    '''',
    ''### Retry Strategy'',
    ''- Exponential backoff: 100ms, 200ms, 400ms, 800ms'',
    ''- Max retries: 3'',
    ''- Jitter: '' @ U00B1 @ ''25% to prevent thundering herd'',
    '''',
    ''### Circuit Breaker'',
    ''- **Closed** (normal): Requests flow through'',
    ''- **Open** (failing): Fast-fail without attempting request'',
    ''- **Half-open** (recovering): Allow limited requests to test recovery'',
    '''',
    ''## Deployment Safety'',
    '''',
    ''1. **Gradual rollout** - Deploy to small % of traffic first'',
    ''2. **Health checks** - Automated health endpoint'',
    ''3. **Rollback plan** - One-click rollback if needed'',
    ''4. **Database migrations** - Backward-compatible, run before code deploy'',
    '''',
    ''## Incident Response'',
    '''',
    ''When production issues occur:'',
    ''1. **Mitigate** - Stop the bleeding (rollback, scale up, etc.)'',
    ''2. **Investigate** - Use logs, metrics, traces to find root cause'',
    ''3. **Resolve** - Fix the underlying issue'',
    ''4. **Document** - Write postmortem (what, why, how to prevent)'',
    ''5. **Follow-up** - Implement prevention tasks'',
    '''',
    ''---'',
    '''',
    ''*Reliability is not optional. These standards apply to all production code.*'',
    ''''
  ]\<close>

definition getSecurityTemplate :: "string" where
  \<open>getSecurityTemplate =
   join_lines [
    ''# Security Guidelines'',
    '''',
    ''**Security principles and practices for this codebase.**'',
    '''',
    ''## Security Posture'',
    '''',
    ''1. **Zero trust** - Never trust user input'',
    ''2. **Least privilege** - Minimal access rights'',
    ''3. **Defense in depth** - Multiple security layers'',
    ''4. **Secure by default** - Safe defaults, opt-in to dangerous operations'',
    '''',
    ''## Input Validation'',
    '''',
    ''### Validation Rules'',
    '''',
    ''1. **Validate all inputs** - User data, API requests, file uploads, etc.'',
    ''2. **Whitelist over blacklist** - Define what's allowed, reject everything else'',
    ''3. **Parse at boundaries** - Validate external data at system entry points'',
    ''4. **Type safety** - Use schema validation (Zod, Yup, etc.)'',
    '''',
    ''### Common Vulnerabilities to Prevent'',
    '''',
    ''- **SQL Injection** - Use parameterized queries, never string interpolation'',
    ''- **XSS** - Escape all user content, use CSP headers'',
    ''- **CSRF** - Use CSRF tokens for state-changing operations'',
    ''- **Command Injection** - Never pass user input to shell commands'',
    ''- **Path Traversal** - Validate file paths, use allowlist for file access'',
    '''',
    ''## Authentication & Authorization'',
    '''',
    ''### Authentication'',
    ''- **Password storage** - bcrypt/argon2 with salt'',
    ''- **Session management** - Secure, httpOnly cookies'',
    ''- **Token expiry** - Short-lived access tokens, refresh tokens'',
    '''',
    ''### Authorization'',
    ''- **Role-based access control (RBAC)** - Define roles and permissions'',
    ''- **Principle of least privilege** - Users/services get minimum necessary access'',
    ''- **Authorization checks** - Verify permissions on every request'',
    '''',
    ''## Secrets Management'',
    '''',
    ''### Rules'',
    ''1. **Never commit secrets** - No API keys, passwords, tokens in code'',
    ''2. **Use environment variables** - Load secrets from env at runtime'',
    ''3. **Rotate secrets** - Regular rotation schedule'',
    ''4. **Limit secret scope** - Separate secrets per environment'',
    '''',
    ''### .env Files'',
    ''- `.env` - Never commit (add to .gitignore)'',
    ''- `.env.example` - Template without real values (safe to commit)'',
    '''',
    ''## Data Protection'',
    '''',
    ''### Data Classification'',
    ''- **Public** - Anyone can see'',
    ''- **Internal** - Employees only'',
    ''- **Confidential** - Need-to-know basis'',
    ''- **Restricted** - Legal/compliance requirements'',
    '''',
    ''### Encryption'',
    ''- **In transit** - TLS 1.3 for all network traffic'',
    ''- **At rest** - Encrypt sensitive data in database'',
    '''',
    ''## API Security'',
    '''',
    ''1. **Rate limiting** - Prevent abuse (e.g., 100 req/min per IP)'',
    ''2. **Input validation** - Validate request bodies, query params, headers'',
    ''3. **Output encoding** - Prevent XSS in API responses'',
    ''4. **CORS** - Restrict allowed origins'',
    '''',
    ''## Dependency Security'',
    '''',
    ''1. **Audit dependencies** - Run `npm audit` / `bun audit` regularly'',
    ''2. **Update regularly** - Keep dependencies up to date'',
    ''3. **Minimal dependencies** - Fewer dependencies = smaller attack surface'',
    ''4. **Verify integrity** - Use lock files, verify package signatures'',
    '''',
    ''## Security Testing'',
    '''',
    ''1. **Static analysis** - Linters catch common vulnerabilities'',
    ''2. **Dependency scanning** - Automated vulnerability scanning in CI'',
    ''3. **Manual review** - Security-critical code gets human review'',
    ''4. **Penetration testing** - Regular security audits'',
    '''',
    ''## Security Incident Response'',
    '''',
    ''If you discover a security vulnerability:'',
    ''1. **Do not publish** - Keep it private'',
    ''2. **Assess impact** - How severe is it?'',
    ''3. **Fix immediately** - Security bugs are P0'',
    ''4. **Notify users** - If user data was exposed'',
    ''5. **Postmortem** - How did it happen? How to prevent?'',
    '''',
    ''## Security Checklist'',
    '''',
    ''Before deploying:'',
    ''- [ ] All inputs validated'',
    ''- [ ] No secrets in code'',
    ''- [ ] Authentication/authorization implemented'',
    ''- [ ] HTTPS enforced'',
    ''- [ ] Security headers set (CSP, HSTS, etc.)'',
    ''- [ ] Rate limiting enabled'',
    ''- [ ] Dependencies audited'',
    ''- [ ] Error messages don't leak sensitive info'',
    '''',
    ''---'',
    '''',
    ''*Security is everyone's responsibility. When in doubt, ask for a security review.*'',
    ''''
  ]\<close>

definition getDesignDocTemplate :: "string" where
  \<open>getDesignDocTemplate =
   join_lines [
    ''# [Feature/Component Name]'',
    '''',
    ''**Status:** [Draft | In Review | Approved | Implemented | Deprecated]'',
    ''**Author:** [Agent/Human]'',
    ''**Created:** YYYY-MM-DD'',
    ''**Last Updated:** YYYY-MM-DD'',
    '''',
    ''## Overview'',
    '''',
    ''Brief 2-3 sentence summary of what this design document covers.'',
    '''',
    ''## Context & Motivation'',
    '''',
    ''### Problem Statement'',
    ''What problem are we solving? Why does it need to be solved?'',
    '''',
    ''### Current State'',
    ''What exists today? What are the pain points?'',
    '''',
    ''### Goals'',
    ''- What are we trying to achieve?'',
    ''- What does success look like?'',
    '''',
    ''### Non-Goals'',
    ''- What are we explicitly not solving?'',
    ''- What's out of scope?'',
    '''',
    ''## Proposed Design'',
    '''',
    ''### High-Level Approach'',
    ''Describe the solution at a conceptual level.'',
    '''',
    ''### Detailed Design'',
    '''',
    ''#### Component/Module Structure'',
    ''```'',
    ''[Diagram or code structure]'',
    ''```'',
    '''',
    ''#### Data Models'',
    ''```typescript'',
    ''// Type definitions, schemas, etc.'',
    ''```'',
    '''',
    ''#### API/Interface'',
    ''```typescript'',
    ''// Public interfaces'',
    ''```'',
    '''',
    ''#### Implementation Details'',
    ''Key technical decisions and how things work internally.'',
    '''',
    ''## Alternatives Considered'',
    '''',
    ''### Alternative 1: [Name]'',
    ''**Pros:**'',
    ''- ...'',
    '''',
    ''**Cons:**'',
    ''- ...'',
    '''',
    ''**Why not chosen:** ...'',
    '''',
    ''### Alternative 2: [Name]'',
    ''**Pros:**'',
    ''- ...'',
    '''',
    ''**Cons:**'',
    ''- ...'',
    '''',
    ''**Why not chosen:** ...'',
    '''',
    ''## Tradeoffs & Decisions'',
    '''',
    ''| Decision | Rationale | Tradeoffs |'',
    ''|----------|-----------|-----------|'',
    ''| Example  | Why       | What we gain vs lose |'',
    '''',
    ''## Implementation Plan'',
    '''',
    ''1. **Phase 1:** ...'',
    ''2. **Phase 2:** ...'',
    ''3. **Phase 3:** ...'',
    '''',
    ''## Testing Strategy'',
    '''',
    ''- **Unit tests:** What will be unit tested?'',
    ''- **Integration tests:** What will be integration tested?'',
    ''- **Edge cases:** What edge cases need coverage?'',
    '''',
    ''## Security Considerations'',
    '''',
    ''- What security implications does this have?'',
    ''- What mitigations are in place?'',
    '''',
    ''## Performance Implications'',
    '''',
    ''- What is the performance impact?'',
    ''- Are there any bottlenecks?'',
    ''- What monitoring is needed?'',
    '''',
    ''## Rollout Plan'',
    '''',
    ''- How will this be deployed?'',
    ''- Is there a gradual rollout strategy?'',
    ''- What metrics will we track?'',
    '''',
    ''## Open Questions'',
    '''',
    ''- [ ] Question 1?'',
    ''- [ ] Question 2?'',
    '''',
    ''## References'',
    '''',
    ''- [Related design doc](./other-doc.md)'',
    ''- [External reference](https://example.com)'',
    '''',
    ''---'',
    '''',
    ''*Update this document as the design evolves during implementation.*'',
    ''''
  ]\<close>

definition getExecPlanTemplate :: "string" where
  \<open>getExecPlanTemplate =
   join_lines [
    ''# [Feature/Task Name]'',
    '''',
    ''**Status:** [Draft | In Review | Approved | In Progress | Completed]'',
    ''**Owner:** [Agent/Human]'',
    ''**Created:** YYYY-MM-DD'',
    ''**Target Completion:** YYYY-MM-DD'',
    ''**Actual Completion:** YYYY-MM-DD (if completed)'',
    '''',
    ''## Context'',
    '''',
    ''### What are we building?'',
    ''Brief description of the feature/task.'',
    '''',
    ''### Why are we building it?'',
    ''User need, business value, or technical requirement.'',
    '''',
    ''### Success Criteria'',
    ''- [ ] Criterion 1'',
    ''- [ ] Criterion 2'',
    ''- [ ] Criterion 3'',
    '''',
    ''## Approach'',
    '''',
    ''### High-Level Strategy'',
    ''How will we approach this work?'',
    '''',
    ''### Key Decisions'',
    ''| Decision | Rationale | Alternatives Considered |'',
    ''|----------|-----------|-------------------------|'',
    ''| Example  | Why       | What else we could do   |'',
    '''',
    ''### Dependencies'',
    ''- **Blocks:** What this work depends on'',
    ''- **Blocked by:** What depends on this work'',
    '''',
    ''## Implementation Tasks'',
    '''',
    ''### Phase 1: [Phase Name]'',
    ''- [ ] Task 1 (Complexity: S/M/L)'',
    ''- [ ] Task 2 (Complexity: S/M/L)'',
    ''- [ ] Task 3 (Complexity: S/M/L)'',
    '''',
    ''### Phase 2: [Phase Name]'',
    ''- [ ] Task 1 (Complexity: S/M/L)'',
    ''- [ ] Task 2 (Complexity: S/M/L)'',
    '''',
    ''### Phase 3: [Phase Name]'',
    ''- [ ] Task 1 (Complexity: S/M/L)'',
    '''',
    ''**Complexity Legend:**'',
    ''- S (Small): < 2 hours'',
    ''- M (Medium): 2-8 hours'',
    ''- L (Large): > 8 hours'',
    '''',
    ''## Validation Plan'',
    '''',
    ''### Testing'',
    ''- What tests will be written?'',
    ''- How will we validate correctness?'',
    '''',
    ''### Quality Checks'',
    ''- [ ] Tests pass'',
    ''- [ ] Linters pass'',
    ''- [ ] Documentation updated'',
    ''- [ ] Performance benchmarks met'',
    '''',
    ''### Acceptance Criteria'',
    ''- [ ] Feature works on happy path'',
    ''- [ ] Error cases handled'',
    ''- [ ] Edge cases covered'',
    ''- [ ] Performance meets requirements'',
    '''',
    ''## Risks & Mitigations'',
    '''',
    ''| Risk | Likelihood | Impact | Mitigation |'',
    ''|------|------------|--------|------------|'',
    ''| Example risk | Medium | High | How we'll handle it |'',
    '''',
    ''## Progress Log'',
    '''',
    ''### YYYY-MM-DD'',
    ''- Started Phase 1'',
    ''- Completed Task 1'',
    ''- Discovered issue with X, created tech debt entry'',
    '''',
    ''### YYYY-MM-DD'',
    ''- Completed Phase 1'',
    ''- Started Phase 2'',
    '''',
    ''## Decision Log'',
    '''',
    ''### YYYY-MM-DD: [Decision Title]'',
    ''**Context:** What prompted this decision'',
    ''**Decision:** What we decided'',
    ''**Rationale:** Why we made this choice'',
    ''**Impact:** How this affects the plan'',
    '''',
    ''## Learnings'',
    '''',
    ''### What Went Well'',
    ''- ...'',
    '''',
    ''### What Could Be Improved'',
    ''- ...'',
    '''',
    ''### What We Learned'',
    ''- ...'',
    '''',
    ''---'',
    '''',
    ''*Move to `docs/exec-plans/completed/` when finished.*'',
    ''''
  ]\<close>

definition getProductSpecTemplate :: "string" where
  \<open>getProductSpecTemplate =
   join_lines [
    ''# [Feature Name]'',
    '''',
    ''**Status:** [Draft | In Review | Approved | In Development | Shipped]'',
    ''**Owner:** [Product/Human]'',
    ''**Created:** YYYY-MM-DD'',
    ''**Target Ship:** YYYY-MM-DD'',
    '''',
    ''## Overview'',
    '''',
    ''One-paragraph summary of what this feature is and why it matters.'',
    '''',
    ''## Problem Statement'',
    '''',
    ''### User Pain Point'',
    ''What problem do users have today?'',
    '''',
    ''### Evidence'',
    ''How do we know this is a problem? (User feedback, data, support tickets, etc.)'',
    '''',
    ''### Impact'',
    ''Who is affected? How many users?'',
    '''',
    ''## Goals'',
    '''',
    ''### User Goals'',
    ''What does the user want to accomplish?'',
    '''',
    ''### Business Goals'',
    ''What business metric does this move?'',
    '''',
    ''### Success Metrics'',
    ''How will we measure success?'',
    ''- Metric 1: Target value'',
    ''- Metric 2: Target value'',
    '''',
    ''## User Stories'',
    '''',
    ''### Primary User Story'',
    ''**As a** [type of user]'',
    ''**I want** [goal]'',
    ''**So that** [benefit]'',
    '''',
    ''### Additional User Stories'',
    ''- **As a** ... **I want** ... **So that** ...'',
    ''- **As a** ... **I want** ... **So that** ...'',
    '''',
    ''## User Experience'',
    '''',
    ''### User Flow'',
    ''1. User does X'',
    ''2. System responds with Y'',
    ''3. User sees Z'',
    '''',
    ''### Mockups/Wireframes'',
    ''[Link to designs or embed images]'',
    '''',
    ''### Edge Cases'',
    ''- What happens if X?'',
    ''- What if user does Y?'',
    '''',
    ''## Requirements'',
    '''',
    ''### Functional Requirements'',
    ''- [ ] Requirement 1'',
    ''- [ ] Requirement 2'',
    ''- [ ] Requirement 3'',
    '''',
    ''### Non-Functional Requirements'',
    ''- [ ] Performance: < Xms response time'',
    ''- [ ] Accessibility: WCAG 2.1 AA compliant'',
    ''- [ ] Security: [Specific security requirements]'',
    '''',
    ''### Out of Scope'',
    ''- Explicitly not included in this version'',
    '''',
    ''## Technical Considerations'',
    '''',
    ''### Technical Constraints'',
    ''Any technical limitations or requirements?'',
    '''',
    ''### Dependencies'',
    ''What other systems/features does this depend on?'',
    '''',
    ''### Data Requirements'',
    ''What data do we need to collect/store?'',
    '''',
    ''## Acceptance Criteria'',
    '''',
    ''- [ ] User can accomplish X'',
    ''- [ ] Error case Y is handled gracefully'',
    ''- [ ] Performance meets Z requirement'',
    ''- [ ] Accessible via keyboard'',
    ''- [ ] Works on mobile and desktop'',
    '''',
    ''## Launch Plan'',
    '''',
    ''### Phased Rollout'',
    ''1. **Phase 1:** Internal testing'',
    ''2. **Phase 2:** Beta users (X% of traffic)'',
    ''3. **Phase 3:** General availability'',
    '''',
    ''### Monitoring'',
    ''What metrics/logs will we track post-launch?'',
    '''',
    ''### Rollback Plan'',
    ''How do we turn this off if needed?'',
    '''',
    ''## Open Questions'',
    '''',
    ''- [ ] Question 1?'',
    ''- [ ] Question 2?'',
    '''',
    ''## References'',
    '''',
    ''- [Related product spec](./other-spec.md)'',
    ''- [User research](link)'',
    ''- [Design mockups](link)'',
    '''',
    ''---'',
    '''',
    ''*Update this spec as requirements evolve.*'',
    ''''
  ]\<close>

definition getTechDebtTrackerTemplate :: "string" where
  \<open>getTechDebtTrackerTemplate =
   join_lines [
    ''# Technical Debt Tracker'',
    '''',
    ''**Last Updated:** YYYY-MM-DD'',
    '''',
    ''## Active Technical Debt'',
    '''',
    ''### P0 - Critical (Must Fix)'',
    ''| Item | Description | Impact | Created | Owner | Tracked In |'',
    ''|------|-------------|--------|---------|-------|------------|'',
    ''| TBD  | Description | High   | Date    | Agent/Human | Issue/PR |'',
    '''',
    ''### P1 - High Priority (Fix Soon)'',
    ''| Item | Description | Impact | Created | Owner | Tracked In |'',
    ''|------|-------------|--------|---------|-------|------------|'',
    ''| TBD  | Description | Medium | Date    | Agent/Human | Issue/PR |'',
    '''',
    ''### P2 - Medium Priority (Plan to Fix)'',
    ''| Item | Description | Impact | Created | Owner | Tracked In |'',
    ''|------|-------------|--------|---------|-------|------------|'',
    ''| TBD  | Description | Low-Medium | Date | Agent/Human | Issue/PR |'',
    '''',
    ''### P3 - Low Priority (Nice to Have)'',
    ''| Item | Description | Impact | Created | Owner | Tracked In |'',
    ''|------|-------------|--------|---------|-------|------------|'',
    ''| TBD  | Description | Low    | Date    | Agent/Human | Issue/PR |'',
    '''',
    ''## Debt Categories'',
    '''',
    ''### Code Quality'',
    ''- Duplicated code that should be abstracted'',
    ''- Complex functions that need refactoring'',
    ''- Missing error handling'',
    ''- Inconsistent patterns'',
    '''',
    ''### Testing'',
    ''- Missing test coverage'',
    ''- Flaky tests'',
    ''- Test infrastructure improvements'',
    '''',
    ''### Documentation'',
    ''- Outdated documentation'',
    ''- Missing API documentation'',
    ''- Unclear code comments'',
    '''',
    ''### Performance'',
    ''- Known performance bottlenecks'',
    ''- Missing performance monitoring'',
    ''- Unoptimized queries'',
    '''',
    ''### Security'',
    ''- Known security vulnerabilities'',
    ''- Missing security controls'',
    ''- Outdated dependencies'',
    '''',
    ''### Infrastructure'',
    ''- Configuration management issues'',
    ''- Missing monitoring/alerting'',
    ''- Deployment process improvements'',
    '''',
    ''## Resolved Debt (Recent)'',
    '''',
    ''| Item | Description | Resolved Date | PR | Learnings |'',
    ''|------|-------------|---------------|-------|-----------|'',
    ''| TBD  | What was fixed | YYYY-MM-DD | #123 | What we learned |'',
    '''',
    ''## Debt Prevention'',
    '''',
    ''### Golden Principles'',
    ''1. **No duplicate code** - Extract to shared utilities'',
    ''2. **Parse at boundaries** - Validate all external data'',
    ''3. **Consistent error handling** - Use standard error patterns'',
    ''4. **Automated cleanup** - Run cleanup agents weekly'',
    '''',
    ''### Automated Checks'',
    ''- Linters catch common issues'',
    ''- CI validates documentation freshness'',
    ''- Dependency audits run daily'',
    ''- Quality scores tracked weekly'',
    '''',
    ''---'',
    '''',
    ''*This tracker is maintained by humans and agents. Update when you identify or resolve technical debt.*'',
    ''''
  ]\<close>

definition getCoreBeliefsTemplate :: "string" where
  \<open>getCoreBeliefsTemplate =
   join_lines [
    ''# Core Beliefs'',
    '''',
    ''**Fundamental principles for agent-first development in this repository.**'',
    '''',
    ''Last Updated: YYYY-MM-DD'',
    '''',
    ''## Agent-First Operating Principles'',
    '''',
    ''### 1. Repository is the Source of Truth'',
    ''**Belief:** If it's not in the repository, it doesn't exist to agents.'',
    '''',
    ''**Implications:**'',
    ''- All knowledge must be versioned in the repository'',
    ''- Slack discussions must be captured in design docs'',
    ''- External docs must be extracted to `docs/references/`'',
    ''- Decisions must be documented, not just discussed'',
    '''',
    ''### 2. Progressive Disclosure'',
    ''**Belief:** Give agents a map, not an encyclopedia.'',
    '''',
    ''**Implications:**'',
    ''- AGENTS.md is a table of contents (~100 lines)'',
    ''- Detailed docs live in `docs/` directory'',
    ''- Links provide navigation, not inline walls of text'',
    ''- Context grows as needed, not all up-front'',
    '''',
    ''### 3. Enforce Mechanically'',
    ''**Belief:** Linters and tests are better than manual review.'',
    '''',
    ''**Implications:**'',
    ''- Architectural constraints are enforced by custom linters'',
    ''- Documentation freshness is validated in CI'',
    ''- Code quality is measured automatically'',
    ''- Humans review judgment calls, not mechanical issues'',
    '''',
    ''### 4. Agent Legibility First'',
    ''**Belief:** Optimize for agent reasoning, not just human aesthetics.'',
    '''',
    ''**Implications:**'',
    ''- Structure and patterns matter more than style'',
    ''- Consistency enables pattern recognition'',
    ''- Explicit is better than implicit'',
    ''- Documentation explains "why," not "what"'',
    '''',
    ''### 5. Continuous Cleanup'',
    ''**Belief:** Technical debt is like interest'' @ U2014 @ ''pay it down continuously.'',
    '''',
    ''**Implications:**'',
    ''- Automated cleanup runs regularly'',
    ''- Bad patterns are fixed as soon as spotted'',
    ''- Quality scores track drift over time'',
    ''- "Friday cleanup" is automated, not manual'',
    '''',
    ''### 6. Real Environments Over Mocks'',
    ''**Belief:** Tests should validate real behavior, not mocked behavior.'',
    '''',
    ''**Implications:**'',
    ''- Use Docker for databases, Redis, external services'',
    ''- Integration tests over unit tests'',
    ''- Validate actual contracts, not assumptions'',
    ''- Local dev mirrors production'',
    '''',
    ''### 7. Boring Technology Wins'',
    ''**Belief:** Predictable, well-documented tools are better than exciting new ones.'',
    '''',
    ''**Implications:**'',
    ''- Prefer standard libraries over cutting-edge frameworks'',
    ''- Choose technologies agents can reason about'',
    ''- Stability and composability over novelty'',
    ''- Internalize when external is too opaque'',
    '''',
    ''### 8. Strict Boundaries, Flexible Internals'',
    ''**Belief:** Enforce constraints at boundaries, allow autonomy within them.'',
    '''',
    ''**Implications:**'',
    ''- Layered architecture is non-negotiable'',
    ''- Within layers, implementation details are flexible'',
    ''- Cross-cutting concerns go through explicit interfaces'',
    ''- Dependency directions are enforced, not suggested'',
    '''',
    ''### 9. Feedback Loops are Multipliers'',
    ''**Belief:** Fast, automated feedback enables speed without chaos.'',
    '''',
    ''**Implications:**'',
    ''- CI validates every PR'',
    ''- Agents can test their own changes'',
    ''- Chrome DevTools lets agents drive the UI'',
    ''- Observability stack makes behavior visible'',
    '''',
    ''### 10. Documentation is Code'',
    ''**Belief:** Docs are not second-class citizens'' @ U2014 @ ''they are part of the system.'',
    '''',
    ''**Implications:**'',
    ''- Docs are versioned with code'',
    ''- Stale docs break CI'',
    ''- Documentation gaps are treated as bugs'',
    ''- Design docs are reviewed like code'',
    '''',
    ''## Anti-Patterns to Avoid'',
    '''',
    ''### '' @ U274C @ '' The "One Big AGENTS.md"'',
    ''- **Problem:** Crowds out context, impossible to maintain'',
    ''- **Solution:** AGENTS.md as table of contents, detailed docs in `docs/`'',
    '''',
    ''### '' @ U274C @ '' Relying on External Knowledge'',
    ''- **Problem:** Agents can't access Slack, Google Docs, or tribal knowledge'',
    ''- **Solution:** Everything must be in-repo and discoverable'',
    '''',
    ''### '' @ U274C @ '' Mocking Everything'',
    ''- **Problem:** Tests pass but real code breaks'',
    ''- **Solution:** Use Docker for real infrastructure in tests'',
    '''',
    ''### '' @ U274C @ '' Manual Quality Gates'',
    ''- **Problem:** Doesn't scale, blocks throughput'',
    ''- **Solution:** Automate checks, make failures obvious'',
    '''',
    ''### '' @ U274C @ '' Letting Debt Compound'',
    ''- **Problem:** Becomes overwhelming, requires painful cleanup'',
    ''- **Solution:** Continuous automated cleanup, fix patterns early'',
    '''',
    ''## Evolution of Beliefs'',
    '''',
    ''These beliefs are living principles. As we learn what works and what doesn't, we update them.'',
    '''',
    ''### Change Log'',
    '''',
    ''| Date | Change | Rationale |'',
    ''|------|--------|-----------|'',
    ''| YYYY-MM-DD | Initial beliefs documented | Establish foundation |'',
    '''',
    ''---'',
    '''',
    ''*These beliefs guide all architectural and process decisions. Challenge them when they don't serve us.*'',
    ''''
  ]\<close>

definition getValidationScriptTemplate :: "validation_language \<Rightarrow> string" where
  \<open>getValidationScriptTemplate language =
   (if language = Typescript then join_lines [
      ''#!/usr/bin/env tsx'',
      ''/**'',
      '' * Structure Validation Script'',
      '' * Validates the agent-first project structure and documentation'',
      '' */'',
      '''',
      ''import { existsSync, readdirSync, readFileSync, statSync } from 'node:fs';'',
      ''import { join } from 'node:path';'',
      '''',
      ''interface ValidationResult {'',
      ''	passed: boolean;'',
      ''	message: string;'',
      ''}'',
      '''',
      ''class StructureValidator {'',
      ''	private rootDir: string;'',
      ''	private errors: string[] = [];'',
      ''	private warnings: string[] = [];'',
      '''',
      ''	constructor(rootDir: string = process.cwd()) {'',
      ''		this.rootDir = rootDir;'',
      ''	}'',
      '''',
      ''	validate(): boolean {'',
      ''		console.log('' @ SQ @ U1F50D @ '' Validating project structure...'' @ BSL @ ''n');'',
      '''',
      ''		this.validateRootDocs();'',
      ''		this.validateDocsStructure();'',
      ''		this.validateCrossLinks();'',
      ''		this.validateDocFreshness();'',
      '''',
      ''		this.printResults();'',
      '''',
      ''		return this.errors.length === 0;'',
      ''	}'',
      '''',
      ''	private validateRootDocs(): void {'',
      ''		const requiredDocs = ['',
      ''			'AGENTS.md','',
      ''			'CLAUDE.md','',
      ''			'ARCHITECTURE.md','',
      ''			'DESIGN.md','',
      ''			'PLANS.md','',
      ''			'PRODUCT_SENSE.md','',
      ''			'QUALITY_SCORE.md','',
      ''			'RELIABILITY.md','',
      ''			'SECURITY.md','',
      ''		];'',
      '''',
      ''		for (const doc of requiredDocs) {'',
      ''			if (!existsSync(join(this.rootDir, doc))) {'',
      ''				this.errors.push(`Missing required document: ${doc}`);'',
      ''			}'',
      ''		}'',
      '''',
      ''		// Validate AGENTS.md and CLAUDE.md are identical'',
      ''		if ('',
      ''			existsSync(join(this.rootDir, 'AGENTS.md')) &&'',
      ''			existsSync(join(this.rootDir, 'CLAUDE.md'))'',
      ''		) {'',
      ''			const agentsContent = readFileSync('',
      ''				join(this.rootDir, 'AGENTS.md'),'',
      ''				'utf-8','',
      ''			);'',
      ''			const claudeContent = readFileSync('',
      ''				join(this.rootDir, 'CLAUDE.md'),'',
      ''				'utf-8','',
      ''			);'',
      '''',
      ''			if (agentsContent !== claudeContent) {'',
      ''				this.errors.push('AGENTS.md and CLAUDE.md must be identical');'',
      ''			}'',
      ''		}'',
      '''',
      ''		// Validate AGENTS.md is roughly 100 lines (allow some variance)'',
      ''		if (existsSync(join(this.rootDir, 'AGENTS.md'))) {'',
      ''			const agentsContent = readFileSync('',
      ''				join(this.rootDir, 'AGENTS.md'),'',
      ''				'utf-8','',
      ''			);'',
      ''			const lineCount = agentsContent.split('' @ SQ @ BSL @ ''n').length;'',
      '''',
      ''			if (lineCount > 150) {'',
      ''				this.warnings.push('',
      ''					`AGENTS.md is ${lineCount} lines (recommended: ~100 lines). Consider moving details to docs/`,'',
      ''				);'',
      ''			}'',
      ''		}'',
      ''	}'',
      '''',
      ''	private validateDocsStructure(): void {'',
      ''		const requiredDirs = ['',
      ''			'docs/design-docs','',
      ''			'docs/exec-plans/active','',
      ''			'docs/exec-plans/completed','',
      ''			'docs/product-specs','',
      ''			'docs/references','',
      ''			'docs/generated','',
      ''		];'',
      '''',
      ''		for (const dir of requiredDirs) {'',
      ''			if (!existsSync(join(this.rootDir, dir))) {'',
      ''				this.errors.push(`Missing required directory: ${dir}`);'',
      ''			}'',
      ''		}'',
      '''',
      ''		// Validate index files exist'',
      ''		const requiredIndexes = ['',
      ''			'docs/design-docs/index.md','',
      ''			'docs/product-specs/index.md','',
      ''		];'',
      '''',
      ''		for (const index of requiredIndexes) {'',
      ''			if (!existsSync(join(this.rootDir, index))) {'',
      ''				this.warnings.push(`Missing index file: ${index}`);'',
      ''			}'',
      ''		}'',
      ''	}'',
      '''',
      ''	private validateCrossLinks(): void {'',
      ''		// Basic validation: check that referenced files exist'',
      ''		const agentsPath = join(this.rootDir, 'AGENTS.md');'',
      ''		if (!existsSync(agentsPath)) return;'',
      '''',
      ''		const agentsContent = readFileSync(agentsPath, 'utf-8');'',
      ''		const linkRegex = /'' @ BSL @ ''[([^'' @ BSL @ '']]+)'' @ BSL @ '']'' @ BSL @ ''(([^)]+)'' @ BSL @ '')/g;'',
      ''		let match: RegExpExecArray | null;'',
      '''',
      ''		while ((match = linkRegex.exec(agentsContent)) !== null) {'',
      ''			const linkPath = match[2];'',
      '''',
      ''			// Skip external links'',
      ''			if (linkPath.startsWith('http')) continue;'',
      '''',
      ''			const fullPath = join(this.rootDir, linkPath);'',
      ''			if (!existsSync(fullPath)) {'',
      ''				this.warnings.push('',
      ''					`Broken link in AGENTS.md: ${linkPath}`,'',
      ''				);'',
      ''			}'',
      ''		}'',
      ''	}'',
      '''',
      ''	private validateDocFreshness(): void {'',
      ''		// Check that design docs have been updated recently'',
      ''		const designDocsDir = join(this.rootDir, 'docs/design-docs');'',
      ''		if (!existsSync(designDocsDir)) return;'',
      '''',
      ''		const files = readdirSync(designDocsDir).filter((f) =>'',
      ''			f.endsWith('.md'),'',
      ''		);'',
      '''',
      ''		if (files.length === 0) {'',
      ''			this.warnings.push('',
      ''				'No design documents found in docs/design-docs/','',
      ''			);'',
      ''			return;'',
      ''		}'',
      '''',
      ''		const now = Date.now();'',
      ''		const sixMonths = 6 * 30 * 24 * 60 * 60 * 1000;'',
      '''',
      ''		for (const file of files) {'',
      ''			if (file === 'index.md' || file === 'template.md') continue;'',
      '''',
      ''			const filePath = join(designDocsDir, file);'',
      ''			const stats = statSync(filePath);'',
      ''			const age = now - stats.mtimeMs;'',
      '''',
      ''			if (age > sixMonths) {'',
      ''				this.warnings.push('',
      ''					`Design doc hasn't been updated in 6+ months: ${file}`,'',
      ''				);'',
      ''			}'',
      ''		}'',
      ''	}'',
      '''',
      ''	private printResults(): void {'',
      ''		console.log('' @ SQ @ BSL @ ''n' + '='.repeat(60));'',
      '''',
      ''		if (this.errors.length === 0 && this.warnings.length === 0) {'',
      ''			console.log('' @ SQ @ U2705 @ '' All validation checks passed!');'',
      ''		} else {'',
      ''			if (this.errors.length > 0) {'',
      ''				console.log(`'' @ BSL @ ''n'' @ U274C @ '' Errors (${this.errors.length}):'' @ BSL @ ''n`);'',
      ''				for (const error of this.errors) {'',
      ''					console.log(`  - ${error}`);'',
      ''				}'',
      ''			}'',
      '''',
      ''			if (this.warnings.length > 0) {'',
      ''				console.log(`'' @ BSL @ ''n'' @ U26A0 @ UFE0F @ ''  Warnings (${this.warnings.length}):'' @ BSL @ ''n`);'',
      ''				for (const warning of this.warnings) {'',
      ''					console.log(`  - ${warning}`);'',
      ''				}'',
      ''			}'',
      ''		}'',
      '''',
      ''		console.log('' @ SQ @ BSL @ ''n' + '='.repeat(60) + '' @ SQ @ BSL @ ''n');'',
      ''	}'',
      ''}'',
      '''',
      ''// Run validation'',
      ''const validator = new StructureValidator();'',
      ''const success = validator.validate();'',
      '''',
      ''process.exit(success ? 0 : 1);'',
      ''''
  ]
   else join_lines [
      ''#!/usr/bin/env node'',
      ''/**'',
      '' * Structure Validation Script'',
      '' * Validates the agent-first project structure and documentation'',
      '' */'',
      '''',
      ''import { existsSync, readdirSync, readFileSync, statSync } from 'node:fs';'',
      ''import { join } from 'node:path';'',
      '''',
      ''class StructureValidator {'',
      ''	constructor(rootDir = process.cwd()) {'',
      ''		this.rootDir = rootDir;'',
      ''		this.errors = [];'',
      ''		this.warnings = [];'',
      ''	}'',
      '''',
      ''	validate() {'',
      ''		console.log('' @ SQ @ U1F50D @ '' Validating project structure...'' @ BSL @ ''n');'',
      '''',
      ''		this.validateRootDocs();'',
      ''		this.validateDocsStructure();'',
      ''		this.validateCrossLinks();'',
      ''		this.validateDocFreshness();'',
      '''',
      ''		this.printResults();'',
      '''',
      ''		return this.errors.length === 0;'',
      ''	}'',
      '''',
      ''	validateRootDocs() {'',
      ''		const requiredDocs = ['',
      ''			'AGENTS.md','',
      ''			'CLAUDE.md','',
      ''			'ARCHITECTURE.md','',
      ''			'DESIGN.md','',
      ''			'PLANS.md','',
      ''			'PRODUCT_SENSE.md','',
      ''			'QUALITY_SCORE.md','',
      ''			'RELIABILITY.md','',
      ''			'SECURITY.md','',
      ''		];'',
      '''',
      ''		for (const doc of requiredDocs) {'',
      ''			if (!existsSync(join(this.rootDir, doc))) {'',
      ''				this.errors.push(`Missing required document: ${doc}`);'',
      ''			}'',
      ''		}'',
      '''',
      ''		// Validate AGENTS.md and CLAUDE.md are identical'',
      ''		if ('',
      ''			existsSync(join(this.rootDir, 'AGENTS.md')) &&'',
      ''			existsSync(join(this.rootDir, 'CLAUDE.md'))'',
      ''		) {'',
      ''			const agentsContent = readFileSync('',
      ''				join(this.rootDir, 'AGENTS.md'),'',
      ''				'utf-8','',
      ''			);'',
      ''			const claudeContent = readFileSync('',
      ''				join(this.rootDir, 'CLAUDE.md'),'',
      ''				'utf-8','',
      ''			);'',
      '''',
      ''			if (agentsContent !== claudeContent) {'',
      ''				this.errors.push('AGENTS.md and CLAUDE.md must be identical');'',
      ''			}'',
      ''		}'',
      '''',
      ''		// Validate AGENTS.md is roughly 100 lines (allow some variance)'',
      ''		if (existsSync(join(this.rootDir, 'AGENTS.md'))) {'',
      ''			const agentsContent = readFileSync('',
      ''				join(this.rootDir, 'AGENTS.md'),'',
      ''				'utf-8','',
      ''			);'',
      ''			const lineCount = agentsContent.split('' @ SQ @ BSL @ ''n').length;'',
      '''',
      ''			if (lineCount > 150) {'',
      ''				this.warnings.push('',
      ''					`AGENTS.md is ${lineCount} lines (recommended: ~100 lines). Consider moving details to docs/`,'',
      ''				);'',
      ''			}'',
      ''		}'',
      ''	}'',
      '''',
      ''	validateDocsStructure() {'',
      ''		const requiredDirs = ['',
      ''			'docs/design-docs','',
      ''			'docs/exec-plans/active','',
      ''			'docs/exec-plans/completed','',
      ''			'docs/product-specs','',
      ''			'docs/references','',
      ''			'docs/generated','',
      ''		];'',
      '''',
      ''		for (const dir of requiredDirs) {'',
      ''			if (!existsSync(join(this.rootDir, dir))) {'',
      ''				this.errors.push(`Missing required directory: ${dir}`);'',
      ''			}'',
      ''		}'',
      '''',
      ''		// Validate index files exist'',
      ''		const requiredIndexes = ['',
      ''			'docs/design-docs/index.md','',
      ''			'docs/product-specs/index.md','',
      ''		];'',
      '''',
      ''		for (const index of requiredIndexes) {'',
      ''			if (!existsSync(join(this.rootDir, index))) {'',
      ''				this.warnings.push(`Missing index file: ${index}`);'',
      ''			}'',
      ''		}'',
      ''	}'',
      '''',
      ''	validateCrossLinks() {'',
      ''		// Basic validation: check that referenced files exist'',
      ''		const agentsPath = join(this.rootDir, 'AGENTS.md');'',
      ''		if (!existsSync(agentsPath)) return;'',
      '''',
      ''		const agentsContent = readFileSync(agentsPath, 'utf-8');'',
      ''		const linkRegex = /'' @ BSL @ ''[([^'' @ BSL @ '']]+)'' @ BSL @ '']'' @ BSL @ ''(([^)]+)'' @ BSL @ '')/g;'',
      ''		let match;'',
      '''',
      ''		while ((match = linkRegex.exec(agentsContent)) !== null) {'',
      ''			const linkPath = match[2];'',
      '''',
      ''			// Skip external links'',
      ''			if (linkPath.startsWith('http')) continue;'',
      '''',
      ''			const fullPath = join(this.rootDir, linkPath);'',
      ''			if (!existsSync(fullPath)) {'',
      ''				this.warnings.push('',
      ''					`Broken link in AGENTS.md: ${linkPath}`,'',
      ''				);'',
      ''			}'',
      ''		}'',
      ''	}'',
      '''',
      ''	validateDocFreshness() {'',
      ''		// Check that design docs have been updated recently'',
      ''		const designDocsDir = join(this.rootDir, 'docs/design-docs');'',
      ''		if (!existsSync(designDocsDir)) return;'',
      '''',
      ''		const files = readdirSync(designDocsDir).filter((f) =>'',
      ''			f.endsWith('.md'),'',
      ''		);'',
      '''',
      ''		if (files.length === 0) {'',
      ''			this.warnings.push('',
      ''				'No design documents found in docs/design-docs/','',
      ''			);'',
      ''			return;'',
      ''		}'',
      '''',
      ''		const now = Date.now();'',
      ''		const sixMonths = 6 * 30 * 24 * 60 * 60 * 1000;'',
      '''',
      ''		for (const file of files) {'',
      ''			if (file === 'index.md' || file === 'template.md') continue;'',
      '''',
      ''			const filePath = join(designDocsDir, file);'',
      ''			const stats = statSync(filePath);'',
      ''			const age = now - stats.mtimeMs;'',
      '''',
      ''			if (age > sixMonths) {'',
      ''				this.warnings.push('',
      ''					`Design doc hasn't been updated in 6+ months: ${file}`,'',
      ''				);'',
      ''			}'',
      ''		}'',
      ''	}'',
      '''',
      ''	printResults() {'',
      ''		console.log('' @ SQ @ BSL @ ''n' + '='.repeat(60));'',
      '''',
      ''		if (this.errors.length === 0 && this.warnings.length === 0) {'',
      ''			console.log('' @ SQ @ U2705 @ '' All validation checks passed!');'',
      ''		} else {'',
      ''			if (this.errors.length > 0) {'',
      ''				console.log(`'' @ BSL @ ''n'' @ U274C @ '' Errors (${this.errors.length}):'' @ BSL @ ''n`);'',
      ''				for (const error of this.errors) {'',
      ''					console.log(`  - ${error}`);'',
      ''				}'',
      ''			}'',
      '''',
      ''			if (this.warnings.length > 0) {'',
      ''				console.log(`'' @ BSL @ ''n'' @ U26A0 @ UFE0F @ ''  Warnings (${this.warnings.length}):'' @ BSL @ ''n`);'',
      ''				for (const warning of this.warnings) {'',
      ''					console.log(`  - ${warning}`);'',
      ''				}'',
      ''			}'',
      ''		}'',
      '''',
      ''		console.log('' @ SQ @ BSL @ ''n' + '='.repeat(60) + '' @ SQ @ BSL @ ''n');'',
      ''	}'',
      ''}'',
      '''',
      ''// Run validation'',
      ''const validator = new StructureValidator();'',
      ''const success = validator.validate();'',
      '''',
      ''process.exit(success ? 0 : 1);'',
      ''''
  ])\<close>

definition getGithubWorkflowTemplate :: "validation_language \<Rightarrow> string" where
  \<open>getGithubWorkflowTemplate validationLanguage' =
   (let runCommand =
        (if validationLanguage' = Typescript
         then ''cd scripts && npm install && npm run validate''
         else ''node scripts/validate-structure.js'')
   in join_lines [
      ''name: Validate Documentation Structure'',
      '''',
      ''on:'',
      ''  pull_request:'',
      ''    branches: [main, develop]'',
      ''    paths:'',
      ''      - 'docs/**'' @ SQ,
      ''      - 'AGENTS.md'' @ SQ,
      ''      - 'CLAUDE.md'' @ SQ,
      ''      - 'ARCHITECTURE.md'' @ SQ,
      ''      - '*.md'' @ SQ,
      ''  push:'',
      ''    branches: [main, develop]'',
      ''  schedule:'',
      ''    # Run weekly to catch stale documentation'',
      ''    - cron: '0 0 * * 0'' @ SQ,
      '''',
      ''jobs:'',
      ''  validate-structure:'',
      ''    runs-on: ubuntu-latest'',
      '''',
      ''    steps:'',
      ''      - name: Checkout code'',
      ''        uses: actions/checkout@v4'',
      '''',
      ''      - name: Setup Node.js'',
      ''        uses: actions/setup-node@v4'',
      ''        with:'',
      ''          node-version: '20'' @ SQ,
      '''',
      ''      - name: Run structure validation'',
      ''        run: '' @ runCommand,
      '''',
      ''      - name: Check for broken links'',
      ''        uses: gaurav-nelson/github-action-markdown-link-check@v1'',
      ''        with:'',
      ''          use-quiet-mode: 'yes'' @ SQ,
      ''          config-file: '.github/markdown-link-check-config.json'' @ SQ,
      '''',
      ''  check-freshness:'',
      ''    runs-on: ubuntu-latest'',
      '''',
      ''    steps:'',
      ''      - name: Checkout code'',
      ''        uses: actions/checkout@v4'',
      ''        with:'',
      ''          fetch-depth: 0  # Fetch full history for freshness checks'',
      '''',
      ''      - name: Check AGENTS.md and CLAUDE.md are identical'',
      ''        run: |'',
      ''          if ! cmp -s AGENTS.md CLAUDE.md; then'',
      ''            echo "'' @ U274C @ '' AGENTS.md and CLAUDE.md must be identical"'',
      ''            exit 1'',
      ''          fi'',
      ''          echo "'' @ U2705 @ '' AGENTS.md and CLAUDE.md are identical"'',
      '''',
      ''      - name: Validate AGENTS.md size'',
      ''        run: |'',
      ''          lines=$(wc -l < AGENTS.md)'',
      ''          if [ $lines -gt 150 ]; then'',
      ''            echo "'' @ U26A0 @ UFE0F @ ''  AGENTS.md has $lines lines (recommended: ~100)"'',
      ''            echo "Consider moving details to docs/ directory"'',
      ''          else'',
      ''            echo "'' @ U2705 @ '' AGENTS.md size is appropriate ($lines lines)"'',
      ''          fi'',
      ''''
  ])\<close>

definition getReadmeTemplate :: "project_type \<Rightarrow> validation_language \<Rightarrow> string" where
  \<open>getReadmeTemplate projectType' validationLanguage' =
   (let validateCommand =
        (if validationLanguage' = Typescript
         then ''cd scripts && npm install && npm run validate''
         else ''node scripts/validate-structure.js'')
   in join_lines [
      ''# Project Name'',
      '''',
      ''**Agent-first development structure for [project description]**'',
      '''',
      ''This project uses an agent-first development approach based on [OpenAI's harness engineering principles](https://openai.com/index/harness-engineering/).'',
      '''',
      ''## '' @ U1F3D7 @ UFE0F @ '' Project Structure'',
      '''',
      ''```'',
      ''.'',
      U251C @ U2500 @ U2500 @ '' AGENTS.md              # Agent development guide (table of contents)'',
      U251C @ U2500 @ U2500 @ '' CLAUDE.md              # Identical to AGENTS.md (for Claude Code)'',
      U251C @ U2500 @ U2500 @ '' ARCHITECTURE.md        # System architecture overview'',
      U251C @ U2500 @ U2500 @ '' DESIGN.md              # Design principles'',
      U251C @ U2500 @ U2500 @ '' FRONTEND.md            # Frontend guidelines'' @ (if projectType' = Backend then '' (if applicable)'' else []),
      U251C @ U2500 @ U2500 @ '' PLANS.md               # Planning guidelines'',
      U251C @ U2500 @ U2500 @ '' PRODUCT_SENSE.md       # Product principles'',
      U251C @ U2500 @ U2500 @ '' QUALITY_SCORE.md       # Quality metrics tracker'',
      U251C @ U2500 @ U2500 @ '' RELIABILITY.md         # Reliability standards'',
      U251C @ U2500 @ U2500 @ '' SECURITY.md            # Security guidelines'',
      U251C @ U2500 @ U2500 @ '' docs/'',
      U2502 @ ''   '' @ U251C @ U2500 @ U2500 @ '' design-docs/       # Design documentation'',
      U2502 @ ''   '' @ U251C @ U2500 @ U2500 @ '' exec-plans/        # Execution plans (active & completed)'',
      U2502 @ ''   '' @ U251C @ U2500 @ U2500 @ '' product-specs/     # Product specifications'',
      U2502 @ ''   '' @ U251C @ U2500 @ U2500 @ '' references/        # External library docs for LLMs'',
      U2502 @ ''   '' @ U2514 @ U2500 @ U2500 @ '' generated/         # Auto-generated documentation'',
      U2514 @ U2500 @ U2500 @ '' scripts/'',
      ''    '' @ U2514 @ U2500 @ U2500 @ '' validate-structure.'' @ (if validationLanguage' = Typescript then ''ts'' else ''js'') @ ''  # Structure validation'',
      '''',
      ''```'',
      '''',
      ''## '' @ U1F680 @ '' Getting Started'',
      '''',
      ''### 1. Initialize Your Application Framework'',
      '''',
      ''This structure is framework-agnostic. Choose and initialize your preferred framework:'',
      '''',
      ''**Frontend:**'',
      ''```bash'',
      ''# React + Vite'',
      ''npm create vite@latest'',
      '''',
      ''# Next.js'',
      ''npx create-next-app@latest'',
      '''',
      ''# SvelteKit'',
      ''npm create svelte@latest'',
      ''```'',
      '''',
      ''**Backend:**'',
      ''```bash'',
      ''# Express'',
      ''npm create express-app'',
      '''',
      ''# Fastify'',
      ''npm init fastify'',
      '''',
      ''# NestJS'',
      ''npm i -g @nestjs/cli && nest new project-name'',
      ''```'',
      '''',
      ''### 2. Customize Documentation'',
      '''',
      ''1. Review and customize [`AGENTS.md`](./AGENTS.md) and [`CLAUDE.md`](./CLAUDE.md)'',
      ''2. Update [`ARCHITECTURE.md`](./ARCHITECTURE.md) with your system domains'',
      ''3. Add your first design doc in [`docs/design-docs/`](./docs/design-docs/)'',
      ''4. Document your tech stack choices'',
      '''',
      ''### 3. Validate Structure'',
      '''',
      ''Run the validation script to ensure the structure is correct:'',
      '''',
      ''```bash'',
      validateCommand,
      ''```'',
      '''',
      ''## '' @ U1F916 @ '' Agent Development Workflow'',
      '''',
      ''1. **Read Documentation** - Start with [`AGENTS.md`](./AGENTS.md) for context'',
      ''2. **Plan** - Create execution plans for complex work in [`docs/exec-plans/`](./docs/exec-plans/)'',
      ''3. **Design** - Document architectural decisions in [`docs/design-docs/`](./docs/design-docs/)'',
      ''4. **Implement** - Follow architectural constraints and quality standards'',
      ''5. **Validate** - Run tests and validation scripts'',
      ''6. **Review** - Get agent and human feedback'',
      ''7. **Document** - Update docs based on implementation learnings'',
      '''',
      ''## '' @ U1F4DA @ '' Core Principles'',
      '''',
      ''1. **Repository is the source of truth** - If it's not in the repo, it doesn't exist to agents'',
      ''2. **Progressive disclosure** - AGENTS.md is a map, detailed docs are in `docs/`'',
      ''3. **Enforce mechanically** - Use linters and tests, not just manual review'',
      ''4. **Agent legibility first** - Optimize for agent reasoning'',
      ''5. **Continuous cleanup** - Fix drift immediately, don't let debt compound'',
      '''',
      ''See [`docs/design-docs/core-beliefs.md`](./docs/design-docs/core-beliefs.md) for detailed principles.'',
      '''',
      ''## '' @ U1F50D @ '' Validation'',
      '''',
      ''### Structure Validation'',
      ''```bash'',
      validateCommand,
      ''```'',
      '''',
      ''### CI/CD'',
      ''GitHub Actions automatically validate:'',
      ''- Documentation structure'',
      ''- Broken links'',
      ''- AGENTS.md and CLAUDE.md are identical'',
      ''- Doc freshness'',
      '''',
      ''## '' @ U1F4D6 @ '' Documentation'',
      '''',
      ''- **[`AGENTS.md`](./AGENTS.md)** - Start here for agent development'',
      ''- **[`ARCHITECTURE.md`](./ARCHITECTURE.md)** - System architecture'',
      ''- **[`SECURITY.md`](./SECURITY.md)** - Security guidelines'',
      ''- **[`QUALITY_SCORE.md`](./QUALITY_SCORE.md)** - Quality metrics'',
      ''- **[`docs/design-docs/`](./docs/design-docs/)** - Design decisions'',
      ''- **[`docs/exec-plans/`](./docs/exec-plans/)** - Execution plans'',
      '''',
      ''## '' @ U1F6E0 @ UFE0F @ '' Development'',
      '''',
      ''[Add your development instructions here]'',
      '''',
      ''```bash'',
      ''# Install dependencies'',
      ''npm install'',
      '''',
      ''# Run development server'',
      ''npm run dev'',
      '''',
      ''# Run tests'',
      ''npm test'',
      '''',
      ''# Build'',
      ''npm run build'',
      ''```'',
      '''',
      ''## '' @ U1F91D @ '' Contributing'',
      '''',
      ''This project is optimized for agent-first development:'',
      '''',
      ''1. Review [`AGENTS.md`](./AGENTS.md) before contributing'',
      ''2. Follow architectural constraints in [`ARCHITECTURE.md`](./ARCHITECTURE.md)'',
      ''3. Adhere to security guidelines in [`SECURITY.md`](./SECURITY.md)'',
      ''4. Maintain quality standards in [`QUALITY_SCORE.md`](./QUALITY_SCORE.md)'',
      '''',
      ''## '' @ U1F4DD @ '' License'',
      '''',
      ''[Your License Here]'',
      '''',
      ''---'',
      '''',
      ''**Built with agent-first development principles inspired by [OpenAI's harness engineering](https://openai.com/index/harness-engineering/)**'',
      ''''
  ])\<close>

definition getGitignoreTemplate :: "string" where
  \<open>getGitignoreTemplate =
   join_lines [
    ''# Dependencies'',
    ''node_modules/'',
    ''.pnp'',
    ''.pnp.js'',
    '''',
    ''# Testing'',
    ''coverage/'',
    ''.nyc_output'',
    '''',
    ''# Production'',
    ''build/'',
    ''dist/'',
    ''*.log'',
    '''',
    ''# Environment variables'',
    ''.env'',
    ''.env.local'',
    ''.env.development.local'',
    ''.env.test.local'',
    ''.env.production.local'',
    '''',
    ''# IDE'',
    ''.vscode/'',
    ''.idea/'',
    ''*.swp'',
    ''*.swo'',
    ''*~'',
    '''',
    ''# OS'',
    ''.DS_Store'',
    ''Thumbs.db'',
    '''',
    ''# Generated files (but keep the directory)'',
    ''docs/generated/*'',
    ''!docs/generated/.gitkeep'',
    ''''
  ]\<close>

definition getBiomeConfigTemplate :: "string" where
  \<open>getBiomeConfigTemplate =
   join_lines [
    ''{'',
    ''  "$schema": "https://biomejs.dev/schemas/1.9.4/schema.json",'',
    ''  "vcs": {'',
    ''    "enabled": true,'',
    ''    "clientKind": "git",'',
    ''    "useIgnoreFile": true'',
    ''  },'',
    ''  "files": {'',
    ''    "ignoreUnknown": false,'',
    ''    "ignore": ["node_modules", "dist", "build", ".next", "coverage"]'',
    ''  },'',
    ''  "formatter": {'',
    ''    "enabled": true,'',
    ''    "indentStyle": "tab",'',
    ''    "indentWidth": 2,'',
    ''    "lineWidth": 80'',
    ''  },'',
    ''  "organizeImports": {'',
    ''    "enabled": true'',
    ''  },'',
    ''  "linter": {'',
    ''    "enabled": true,'',
    ''    "rules": {'',
    ''      "recommended": true,'',
    ''      "complexity": {'',
    ''        "noExtraBooleanCast": "error",'',
    ''        "noMultipleSpacesInRegularExpressionLiterals": "error",'',
    ''        "noUselessCatch": "error",'',
    ''        "noWith": "error"'',
    ''      },'',
    ''      "correctness": {'',
    ''        "noConstAssign": "error",'',
    ''        "noConstantCondition": "error",'',
    ''        "noEmptyCharacterClassInRegex": "error",'',
    ''        "noEmptyPattern": "error",'',
    ''        "noGlobalObjectCalls": "error",'',
    ''        "noInvalidConstructorSuper": "error",'',
    ''        "noInvalidNewBuiltin": "error",'',
    ''        "noNonoctalDecimalEscape": "error",'',
    ''        "noPrecisionLoss": "error",'',
    ''        "noSelfAssign": "error",'',
    ''        "noSetterReturn": "error",'',
    ''        "noSwitchDeclarations": "error",'',
    ''        "noUndeclaredVariables": "error",'',
    ''        "noUnreachable": "error",'',
    ''        "noUnreachableSuper": "error",'',
    ''        "noUnsafeFinally": "error",'',
    ''        "noUnsafeOptionalChaining": "error",'',
    ''        "noUnusedLabels": "error",'',
    ''        "noUnusedVariables": "warn",'',
    ''        "useIsNan": "error",'',
    ''        "useValidForDirection": "error",'',
    ''        "useYield": "error"'',
    ''      },'',
    ''      "style": {'',
    ''        "noNamespace": "error",'',
    ''        "useAsConstAssertion": "error",'',
    ''        "useBlockStatements": "off",'',
    ''        "useConsistentArrayType": "off",'',
    ''        "useForOf": "warn",'',
    ''        "useShorthandFunctionType": "error"'',
    ''      },'',
    ''      "suspicious": {'',
    ''        "noAsyncPromiseExecutor": "error",'',
    ''        "noCatchAssign": "error",'',
    ''        "noClassAssign": "error",'',
    ''        "noCompareNegZero": "error",'',
    ''        "noControlCharactersInRegex": "error",'',
    ''        "noDebugger": "error",'',
    ''        "noDuplicateCase": "error",'',
    ''        "noDuplicateClassMembers": "error",'',
    ''        "noDuplicateObjectKeys": "error",'',
    ''        "noDuplicateParameters": "error",'',
    ''        "noEmptyBlockStatements": "error",'',
    ''        "noExplicitAny": "warn",'',
    ''        "noExtraNonNullAssertion": "error",'',
    ''        "noFallthroughSwitchClause": "error",'',
    ''        "noFunctionAssign": "error",'',
    ''        "noGlobalAssign": "error",'',
    ''        "noImportAssign": "error",'',
    ''        "noMisleadingCharacterClass": "error",'',
    ''        "noMisleadingInstantiator": "error",'',
    ''        "noPrototypeBuiltins": "error",'',
    ''        "noRedeclare": "error",'',
    ''        "noShadowRestrictedNames": "error",'',
    ''        "noUnsafeDeclarationMerging": "error",'',
    ''        "noUnsafeNegation": "error",'',
    ''        "useGetterReturn": "error",'',
    ''        "useValidTypeof": "error"'',
    ''      }'',
    ''    }'',
    ''  },'',
    ''  "javascript": {'',
    ''    "formatter": {'',
    ''      "quoteStyle": "single",'',
    ''      "trailingCommas": "all",'',
    ''      "semicolons": "always",'',
    ''      "arrowParentheses": "always"'',
    ''    }'',
    ''  }'',
    ''}'',
    ''''
  ]\<close>

definition getMarkdownLinkCheckConfig :: "string" where
  \<open>getMarkdownLinkCheckConfig =
   join_lines [
    ''{'',
    ''  "ignorePatterns": ['',
    ''    {'',
    ''      "pattern": "^http://localhost"'',
    ''    },'',
    ''    {'',
    ''      "pattern": "^https://localhost"'',
    ''    }'',
    ''  ],'',
    ''  "replacementPatterns": [],'',
    ''  "httpHeaders": [],'',
    ''  "timeout": "5s",'',
    ''  "retryOn429": true,'',
    ''  "retryCount": 3,'',
    ''  "fallbackRetryDelay": "5s",'',
    ''  "aliveStatusCodes": [200, 206]'',
    ''}'',
    ''''
  ]\<close>


section \<open>File system\<close>

text \<open>
  The state of a POSIX file system without symbolic links and without permissions. A
  location is the list of the names from the root directory down to a node; the empty list
  is the root directory. The state is an association list from locations to nodes; its
  order is the order in which \<^verbatim>\<open>readdirSync\<close> lists entries. File contents and path
  strings are byte strings. Times are milliseconds, as \<^verbatim>\<open>Date.now()\<close> and
  \<^verbatim>\<open>mtimeMs\<close> give them; \<^verbatim>\<open>mtimeMs\<close> can have a fractional part. An exception of a
  file-system call is represented by its error code.
\<close>

type_synonym fpath = "string list"

datatype node = Dir (mtimeMs: rat) | File (content: string) (mtimeMs: rat)

type_synonym fs = "(fpath \<times> node) list"

datatype fs_error = EINVAL | ENOENT | ENOTDIR | EISDIR | EEXIST

definition lookup :: "fs \<Rightarrow> fpath \<Rightarrow> node option" where
  "lookup s p = (if p = [] then Some (Dir 0) else map_of s p)"

subsection \<open>Path resolution\<close>

fun split_sep :: "string \<Rightarrow> string \<Rightarrow> string list" where
  "split_sep acc [] = [acc]"
| "split_sep acc (c # cs) =
     (if c = CHR ''/'' then acc # split_sep [] cs else split_sep (acc @ [c]) cs)"

definition split_path :: "string \<Rightarrow> string list" where
  \<comment> \<open>the components of a path string: what stands between the separators\<close>
  "split_path p = split_sep [] p"

definition absolute :: "string \<Rightarrow> bool" where
  "absolute p = (p \<noteq> [] \<and> hd p = CHR ''/'')"

text \<open>
  The operating system resolves a path component by component. Where a component is looked
  up, there must be a directory; an empty component and \<^verbatim>\<open>.\<close> stay there, \<^verbatim>\<open>..\<close> goes to
  the parent (the root is its own parent), a name goes to the entry of that name, which
  need not exist if the name is the last component. A path that ends in a separator has an
  empty last component, so that its target must be a directory.
\<close>

fun walk :: "fs \<Rightarrow> fpath \<Rightarrow> string list \<Rightarrow> fs_error + fpath" where
  "walk s d [] = Inr d"
| "walk s d (c # cs) =
     (case lookup s d of
        None \<Rightarrow> Inl ENOENT
      | Some (File x m) \<Rightarrow> Inl ENOTDIR
      | Some (Dir m) \<Rightarrow>
         if c = [] \<or> c = ''.'' then walk s d cs
         else if c = ''..'' then walk s (butlast d) cs
         else walk s (d @ [c]) cs)"

text \<open>
  \<open>cwd\<close> is the string that \<^verbatim>\<open>process.cwd()\<close> returns, the absolute path of the working
  directory; a relative path is resolved from there. Node rejects a path string with a
  null byte before it reaches the operating system, which rejects the empty path.
\<close>

definition locate :: "fs \<Rightarrow> string \<Rightarrow> string \<Rightarrow> fs_error + fpath" where
  "locate s cwd p =
     (if p = [] then Inl ENOENT
      else if CHR 0x00 \<in> set p then Inl EINVAL
      else walk s [] (if absolute p then split_path p else split_path cwd @ split_path p))"

subsection \<open>\<^verbatim>\<open>node:path\<close>\<close>

text \<open>
  \<^verbatim>\<open>normalizeString\<close> of \<^verbatim>\<open>node:path\<close> on the components of the path: an empty component
  and \<^verbatim>\<open>.\<close> are dropped, \<^verbatim>\<open>..\<close> removes the component before it unless there is none or
  it is \<^verbatim>\<open>..\<close> itself; a \<^verbatim>\<open>..\<close> that removes nothing is kept in a relative path and dropped
  in an absolute one.
\<close>

fun normalizeString :: "bool \<Rightarrow> string list \<Rightarrow> string list \<Rightarrow> string list" where
  "normalizeString allowAboveRoot res [] = res"
| "normalizeString allowAboveRoot res (c # cs) =
     (if c = [] \<or> c = ''.'' then normalizeString allowAboveRoot res cs
      else if c = ''..'' then
        (if res \<noteq> [] \<and> last res \<noteq> ''..'' then normalizeString allowAboveRoot (butlast res) cs
         else if allowAboveRoot then normalizeString allowAboveRoot (res @ [''..'']) cs
         else normalizeString allowAboveRoot res cs)
      else normalizeString allowAboveRoot (res @ [c]) cs)"

fun unsplit :: "string list \<Rightarrow> string" where
  "unsplit [] = []"
| "unsplit [c] = c"
| "unsplit (c # d # cs) = c @ CHR ''/'' # unsplit (d # cs)"

definition normalize :: "string \<Rightarrow> string" where
  "normalize p =
     (if p = [] then ''.''
      else
        (let isAbsolute = (hd p = CHR ''/'');
             trailingSeparator = (last p = CHR ''/'');
             r = unsplit (normalizeString (\<not> isAbsolute) [] (split_path p))
         in if r = [] then (if isAbsolute then ''/'' else if trailingSeparator then ''./'' else ''.'')
            else (if isAbsolute then ''/'' else []) @ r @ (if trailingSeparator then ''/'' else [])))"

definition path_join :: "string \<Rightarrow> string \<Rightarrow> string" where
  \<comment> \<open>\<^verbatim>\<open>join(a, b)\<close>\<close>
  "path_join a b = normalize (if a = [] then b else if b = [] then a else a @ ''/'' @ b)"

subsection \<open>Reading text\<close>

text \<open>
  \<^verbatim>\<open>readFileSync(path, 'utf-8')\<close> and \<^verbatim>\<open>readdirSync\<close> return strings decoded from UTF-8:
  every maximal ill-formed part of the bytes becomes the replacement character U+FFFD. A
  decoded string is represented by its own UTF-8 encoding, which is the bytes again where
  they are well-formed. Equality, the split at the newline, a prefix, a suffix and the
  link pattern mean the same on this encoding as on the UTF-16 string of the script, and
  the encoding is what a file-system call receives when the script passes the string on.
  \<open>decode_utf8\<close> is the decoder between sequences, \<open>continuation\<close> the decoder inside
  one: the bytes of the sequence so far, the number of bytes still to come, and the range
  of the next byte.
\<close>

definition replacement :: string where
  "replacement = [CHR 0xEF, CHR 0xBF, CHR 0xBD]"

fun decode_utf8 :: "string \<Rightarrow> string"
  and continuation :: "string \<Rightarrow> nat \<Rightarrow> nat \<Rightarrow> nat \<Rightarrow> string \<Rightarrow> string" where
  "decode_utf8 [] = []"
| "decode_utf8 (b # bs) =
     (if (of_char b :: nat) < 0x80 then b # decode_utf8 bs
      else if 0xC2 \<le> (of_char b :: nat) \<and> (of_char b :: nat) \<le> 0xDF
        then continuation [b] 1 0x80 0xBF bs
      else if 0xE0 \<le> (of_char b :: nat) \<and> (of_char b :: nat) \<le> 0xEF
        then continuation [b] 2 (if b = CHR 0xE0 then 0xA0 else 0x80)
               (if b = CHR 0xED then 0x9F else 0xBF) bs
      else if 0xF0 \<le> (of_char b :: nat) \<and> (of_char b :: nat) \<le> 0xF4
        then continuation [b] 3 (if b = CHR 0xF0 then 0x90 else 0x80)
               (if b = CHR 0xF4 then 0x8F else 0xBF) bs
      else replacement @ decode_utf8 bs)"
| "continuation seen needed lower upper [] = replacement"
| "continuation seen needed lower upper (b # bs) =
     (if lower \<le> (of_char b :: nat) \<and> (of_char b :: nat) \<le> upper
      then (if needed \<le> 1 then seen @ b # decode_utf8 bs
            else continuation (seen @ [b]) (needed - 1) 0x80 0xBF bs)
      else replacement @ decode_utf8 (b # bs))"

subsection \<open>\<^verbatim>\<open>node:fs\<close>\<close>

definition existsSync :: "fs \<Rightarrow> string \<Rightarrow> string \<Rightarrow> bool" where
  \<comment> \<open>false for every error\<close>
  "existsSync s cwd p =
     (case locate s cwd p of Inl e \<Rightarrow> False | Inr q \<Rightarrow> lookup s q \<noteq> None)"

definition readFileSync :: "fs \<Rightarrow> string \<Rightarrow> string \<Rightarrow> fs_error + string" where
  \<comment> \<open>with the encoding \<^verbatim>\<open>'utf-8'\<close>\<close>
  "readFileSync s cwd p =
     (case locate s cwd p of
        Inl e \<Rightarrow> Inl e
      | Inr q \<Rightarrow>
         (case lookup s q of
            None \<Rightarrow> Inl ENOENT
          | Some (Dir m) \<Rightarrow> Inl EISDIR
          | Some (File c m) \<Rightarrow> Inr (decode_utf8 c)))"

definition entries :: "fs \<Rightarrow> fpath \<Rightarrow> string list" where
  "entries s d =
     remdups (map (\<lambda>e. last (fst e)) (filter (\<lambda>e. fst e \<noteq> [] \<and> butlast (fst e) = d) s))"

definition readdirSync :: "fs \<Rightarrow> string \<Rightarrow> string \<Rightarrow> fs_error + string list" where
  "readdirSync s cwd p =
     (case locate s cwd p of
        Inl e \<Rightarrow> Inl e
      | Inr q \<Rightarrow>
         (case lookup s q of
            None \<Rightarrow> Inl ENOENT
          | Some (File c m) \<Rightarrow> Inl ENOTDIR
          | Some (Dir m) \<Rightarrow> Inr (map decode_utf8 (entries s q))))"

definition statSync :: "fs \<Rightarrow> string \<Rightarrow> string \<Rightarrow> fs_error + rat" where
  \<comment> \<open>only \<^verbatim>\<open>mtimeMs\<close> of the result is used\<close>
  "statSync s cwd p =
     (case locate s cwd p of
        Inl e \<Rightarrow> Inl e
      | Inr q \<Rightarrow> (case lookup s q of None \<Rightarrow> Inl ENOENT | Some n \<Rightarrow> Inr (mtimeMs n)))"

text \<open>
  \<^verbatim>\<open>mkdirSync(p, { recursive: true })\<close> resolves its path like the operating system does
  and creates the directory of every name that is missing on the way; a file on the way is
  an error. What was created stays when a later component fails. \<open>t\<close> is the time of the
  call.
\<close>

fun mkdirp :: "rat \<Rightarrow> fpath \<Rightarrow> string list \<Rightarrow> fs \<Rightarrow> fs \<times> fs_error option" where
  "mkdirp t d [] s = (s, None)"
| "mkdirp t d (c # cs) s =
     (if c = [] \<or> c = ''.'' then mkdirp t d cs s
      else if c = ''..'' then
        (case lookup s (butlast d) of
           None \<Rightarrow> (s, Some ENOENT)
         | Some (File x m) \<Rightarrow> (s, Some ENOTDIR)
         | Some (Dir m) \<Rightarrow> mkdirp t (butlast d) cs s)
      else
        (case lookup s (d @ [c]) of
           None \<Rightarrow> mkdirp t (d @ [c]) cs (AList.update (d @ [c]) (Dir t) s)
         | Some (Dir m) \<Rightarrow> mkdirp t (d @ [c]) cs s
         | Some (File x m) \<Rightarrow> (s, Some (if cs = [] then EEXIST else ENOTDIR))))"

definition mkdirSync :: "rat \<Rightarrow> string \<Rightarrow> string \<Rightarrow> fs \<Rightarrow> fs \<times> fs_error option" where
  "mkdirSync t cwd p s =
     (if p = [] then (s, Some ENOENT)
      else if CHR 0x00 \<in> set p then (s, Some EINVAL)
      else if absolute p then mkdirp t [] (split_path p) s
      else
        (case walk s [] (split_path cwd) of
           Inl e \<Rightarrow> (s, Some e)
         | Inr d \<Rightarrow>
            (case lookup s d of
               None \<Rightarrow> (s, Some ENOENT)
             | Some (File x m) \<Rightarrow> (s, Some ENOTDIR)
             | Some (Dir m) \<Rightarrow> mkdirp t d (split_path p) s)))"

definition writeFileSync :: "rat \<Rightarrow> string \<Rightarrow> string \<Rightarrow> string \<Rightarrow> fs \<Rightarrow> fs \<times> fs_error option" where
  "writeFileSync t cwd p data s =
     (case locate s cwd p of
        Inl e \<Rightarrow> (s, Some e)
      | Inr q \<Rightarrow>
         (case lookup s q of
            Some (Dir m) \<Rightarrow> (s, Some EISDIR)
          | _ \<Rightarrow>
            (case lookup s (butlast q) of
               None \<Rightarrow> (s, Some ENOENT)
             | Some (File c m) \<Rightarrow> (s, Some ENOTDIR)
             | Some (Dir m) \<Rightarrow> (AList.update q (File data t) s, None))))"

datatype fs_op = MkdirSync string | WriteFileSync string string

fun run_op :: "rat \<Rightarrow> string \<Rightarrow> fs_op \<Rightarrow> fs \<Rightarrow> fs \<times> fs_error option" where
  "run_op t cwd (MkdirSync p) s = mkdirSync t cwd p s"
| "run_op t cwd (WriteFileSync p data) s = writeFileSync t cwd p data s"

text \<open>Statements in sequence: the first exception ends the run.\<close>

fun run_ops :: "rat \<Rightarrow> string \<Rightarrow> fs_op list \<Rightarrow> fs \<Rightarrow> fs \<times> fs_error option" where
  "run_ops t cwd [] s = (s, None)"
| "run_ops t cwd (op # ops) s =
     (case run_op t cwd op s of
        (s', None) \<Rightarrow> run_ops t cwd ops s'
      | (s', Some e) \<Rightarrow> (s', Some e))"

section \<open>Scaffold emitter (\<^verbatim>\<open>main\<close> in \<^verbatim>\<open>src/index.js\<close>)\<close>

subsection \<open>The prompts\<close>

text \<open>
  Each prompt of \<^verbatim>\<open>p.group\<close> ends with a value or with the cancel symbol. The group asks
  in order and calls \<^verbatim>\<open>onCancel\<close> at the first cancelled prompt; \<^verbatim>\<open>onCancel\<close> ends the
  process, so \<open>group\<close> has no result then. The text prompt returns its
  \<^verbatim>\<open>defaultValue\<close> for an empty input.
\<close>

datatype 'a prompt_result = Cancel | Submit 'a

record session =
  ask_path :: "string prompt_result"
  ask_projectType :: "project_type prompt_result"
  ask_validationLanguage :: "validation_language prompt_result"
  ask_includeObservability :: "bool prompt_result"
  ask_includeCI :: "bool prompt_result"

definition text_prompt :: "string \<Rightarrow> string prompt_result \<Rightarrow> string prompt_result" where
  "text_prompt defaultValue r =
     (case r of Cancel \<Rightarrow> Cancel | Submit v \<Rightarrow> Submit (if v = [] then defaultValue else v))"

definition group :: "session \<Rightarrow> project option" where
  "group a =
     (case text_prompt ''./my-agent-project'' (ask_path a) of Cancel \<Rightarrow> None | Submit v1 \<Rightarrow>
      (case ask_projectType a of Cancel \<Rightarrow> None | Submit v2 \<Rightarrow>
       (case ask_validationLanguage a of Cancel \<Rightarrow> None | Submit v3 \<Rightarrow>
        (case ask_includeObservability a of Cancel \<Rightarrow> None | Submit v4 \<Rightarrow>
         (case ask_includeCI a of Cancel \<Rightarrow> None | Submit v5 \<Rightarrow>
            Some \<lparr>path = v1, projectType = v2, validationLanguage = v3,
                  includeObservability = v4, includeCI = v5\<rparr>)))))"

subsection \<open>\<^verbatim>\<open>JSON.stringify(value, null, 2)\<close>\<close>

datatype json = JString string | JObject "(string \<times> json) list"

definition hex_digit :: "nat \<Rightarrow> char" where
  "hex_digit n = ''0123456789abcdef'' ! (n mod 16)"

definition json_escape :: "char \<Rightarrow> string" where
  "json_escape c =
     (if c = CHR 0x22 then BSL @ [CHR 0x22]
      else if c = CHR 0x5C then BSL @ BSL
      else if c = CHR 0x08 then BSL @ ''b''
      else if c = CHR 0x0C then BSL @ ''f''
      else if c = CHR 0x0A then BSL @ ''n''
      else if c = CHR 0x0D then BSL @ ''r''
      else if c = CHR 0x09 then BSL @ ''t''
      else if (of_char c :: nat) < 32
        then BSL @ ''u00'' @ [hex_digit (of_char c div 16), hex_digit (of_char c)]
      else [c])"

definition json_quote :: "string \<Rightarrow> string" where
  "json_quote v = [CHR 0x22] @ concat (map json_escape v) @ [CHR 0x22]"

fun stringify :: "string \<Rightarrow> json \<Rightarrow> string"
  and stringify_members :: "string \<Rightarrow> (string \<times> json) list \<Rightarrow> string" where
  "stringify ind (JString v) = json_quote v"
| "stringify ind (JObject []) = ''{}''"
| "stringify ind (JObject (m # ms)) =
     ''{'' @ [CHR 0x0A] @ stringify_members (ind @ ''  '') (m # ms) @ [CHR 0x0A] @ ind @ ''}''"
| "stringify_members ind [] = []"
| "stringify_members ind [(k, v)] = ind @ json_quote k @ '': '' @ stringify ind v"
| "stringify_members ind ((k, v) # m # ms) =
     ind @ json_quote k @ '': '' @ stringify ind v @ '','' @ [CHR 0x0A]
       @ stringify_members ind (m # ms)"

definition validationPackageJson :: json where
  "validationPackageJson = JObject [
     (''name'', JString ''validation-scripts''),
     (''version'', JString ''1.0.0''),
     (''type'', JString ''module''),
     (''scripts'', JObject [(''validate'', JString ''tsx scripts/validate-structure.ts'')]),
     (''devDependencies'', JObject [(''tsx'', JString ''^4.19.2'')])]"

fun json_field :: "string \<Rightarrow> json \<Rightarrow> json option" where
  "json_field k (JObject ms) = map_of ms k"
| "json_field k (JString v) = None"

subsection \<open>Directories and files, in the order of the source\<close>

definition directories :: "project \<Rightarrow> string list" where
  "directories project =
     [''docs/design-docs'',
      ''docs/exec-plans/active'',
      ''docs/exec-plans/completed'',
      ''docs/product-specs'',
      ''docs/references'',
      ''docs/generated'',
      ''scripts'']
     @ (if includeCI project then [''.github/workflows''] else [])"

definition designDocsIndex :: string where
  "designDocsIndex = ''# Design Documentation\<newline>\<newline>This directory contains all design documents and architectural decisions.\<newline>\<newline>## Active Designs\<newline>\<newline>- [Core Beliefs](./core-beliefs.md)\<newline>\<newline>## Template\<newline>\<newline>Use `template.md` as a starting point for new design documents.\<newline>''"

definition productSpecsIndex :: string where
  "productSpecsIndex = ''# Product Specifications\<newline>\<newline>This directory contains all product specifications and feature requirements.\<newline>\<newline>## Active Specs\<newline>\<newline>- None yet\<newline>\<newline>## Template\<newline>\<newline>Use `template.md` as a starting point for new product specs.\<newline>''"

definition scriptExt :: "project \<Rightarrow> string" where
  "scriptExt project = (if validationLanguage project = Typescript then ''ts'' else ''js'')"

definition files :: "project \<Rightarrow> (string \<times> string) list" where
  "files project =
     [(''AGENTS.md'', getAgentsTemplate (projectType project)),
      (''CLAUDE.md'', getAgentsTemplate (projectType project)),
      (''ARCHITECTURE.md'', getArchitectureTemplate (projectType project)),
      (''DESIGN.md'', getDesignTemplate),
      (''PLANS.md'', getPlansTemplate),
      (''PRODUCT_SENSE.md'', getProductSenseTemplate),
      (''QUALITY_SCORE.md'', getQualityScoreTemplate),
      (''RELIABILITY.md'', getReliabilityTemplate),
      (''SECURITY.md'', getSecurityTemplate)]
     @ (if projectType project = Fullstack \<or> projectType project = Frontend
        then [(''FRONTEND.md'', getFrontendTemplate)] else [])
     @ [(''docs/design-docs/index.md'', designDocsIndex),
        (''docs/design-docs/core-beliefs.md'', getCoreBeliefsTemplate),
        (''docs/design-docs/template.md'', getDesignDocTemplate),
        (''docs/exec-plans/template.md'', getExecPlanTemplate),
        (''docs/exec-plans/tech-debt-tracker.md'', getTechDebtTrackerTemplate),
        (''docs/product-specs/index.md'', productSpecsIndex),
        (''docs/product-specs/template.md'', getProductSpecTemplate),
        (''scripts/validate-structure.'' @ scriptExt project,
           getValidationScriptTemplate (validationLanguage project))]
     @ (if validationLanguage project = Typescript
        then [(''scripts/package.json'', stringify [] validationPackageJson)] else [])
     @ (if includeCI project
        then [(''.github/workflows/validate-docs.yml'',
                 getGithubWorkflowTemplate (validationLanguage project)),
              (''.github/markdown-link-check-config.json'', getMarkdownLinkCheckConfig)]
        else [])
     @ [(''.gitignore'', getGitignoreTemplate),
        (''biome.json'', getBiomeConfigTemplate),
        (''README.md'', getReadmeTemplate (projectType project) (validationLanguage project))]"

definition scaffold_ops :: "string \<Rightarrow> string \<Rightarrow> project \<Rightarrow> fs \<Rightarrow> fs_op list" where
  \<comment> \<open>the file-system calls of \<^verbatim>\<open>main\<close>, in order; the first one is made only if the
      target does not exist when the run begins\<close>
  "scaffold_ops cwd projectPath project s =
     (if \<not> existsSync s cwd projectPath then [MkdirSync projectPath] else [])
     @ map (\<lambda>dir. MkdirSync (path_join projectPath dir)) (directories project)
     @ map (\<lambda>(name, contents). WriteFileSync (path_join projectPath name) contents) (files project)"

subsection \<open>The run\<close>

text \<open>
  A run ends in one of three ways: \<^verbatim>\<open>onCancel\<close> calls \<^verbatim>\<open>process.exit\<close> after
  \<^verbatim>\<open>p.cancel\<close> has shown its message; \<^verbatim>\<open>main\<close> returns, and the process ends with
  status 0; or a file-system call throws, and \<^verbatim>\<open>main().catch(console.error)\<close> prints
  the error. \<open>cwd\<close> is the working directory of the process and \<open>t\<close> the time of the
  run, which stamps what it creates.
\<close>

datatype outcome = ProcessExit int string | Completed | Rejected fs_error

definition main :: "string \<Rightarrow> rat \<Rightarrow> session \<Rightarrow> fs \<Rightarrow> fs \<times> outcome" where
  "main cwd t a s =
     (case group a of
        None \<Rightarrow> (s, ProcessExit 0 ''Operation cancelled.'')
      | Some project \<Rightarrow>
         (case run_ops t cwd (scaffold_ops cwd (path project) project s) s of
            (s', None) \<Rightarrow> (s', Completed)
          | (s', Some e) \<Rightarrow> (s', Rejected e)))"

fun exit_status :: "outcome \<Rightarrow> int option" where
  "exit_status (ProcessExit code msg) = Some code"
| "exit_status Completed = Some 0"
| "exit_status (Rejected e) = None"

section \<open>Structure validator (the script that \<^verbatim>\<open>getValidationScriptTemplate\<close> emits)\<close>

text \<open>
  The two variants of the script have the same statements; the TypeScript one adds type
  annotations. The object keeps \<^verbatim>\<open>rootDir\<close> and two lists, to which the checks append. A
  check that a file-system exception interrupts leaves the lists as they were at that
  moment, so every check returns the lists together with the exception, if there was one.
\<close>

record findings =
  errors :: "string list"
  warnings :: "string list"

definition push_error :: "string \<Rightarrow> findings \<Rightarrow> findings" where
  "push_error msg f = f\<lparr>errors := errors f @ [msg]\<rparr>"

definition push_warning :: "string \<Rightarrow> findings \<Rightarrow> findings" where
  "push_warning msg f = f\<lparr>warnings := warnings f @ [msg]\<rparr>"

function show_nat :: "nat \<Rightarrow> string" where
  "show_nat n =
     (if n < 10 then [''0123456789'' ! n] else show_nat (n div 10) @ [''0123456789'' ! (n mod 10)])"
  by pat_completeness auto
termination
  by (relation "measure id") auto

declare show_nat.simps [simp del]

definition lineCount :: "string \<Rightarrow> nat" where
  \<comment> \<open>\<^verbatim>\<open>text.split('\n').length\<close>\<close>
  "lineCount xs = Suc (length (filter (\<lambda>c. c = CHR 0x0A) xs))"

definition requiredDocs :: "string list" where
  "requiredDocs =
     [''AGENTS.md'', ''CLAUDE.md'', ''ARCHITECTURE.md'', ''DESIGN.md'', ''PLANS.md'',
      ''PRODUCT_SENSE.md'', ''QUALITY_SCORE.md'', ''RELIABILITY.md'', ''SECURITY.md'']"

fun missing_docs :: "fs \<Rightarrow> string \<Rightarrow> string \<Rightarrow> string list \<Rightarrow> findings \<Rightarrow> findings" where
  "missing_docs s cwd rootDir [] f = f"
| "missing_docs s cwd rootDir (doc # docs) f =
     missing_docs s cwd rootDir docs
       (if \<not> existsSync s cwd (path_join rootDir doc)
        then push_error (''Missing required document: '' @ doc) f else f)"

definition validateRootDocs :: "fs \<Rightarrow> string \<Rightarrow> string \<Rightarrow> findings \<Rightarrow> findings \<times> fs_error option" where
  "validateRootDocs s cwd rootDir f0 =
     (let f1 = missing_docs s cwd rootDir requiredDocs f0 in
      case
        (if existsSync s cwd (path_join rootDir ''AGENTS.md'')
            \<and> existsSync s cwd (path_join rootDir ''CLAUDE.md'')
         then
           (case readFileSync s cwd (path_join rootDir ''AGENTS.md'') of
              Inl e \<Rightarrow> (f1, Some e)
            | Inr agentsContent \<Rightarrow>
               (case readFileSync s cwd (path_join rootDir ''CLAUDE.md'') of
                  Inl e \<Rightarrow> (f1, Some e)
                | Inr claudeContent \<Rightarrow>
                    (if agentsContent \<noteq> claudeContent
                     then push_error ''AGENTS.md and CLAUDE.md must be identical'' f1
                     else f1, None)))
         else (f1, None))
      of
        (f2, Some e) \<Rightarrow> (f2, Some e)
      | (f2, None) \<Rightarrow>
         (if existsSync s cwd (path_join rootDir ''AGENTS.md'')
          then
            (case readFileSync s cwd (path_join rootDir ''AGENTS.md'') of
               Inl e \<Rightarrow> (f2, Some e)
             | Inr agentsContent \<Rightarrow>
                 (if lineCount agentsContent > 150
                  then push_warning
                         (''AGENTS.md is '' @ show_nat (lineCount agentsContent)
                           @ '' lines (recommended: ~100 lines). Consider moving details to docs/'')
                         f2
                  else f2, None))
          else (f2, None)))"

definition requiredDirs :: "string list" where
  "requiredDirs =
     [''docs/design-docs'', ''docs/exec-plans/active'', ''docs/exec-plans/completed'',
      ''docs/product-specs'', ''docs/references'', ''docs/generated'']"

definition requiredIndexes :: "string list" where
  "requiredIndexes = [''docs/design-docs/index.md'', ''docs/product-specs/index.md'']"

fun missing_dirs :: "fs \<Rightarrow> string \<Rightarrow> string \<Rightarrow> string list \<Rightarrow> findings \<Rightarrow> findings" where
  "missing_dirs s cwd rootDir [] f = f"
| "missing_dirs s cwd rootDir (dir # dirs) f =
     missing_dirs s cwd rootDir dirs
       (if \<not> existsSync s cwd (path_join rootDir dir)
        then push_error (''Missing required directory: '' @ dir) f else f)"

fun missing_indexes :: "fs \<Rightarrow> string \<Rightarrow> string \<Rightarrow> string list \<Rightarrow> findings \<Rightarrow> findings" where
  "missing_indexes s cwd rootDir [] f = f"
| "missing_indexes s cwd rootDir (index # indexes) f =
     missing_indexes s cwd rootDir indexes
       (if \<not> existsSync s cwd (path_join rootDir index)
        then push_warning (''Missing index file: '' @ index) f else f)"

definition validateDocsStructure :: "fs \<Rightarrow> string \<Rightarrow> string \<Rightarrow> findings \<Rightarrow> findings" where
  "validateDocsStructure s cwd rootDir f =
     missing_indexes s cwd rootDir requiredIndexes (missing_dirs s cwd rootDir requiredDirs f)"

subsection \<open>The link pattern\<close>

text \<open>
  \<^verbatim>\<open>/\[([^\]]+)\]\(([^)]+)\)/g\<close> matches an opening bracket, one or more characters other
  than the closing bracket, the closing bracket, an opening parenthesis, one or more
  characters other than the closing parenthesis, and the closing parenthesis. Both
  character classes exclude the one character that may follow them, so a match at a
  position, if there is one, runs to the first closing bracket and then to the first
  closing parenthesis. \<open>match_link\<close> is the match at the head of the text: the second
  group and the text after the match. \<^verbatim>\<open>exec\<close> with the \<^verbatim>\<open>g\<close> flag finds the leftmost
  match from \<^verbatim>\<open>lastIndex\<close> on and continues after it.
\<close>

fun take_until :: "char \<Rightarrow> string \<Rightarrow> (string \<times> string) option" where
  "take_until d [] = None"
| "take_until d (c # cs) =
     (if c = d then Some ([], cs)
      else (case take_until d cs of None \<Rightarrow> None | Some (a, r) \<Rightarrow> Some (c # a, r)))"

definition match_link :: "string \<Rightarrow> (string \<times> string) option" where
  "match_link xs =
     (case xs of
        [] \<Rightarrow> None
      | c # cs \<Rightarrow>
         if c \<noteq> CHR ''['' then None
         else
           (case take_until CHR '']'' cs of
              None \<Rightarrow> None
            | Some (label, r1) \<Rightarrow>
               if label = [] then None
               else
                 (case r1 of
                    [] \<Rightarrow> None
                  | d # r2 \<Rightarrow>
                     if d \<noteq> CHR ''('' then None
                     else
                       (case take_until CHR '')'' r2 of
                          None \<Rightarrow> None
                        | Some (linkPath, r3) \<Rightarrow>
                           if linkPath = [] then None else Some (linkPath, r3)))))"

lemma take_until_shorter: "take_until d xs = Some (a, r) \<Longrightarrow> length r < length xs"
  by (induction xs arbitrary: a r) (auto split: if_splits option.splits)

lemma match_link_shorter: "match_link xs = Some (a, r) \<Longrightarrow> length r < length xs"
  by (auto simp: match_link_def split: list.splits if_splits option.splits
      dest!: take_until_shorter)

function scan_links :: "string \<Rightarrow> string list" where
  "scan_links [] = []"
| "scan_links (c # cs) =
     (case match_link (c # cs) of
        Some (linkPath, r) \<Rightarrow> linkPath # scan_links r
      | None \<Rightarrow> scan_links cs)"
  by pat_completeness auto
termination
proof (relation "measure length")
  show "wf (measure length)" by simp
next
  fix c :: char and cs :: string
  show "(cs, c # cs) \<in> measure length" by simp
next
  fix c :: char and cs :: string and m :: "string \<times> string" and a r :: string
  assume "match_link (c # cs) = Some m" "(a, r) = m"
  then have "match_link (c # cs) = Some (a, r)" by simp
  from match_link_shorter[OF this] show "(r, c # cs) \<in> measure length" by simp
qed

fun check_links :: "fs \<Rightarrow> string \<Rightarrow> string \<Rightarrow> string list \<Rightarrow> findings \<Rightarrow> findings" where
  "check_links s cwd rootDir [] f = f"
| "check_links s cwd rootDir (linkPath # rest) f =
     check_links s cwd rootDir rest
       (if prefix ''http'' linkPath then f
        else if \<not> existsSync s cwd (path_join rootDir linkPath)
        then push_warning (''Broken link in AGENTS.md: '' @ linkPath) f
        else f)"

definition validateCrossLinks :: "fs \<Rightarrow> string \<Rightarrow> string \<Rightarrow> findings \<Rightarrow> findings \<times> fs_error option" where
  "validateCrossLinks s cwd rootDir f =
     (let agentsPath = path_join rootDir ''AGENTS.md'' in
      if \<not> existsSync s cwd agentsPath then (f, None)
      else
        (case readFileSync s cwd agentsPath of
           Inl e \<Rightarrow> (f, Some e)
         | Inr agentsContent \<Rightarrow> (check_links s cwd rootDir (scan_links agentsContent) f, None)))"

subsection \<open>Freshness\<close>

definition sixMonths :: rat where
  "sixMonths = 6 * 30 * 24 * 60 * 60 * 1000"

fun stale_docs :: "fs \<Rightarrow> string \<Rightarrow> string \<Rightarrow> rat \<Rightarrow> string list \<Rightarrow> findings \<Rightarrow> findings \<times> fs_error option" where
  "stale_docs s cwd designDocsDir now [] f = (f, None)"
| "stale_docs s cwd designDocsDir now (file # rest) f =
     (if file = ''index.md'' \<or> file = ''template.md'' then stale_docs s cwd designDocsDir now rest f
      else
        (case statSync s cwd (path_join designDocsDir file) of
           Inl e \<Rightarrow> (f, Some e)
         | Inr mtime \<Rightarrow>
            stale_docs s cwd designDocsDir now rest
              (if now - mtime > sixMonths
               then push_warning
                      (''Design doc hasn'' @ SQ @ ''t been updated in 6+ months: '' @ file) f
               else f)))"

definition validateDocFreshness :: "fs \<Rightarrow> string \<Rightarrow> string \<Rightarrow> rat \<Rightarrow> findings \<Rightarrow> findings \<times> fs_error option" where
  "validateDocFreshness s cwd rootDir now f =
     (let designDocsDir = path_join rootDir ''docs/design-docs'' in
      if \<not> existsSync s cwd designDocsDir then (f, None)
      else
        (case readdirSync s cwd designDocsDir of
           Inl e \<Rightarrow> (f, Some e)
         | Inr names \<Rightarrow>
            (let mdfiles = filter (\<lambda>n. suffix ''.md'' n) names in
             if length mdfiles = 0
             then (push_warning ''No design documents found in docs/design-docs/'' f, None)
             else stale_docs s cwd designDocsDir now mdfiles f)))"

subsection \<open>\<^verbatim>\<open>validate\<close> and the exit status\<close>

text \<open>
  \<^verbatim>\<open>validate\<close> runs the four checks, prints the two lists and returns whether the error
  list is empty; the script ends with \<^verbatim>\<open>process.exit(success ? 0 : 1)\<close>. A file-system
  exception is caught nowhere: it ends the process before \<^verbatim>\<open>validate\<close> returns, with
  the status 1 that Node gives an uncaught exception. \<open>collect\<close> is the part of
  \<^verbatim>\<open>validate\<close> before \<^verbatim>\<open>printResults\<close>; printing changes neither list. The script
  constructs its validator without an argument, so \<^verbatim>\<open>rootDir\<close> is the working directory.
\<close>

definition collect :: "fs \<Rightarrow> string \<Rightarrow> string \<Rightarrow> rat \<Rightarrow> findings \<times> fs_error option" where
  "collect s cwd rootDir now =
     (case validateRootDocs s cwd rootDir \<lparr>errors = [], warnings = []\<rparr> of
        (f1, Some e) \<Rightarrow> (f1, Some e)
      | (f1, None) \<Rightarrow>
         (case validateCrossLinks s cwd rootDir (validateDocsStructure s cwd rootDir f1) of
            (f3, Some e) \<Rightarrow> (f3, Some e)
          | (f3, None) \<Rightarrow> validateDocFreshness s cwd rootDir now f3))"

definition validate :: "fs \<Rightarrow> string \<Rightarrow> string \<Rightarrow> rat \<Rightarrow> fs_error + bool" where
  "validate s cwd rootDir now =
     (case collect s cwd rootDir now of
        (f, Some e) \<Rightarrow> Inl e
      | (f, None) \<Rightarrow> Inr (length (errors f) = 0))"

definition validator_exit :: "fs \<Rightarrow> string \<Rightarrow> rat \<Rightarrow> int" where
  "validator_exit s cwd now =
     (case validate s cwd cwd now of
        Inl e \<Rightarrow> 1
      | Inr success \<Rightarrow> (if success then 0 else 1))"


section \<open>Notions for the statements\<close>

text \<open>
  Where a path leads if every directory on its way exists: the components are followed
  without looking at the state. \<open>resolve\<close> is the location that the file-system calls
  reach from the working directory \<open>cwd\<close> (lemma \<open>locate_resolve\<close>).
\<close>

fun norm_acc :: "fpath \<Rightarrow> string list \<Rightarrow> fpath" where
  "norm_acc acc [] = acc"
| "norm_acc acc (c # cs) =
     (if c = [] \<or> c = ''.'' then norm_acc acc cs
      else if c = ''..'' then norm_acc (butlast acc) cs
      else norm_acc (acc @ [c]) cs)"

definition components :: "string \<Rightarrow> string \<Rightarrow> string list" where
  "components cwd p = (if absolute p then split_path p else split_path cwd @ split_path p)"

definition resolve :: "string \<Rightarrow> string \<Rightarrow> fpath" where
  "resolve cwd p = norm_acc [] (components cwd p)"

definition normalized :: "string list \<Rightarrow> bool" where
  "normalized p = list_all (\<lambda>c. c \<noteq> [] \<and> c \<noteq> ''.'' \<and> c \<noteq> ''..'') p"

definition is_dir :: "fs \<Rightarrow> fpath \<Rightarrow> bool" where
  "is_dir s q = (case lookup s q of Some (Dir m) \<Rightarrow> True | _ \<Rightarrow> False)"

definition is_file :: "fs \<Rightarrow> fpath \<Rightarrow> bool" where
  "is_file s q = (case lookup s q of Some (File c m) \<Rightarrow> True | _ \<Rightarrow> False)"

text \<open>What a node is, without its time.\<close>

datatype kind = KDir | KFile string

fun kind_of :: "node \<Rightarrow> kind" where
  "kind_of (Dir m) = KDir"
| "kind_of (File c m) = KFile c"

definition kind_at :: "fs \<Rightarrow> fpath \<Rightarrow> kind option" where
  "kind_at s q = map_option kind_of (lookup s q)"

text \<open>The content that the last write to a location in a list of calls gives it.\<close>

fun written :: "string \<Rightarrow> fs_op list \<Rightarrow> fpath \<Rightarrow> string option" where
  "written cwd [] q = None"
| "written cwd (op # ops) q =
     (case written cwd ops q of
        Some c \<Rightarrow> Some c
      | None \<Rightarrow>
         (case op of
            WriteFileSync p c \<Rightarrow> if resolve cwd p = q then Some c else None
          | MkdirSync p \<Rightarrow> None))"

fun last_entry :: "('k \<times> 'v) list \<Rightarrow> 'k \<Rightarrow> 'v option" where
  "last_entry [] k = None"
| "last_entry (e # es) k =
     (case last_entry es k of
        Some v \<Rightarrow> Some v
      | None \<Rightarrow> if fst e = k then Some (snd e) else None)"

text \<open>The directories and files of \<^verbatim>\<open>main\<close>, as locations below the target.\<close>

definition rel_dirs :: "project \<Rightarrow> fpath list" where
  "rel_dirs project = map split_path (directories project)"

definition rel_files :: "project \<Rightarrow> (fpath \<times> string) list" where
  "rel_files project = map (\<lambda>(n, c). (split_path n, c)) (files project)"

text \<open>A state in which nothing exists below a location.\<close>

definition fresh :: "fs \<Rightarrow> fpath \<Rightarrow> bool" where
  "fresh s base = list_all (\<lambda>e. \<not> strict_prefix base (fst e)) s"

text \<open>A typed path without a \<^verbatim>\<open>..\<close> component.\<close>

definition plain :: "string \<Rightarrow> bool" where
  "plain p = (''..'' \<notin> set (split_path p))"

text \<open>The session was cancelled at one of its prompts.\<close>

definition cancelled :: "session \<Rightarrow> bool" where
  "cancelled a =
     (ask_path a = Cancel \<or> ask_projectType a = Cancel \<or> ask_validationLanguage a = Cancel
      \<or> ask_includeObservability a = Cancel \<or> ask_includeCI a = Cancel)"

text \<open>The absolute path string of a location, as \<^verbatim>\<open>process.cwd()\<close> returns it.\<close>

definition path_string :: "fpath \<Rightarrow> string" where
  "path_string q = (if q = [] then ''/'' else concat (map (\<lambda>c. CHR ''/'' # c) q))"

text \<open>Two sessions and a state to run them in.\<close>

definition demo_session :: session where
  "demo_session =
     \<lparr>ask_path = Submit [], ask_projectType = Submit Backend,
      ask_validationLanguage = Submit Javascript, ask_includeObservability = Submit True,
      ask_includeCI = Submit False\<rparr>"

definition demo_project :: project where
  "demo_project =
     \<lparr>path = ''./my-agent-project'', projectType = Backend, validationLanguage = Javascript,
      includeObservability = True, includeCI = False\<rparr>"

definition demo_session_ci :: session where
  "demo_session_ci =
     \<lparr>ask_path = Submit ''/srv/app'', ask_projectType = Submit Fullstack,
      ask_validationLanguage = Submit Typescript, ask_includeObservability = Submit False,
      ask_includeCI = Submit True\<rparr>"

definition demo_project_ci :: project where
  "demo_project_ci =
     \<lparr>path = ''/srv/app'', projectType = Fullstack, validationLanguage = Typescript,
      includeObservability = False, includeCI = True\<rparr>"

definition home :: fs where
  "home = [([''home''], Dir 0)]"

text \<open>The parent of every file of a plan is the target or lies on the way to one of the
  directories of the plan, and no file is on the way to a directory.\<close>

definition plan_ok :: "fpath list \<Rightarrow> (fpath \<times> string) list \<Rightarrow> bool" where
  "plan_ok ds fl =
     list_all (\<lambda>e. fst e \<noteq> [] \<and> \<not> list_ex (prefix (fst e)) ds
                 \<and> (butlast (fst e) = [] \<or> list_ex (prefix (butlast (fst e))) ds)) fl"

text \<open>Two project directories for the validator: one whose \<^verbatim>\<open>AGENTS.md\<close> is a directory, and
  one that has every required document and directory but no index file and no design
  document.\<close>

definition blocked :: fs where
  "blocked =
     [([''p''], Dir 0),
      ([''p'', ''AGENTS.md''], Dir 0),
      ([''p'', ''CLAUDE.md''], File ''# Guide'' 0),
      ([''p'', ''ARCHITECTURE.md''], File [] 0),
      ([''p'', ''DESIGN.md''], File [] 0),
      ([''p'', ''PLANS.md''], File [] 0),
      ([''p'', ''PRODUCT_SENSE.md''], File [] 0),
      ([''p'', ''QUALITY_SCORE.md''], File [] 0),
      ([''p'', ''RELIABILITY.md''], File [] 0),
      ([''p'', ''SECURITY.md''], File [] 0)]"

definition bare :: fs where
  "bare =
     [([''q''], Dir 0),
      ([''q'', ''AGENTS.md''], File ''# Guide'' 0),
      ([''q'', ''CLAUDE.md''], File ''# Guide'' 0),
      ([''q'', ''ARCHITECTURE.md''], File [] 0),
      ([''q'', ''DESIGN.md''], File [] 0),
      ([''q'', ''PLANS.md''], File [] 0),
      ([''q'', ''PRODUCT_SENSE.md''], File [] 0),
      ([''q'', ''QUALITY_SCORE.md''], File [] 0),
      ([''q'', ''RELIABILITY.md''], File [] 0),
      ([''q'', ''SECURITY.md''], File [] 0),
      ([''q'', ''docs''], Dir 0),
      ([''q'', ''docs'', ''design-docs''], Dir 0),
      ([''q'', ''docs'', ''exec-plans''], Dir 0),
      ([''q'', ''docs'', ''exec-plans'', ''active''], Dir 0),
      ([''q'', ''docs'', ''exec-plans'', ''completed''], Dir 0),
      ([''q'', ''docs'', ''product-specs''], Dir 0),
      ([''q'', ''docs'', ''references''], Dir 0),
      ([''q'', ''docs'', ''generated''], Dir 0)]"


section \<open>Paths\<close>

lemma norm_acc_append: "norm_acc acc (xs @ ys) = norm_acc (norm_acc acc xs) ys"
  by (induction xs arbitrary: acc) auto

lemma norm_acc_normalized: "normalized p \<Longrightarrow> norm_acc acc p = acc @ p"
  by (induction p arbitrary: acc) (auto simp: normalized_def)

lemma normalized_butlast: "normalized p \<Longrightarrow> normalized (butlast p)"
  by (auto simp: normalized_def list_all_iff dest: in_set_butlastD)

lemma normalized_snoc: "normalized (p @ [c]) = (normalized p \<and> c \<noteq> [] \<and> c \<noteq> ''.'' \<and> c \<noteq> ''..'')"
  by (auto simp: normalized_def)

lemma normalized_norm_acc: "normalized acc \<Longrightarrow> normalized (norm_acc acc xs)"
  by (induction xs arbitrary: acc) (auto simp: normalized_butlast normalized_snoc)

lemma normalized_resolve: "normalized (resolve cwd p)"
  unfolding resolve_def by (rule normalized_norm_acc) (simp add: normalized_def)

lemma norm_acc_prefix: "''..'' \<notin> set cs \<Longrightarrow> prefix acc (norm_acc acc cs)"
proof (induction cs arbitrary: acc)
  case Nil
  then show ?case by simp
next
  case (Cons c cs)
  have "prefix acc (acc @ [c])" by simp
  also have "prefix (acc @ [c]) (norm_acc (acc @ [c]) cs)" using Cons by simp
  finally have "prefix acc (norm_acc (acc @ [c]) cs)" .
  with Cons show ?case by auto
qed

lemma lookup_Nil [simp]: "lookup s [] = Some (Dir 0)"
  by (simp add: lookup_def)

lemma lookup_update:
  "lookup (AList.update p n s) q = (if q = [] then Some (Dir 0) else if q = p then Some n else lookup s q)"
  by (simp add: lookup_def update_conv')

lemma is_dir_root [simp]: "is_dir s []"
  by (simp add: is_dir_def)

lemma is_dir_iff: "is_dir s q \<longleftrightarrow> (\<exists>m. lookup s q = Some (Dir m))"
  by (auto simp: is_dir_def split: option.splits node.splits)

lemma is_file_iff: "is_file s q \<longleftrightarrow> (\<exists>c m. lookup s q = Some (File c m))"
  by (auto simp: is_file_def split: option.splits node.splits)

text \<open>A path that the operating system resolves leads where its components say.\<close>

lemma walk_resolve: "walk s d cs = Inr q \<Longrightarrow> q = norm_acc d cs"
  by (induction cs arbitrary: d) (auto split: option.splits node.splits if_splits)

lemma locate_resolve: "locate s cwd p = Inr q \<Longrightarrow> q = resolve cwd p"
  by (auto simp: locate_def resolve_def components_def dest: walk_resolve split: if_splits)

lemma walk_mono:
  "walk s d cs = Inr q \<Longrightarrow> (\<And>x. is_dir s x \<Longrightarrow> is_dir s' x) \<Longrightarrow> walk s' d cs = Inr q"
proof (induction cs arbitrary: d)
  case Nil
  then show ?case by simp
next
  case (Cons c cs)
  from Cons.prems(1) have "is_dir s d"
    by (auto simp: is_dir_def split: option.splits node.splits)
  then have "is_dir s' d" by (rule Cons.prems(2))
  then obtain m' where m': "lookup s' d = Some (Dir m')" by (auto simp: is_dir_iff)
  from Cons.prems(1) \<open>is_dir s d\<close> Cons.IH Cons.prems(2) m' show ?case
    by (auto simp: is_dir_iff split: if_splits)
qed

lemma locate_mono:
  "locate s cwd p = Inr q \<Longrightarrow> (\<And>x. is_dir s x \<Longrightarrow> is_dir s' x) \<Longrightarrow> locate s' cwd p = Inr q"
  by (auto simp: locate_def split: if_splits intro: walk_mono)

text \<open>Everything above the place where a resolved path ends is a directory.\<close>

lemma walk_dirs:
  "walk s d cs = Inr q \<Longrightarrow> strict_prefix x q \<Longrightarrow> strict_prefix x d \<or> is_dir s x"
proof (induction cs arbitrary: d)
  case Nil
  then show ?case by simp
next
  case (Cons c cs)
  from Cons.prems(1) have d: "is_dir s d"
    by (auto simp: is_dir_def split: option.splits node.splits)
  consider (skip) "c = [] \<or> c = ''.''" | (up) "c = ''..''" | (name) "c \<noteq> [] \<and> c \<noteq> ''.'' \<and> c \<noteq> ''..''"
    by auto
  then show ?case
  proof cases
    case skip
    with Cons.prems(1) d have "walk s d cs = Inr q" by (auto simp: is_dir_iff)
    from Cons.IH[OF this Cons.prems(2)] show ?thesis .
  next
    case up
    with Cons.prems(1) d have "walk s (butlast d) cs = Inr q" by (auto simp: is_dir_iff)
    from Cons.IH[OF this Cons.prems(2)] have "strict_prefix x (butlast d) \<or> is_dir s x" .
    moreover have "prefix (butlast d) d" by (simp add: prefixeq_butlast)
    ultimately show ?thesis using prefix_order.less_le_trans by blast
  next
    case name
    with Cons.prems(1) d have "walk s (d @ [c]) cs = Inr q" by (auto simp: is_dir_iff)
    from Cons.IH[OF this Cons.prems(2)] have "strict_prefix x (d @ [c]) \<or> is_dir s x" .
    then show ?thesis using d by (auto simp: strict_prefix_def)
  qed
qed

lemma locate_dirs: "locate s cwd p = Inr q \<Longrightarrow> strict_prefix x q \<Longrightarrow> is_dir s x"
  using walk_dirs[of s "[]" _ q x] by (auto simp: locate_def split: if_splits)

subsection \<open>Splitting and joining\<close>

lemma split_sep_append:
  "split_sep acc (xs @ CHR ''/'' # ys) = split_sep acc xs @ split_sep [] ys"
  by (induction xs arbitrary: acc) auto

lemma split_sep_plain: "CHR ''/'' \<notin> set xs \<Longrightarrow> split_sep acc xs = [acc @ xs]"
  by (induction xs arbitrary: acc) auto

lemma split_sep_ne: "split_sep acc xs \<noteq> []"
  by (induction xs arbitrary: acc) auto

lemma split_sep_slashfree:
  "CHR ''/'' \<notin> set acc \<Longrightarrow> c \<in> set (split_sep acc xs) \<Longrightarrow> CHR ''/'' \<notin> set c"
proof (induction xs arbitrary: acc)
  case Nil
  then show ?case by simp
next
  case (Cons a xs)
  show ?case
  proof (cases "a = CHR ''/''")
    case True
    with Cons.prems have "c = acc \<or> c \<in> set (split_sep [] xs)" by simp
    then show ?thesis using Cons.prems(1) Cons.IH[of "[]"] by auto
  next
    case False
    with Cons.prems have "c \<in> set (split_sep (acc @ [a]) xs)" by simp
    from Cons.IH[OF _ this] False Cons.prems(1) show ?thesis by simp
  qed
qed

lemma split_path_slashfree: "c \<in> set (split_path p) \<Longrightarrow> CHR ''/'' \<notin> set c"
  unfolding split_path_def by (rule split_sep_slashfree[of "[]"]) simp_all

lemma split_path_append: "split_path (a @ ''/'' @ b) = split_path a @ split_path b"
  by (simp add: split_path_def split_sep_append)

lemma split_path_snoc_slash: "split_path (a @ ''/'') = split_path a @ [[]]"
  using split_path_append[of a "[]"] by (simp add: split_path_def)

lemma split_path_slash_cons: "split_path (CHR ''/'' # a) = [] # split_path a"
  by (simp add: split_path_def)

lemma split_unsplit:
  "cs \<noteq> [] \<Longrightarrow> (\<And>c. c \<in> set cs \<Longrightarrow> CHR ''/'' \<notin> set c) \<Longrightarrow> split_path (unsplit cs) = cs"
proof (induction cs rule: unsplit.induct)
  case 1
  then show ?case by simp
next
  case (2 c)
  then show ?case by (simp add: split_path_def split_sep_plain)
next
  case (3 c d cs)
  have "split_path (c @ ''/'' @ unsplit (d # cs)) = split_path c @ split_path (unsplit (d # cs))"
    by (rule split_path_append)
  moreover have "split_path c = [c]" using 3(3)[of c] by (simp add: split_path_def split_sep_plain)
  moreover have "split_path (unsplit (d # cs)) = d # cs" using 3 by simp
  ultimately show ?case by simp
qed

lemma normalizeString_set:
  "c \<in> set (normalizeString al res cs) \<Longrightarrow> c \<in> set res \<or> c \<in> set cs"
proof (induction cs arbitrary: res)
  case Nil
  then show ?case by simp
next
  case (Cons a cs)
  consider (skip) "a = [] \<or> a = ''.''"
    | (pop) "a = ''..''" "res \<noteq> [] \<and> last res \<noteq> ''..''"
    | (keep) "a = ''..''" "\<not> (res \<noteq> [] \<and> last res \<noteq> ''..'')" "al"
    | (drop) "a = ''..''" "\<not> (res \<noteq> [] \<and> last res \<noteq> ''..'')" "\<not> al"
    | (name) "a \<noteq> [] \<and> a \<noteq> ''.'' \<and> a \<noteq> ''..''"
    by blast
  then show ?case
  proof cases
    case skip
    with Cons.prems have "c \<in> set (normalizeString al res cs)" by auto
    from Cons.IH[OF this] show ?thesis by auto
  next
    case pop
    with Cons.prems have "c \<in> set (normalizeString al (butlast res) cs)" by simp
    from Cons.IH[OF this] show ?thesis by (auto dest: in_set_butlastD)
  next
    case keep
    with Cons.prems have "c \<in> set (normalizeString al (res @ [''..'']) cs)" by auto
    from Cons.IH[OF this] keep show ?thesis by auto
  next
    case drop
    with Cons.prems have "c \<in> set (normalizeString al res cs)" by auto
    from Cons.IH[OF this] show ?thesis by auto
  next
    case name
    with Cons.prems have "c \<in> set (normalizeString al (res @ [a]) cs)" by auto
    from Cons.IH[OF this] show ?thesis by auto
  qed
qed

lemma normalizeString_nodot:
  "c \<in> set (normalizeString al res cs) \<Longrightarrow> (\<And>x. x \<in> set res \<Longrightarrow> x \<noteq> [] \<and> x \<noteq> ''.'')
     \<Longrightarrow> c \<noteq> [] \<and> c \<noteq> ''.''"
proof (induction cs arbitrary: res)
  case Nil
  then show ?case by simp
next
  case (Cons a cs)
  consider (skip) "a = [] \<or> a = ''.''"
    | (pop) "a = ''..''" "res \<noteq> [] \<and> last res \<noteq> ''..''"
    | (keep) "a = ''..''" "\<not> (res \<noteq> [] \<and> last res \<noteq> ''..'')" "al"
    | (drop) "a = ''..''" "\<not> (res \<noteq> [] \<and> last res \<noteq> ''..'')" "\<not> al"
    | (name) "a \<noteq> [] \<and> a \<noteq> ''.'' \<and> a \<noteq> ''..''"
    by blast
  then show ?case
  proof cases
    case skip
    with Cons.prems(1) have "c \<in> set (normalizeString al res cs)" by auto
    from Cons.IH[OF this Cons.prems(2)] show ?thesis by simp
  next
    case pop
    with Cons.prems(1) have "c \<in> set (normalizeString al (butlast res) cs)" by simp
    from Cons.IH[OF this] Cons.prems(2) show ?thesis by (auto dest: in_set_butlastD)
  next
    case keep
    with Cons.prems(1) have "c \<in> set (normalizeString al (res @ [''..'']) cs)" by auto
    from Cons.IH[OF this] Cons.prems(2) show ?thesis by auto
  next
    case drop
    with Cons.prems(1) have "c \<in> set (normalizeString al res cs)" by auto
    from Cons.IH[OF this Cons.prems(2)] show ?thesis by simp
  next
    case name
    with Cons.prems(1) have "c \<in> set (normalizeString al (res @ [a]) cs)" by auto
    from Cons.IH[OF this] Cons.prems(2) name show ?thesis by auto
  qed
qed

text \<open>\<^verbatim>\<open>normalizeString\<close> does not change where the components lead.\<close>

lemma norm_acc_normalizeString:
  assumes "\<And>x. x \<in> set res \<Longrightarrow> x \<noteq> [] \<and> x \<noteq> ''.''"
    and "al \<or> (d = [] \<and> ''..'' \<notin> set res)"
  shows "norm_acc d (normalizeString al res cs) = norm_acc (norm_acc d res) cs"
  using assms
proof (induction cs arbitrary: res)
  case Nil
  then show ?case by simp
next
  case (Cons a cs)
  consider (skip) "a = [] \<or> a = ''.''"
    | (pop) "a = ''..''" "res \<noteq> [] \<and> last res \<noteq> ''..''"
    | (keep) "a = ''..''" "\<not> (res \<noteq> [] \<and> last res \<noteq> ''..'')" "al"
    | (drop) "a = ''..''" "\<not> (res \<noteq> [] \<and> last res \<noteq> ''..'')" "\<not> al"
    | (name) "a \<noteq> [] \<and> a \<noteq> ''.'' \<and> a \<noteq> ''..''"
    by blast
  then show ?case
  proof cases
    case skip
    then show ?thesis using Cons.IH[OF Cons.prems] by auto
  next
    case pop
    then obtain r l where res: "res = r @ [l]" by (metis append_butlast_last_id)
    with pop Cons.prems(1)[of l] have l: "l \<noteq> [] \<and> l \<noteq> ''.'' \<and> l \<noteq> ''..''" by simp
    have "norm_acc d (normalizeString al r cs) = norm_acc (norm_acc d r) cs"
      by (rule Cons.IH) (use Cons.prems res in auto)
    moreover have "norm_acc d res = norm_acc d r @ [l]" using l res by (simp add: norm_acc_append)
    ultimately show ?thesis using pop res by simp
  next
    case keep
    have "norm_acc d (normalizeString al (res @ [''..'']) cs) = norm_acc (norm_acc d (res @ [''..''])) cs"
      by (rule Cons.IH) (use Cons.prems keep in auto)
    then show ?thesis using keep by (auto simp: norm_acc_append)
  next
    case drop
    with Cons.prems(2) have "d = []" "''..'' \<notin> set res" by auto
    with drop(2) have "res = []" by (cases res rule: rev_cases) auto
    with drop \<open>d = []\<close> Cons.IH[OF Cons.prems] show ?thesis by simp
  next
    case name
    have "norm_acc d (normalizeString al (res @ [a]) cs) = norm_acc (norm_acc d (res @ [a])) cs"
      by (rule Cons.IH) (use Cons.prems name in auto)
    then show ?thesis using name by (auto simp: norm_acc_append)
  qed
qed

lemma unsplit_Nil_iff: "(\<And>c. c \<in> set cs \<Longrightarrow> c \<noteq> []) \<Longrightarrow> unsplit cs = [] \<longleftrightarrow> cs = []"
  by (induction cs rule: unsplit.induct) auto

lemma hd_unsplit: "cs \<noteq> [] \<Longrightarrow> hd cs \<noteq> [] \<Longrightarrow> hd (unsplit cs) = hd (hd cs)"
  by (induction cs rule: unsplit.induct) auto
text \<open>\<^verbatim>\<open>normalize\<close> and \<^verbatim>\<open>join\<close> do not change where a path leads.\<close>

lemma resolve_normalize:
  assumes "p \<noteq> []"
  shows "resolve cwd (normalize p) = resolve cwd p"
proof -
  define ab where "ab = (hd p = CHR ''/'')"
  define ns where "ns = normalizeString (\<not> ab) [] (split_path p)"
  define tr where "tr = (if last p = CHR ''/'' then ''/'' else [])"
  have nd: "c \<noteq> [] \<and> c \<noteq> ''.''" if "c \<in> set ns" for c
    using normalizeString_nodot[of c "\<not> ab" "[]" "split_path p"] that by (simp add: ns_def)
  have sf: "CHR ''/'' \<notin> set c" if "c \<in> set ns" for c
    using normalizeString_set[of c "\<not> ab" "[]" "split_path p"] that split_path_slashfree[of c p]
    by (auto simp: ns_def)
  have r0: "unsplit ns = [] \<longleftrightarrow> ns = []"
    by (rule unsplit_Nil_iff) (use nd in blast)
  have nz: "normalize p =
      (if ns = [] then (if ab then ''/'' else if last p = CHR ''/'' then ''./'' else ''.'')
       else (if ab then ''/'' else []) @ unsplit ns @ tr)"
    using assms by (simp add: normalize_def Let_def ab_def[symmetric] ns_def[symmetric] r0 tr_def)
  have sp: "split_path (unsplit ns @ tr) = ns @ (if last p = CHR ''/'' then [[]] else [])" if "ns \<noteq> []"
  proof -
    have "split_path (unsplit ns) = ns" by (rule split_unsplit) (use that sf in auto)
    then show ?thesis using split_path_snoc_slash[of "unsplit ns"] by (simp add: tr_def)
  qed
  have tail: "norm_acc d (ns @ (if last p = CHR ''/'' then [[]] else [])) = norm_acc d ns" for d
    by (simp add: norm_acc_append)
  show ?thesis
  proof (cases ab)
    case True
    then have ap: "absolute p" using assms by (simp add: absolute_def ab_def)
    have lex: "norm_acc [] ns = norm_acc [] (split_path p)"
      unfolding ns_def by (subst norm_acc_normalizeString) (use True in auto)
    show ?thesis
    proof (cases "ns = []")
      case True
      with nz \<open>ab\<close> have "normalize p = ''/''" by simp
      then show ?thesis using lex True ap
        by (simp add: resolve_def components_def absolute_def split_path_def)
    next
      case False
      with nz \<open>ab\<close> have n: "normalize p = CHR ''/'' # (unsplit ns @ tr)" by simp
      have "resolve cwd (normalize p) = norm_acc [] ([] # split_path (unsplit ns @ tr))"
        unfolding n by (simp add: resolve_def components_def absolute_def split_path_slash_cons)
      also have "\<dots> = norm_acc [] ns" using sp[OF False] tail[of "[]"] by simp
      finally show ?thesis using lex ap by (simp add: resolve_def components_def)
    qed
  next
    case False
    then have ap: "\<not> absolute p" by (simp add: absolute_def ab_def)
    define D where "D = norm_acc [] (split_path cwd)"
    have lex: "norm_acc D ns = norm_acc D (split_path p)"
      unfolding ns_def by (subst norm_acc_normalizeString) (use False in auto)
    have rp: "resolve cwd p = norm_acc D (split_path p)"
      using ap by (simp add: resolve_def components_def norm_acc_append D_def)
    show ?thesis
    proof (cases "ns = []")
      case True
      with nz \<open>\<not> ab\<close> have "normalize p = ''./'' \<or> normalize p = ''.''" by simp
      then have "resolve cwd (normalize p) = D"
        by (auto simp: resolve_def components_def absolute_def split_path_def norm_acc_append D_def)
      with rp lex True show ?thesis by simp
    next
      case False
      with nz \<open>\<not> ab\<close> have n: "normalize p = unsplit ns @ tr" by simp
      from False have "hd ns \<in> set ns" by simp
      from nd[OF this] sf[OF this] have h: "hd ns \<noteq> []" "hd (hd ns) \<noteq> CHR ''/''"
        by (auto simp: neq_Nil_conv)
      have "unsplit ns \<noteq> []" using r0 False by simp
      then have "hd (unsplit ns @ tr) = hd (hd ns)" using hd_unsplit[OF False h(1)] by simp
      with h(2) have na: "\<not> absolute (normalize p)" by (simp add: n absolute_def)
      have "resolve cwd (normalize p) = norm_acc D (split_path (unsplit ns @ tr))"
        using na by (simp add: resolve_def components_def norm_acc_append D_def n)
      also have "\<dots> = norm_acc D ns" using sp[OF False] tail[of D] by simp
      finally show ?thesis using rp lex by simp
    qed
  qed
qed

lemma resolve_append:
  "a \<noteq> [] \<Longrightarrow> resolve cwd (a @ ''/'' @ b) = norm_acc (resolve cwd a) (split_path b)"
  using split_path_append[of a b]
  by (cases a) (auto simp: resolve_def components_def absolute_def norm_acc_append)

lemma resolve_path_join:
  assumes "a \<noteq> []" and "b \<noteq> []"
  shows "resolve cwd (path_join a b) = norm_acc (resolve cwd a) (split_path b)"
proof -
  have "path_join a b = normalize (a @ ''/'' @ b)" using assms by (simp add: path_join_def)
  then show ?thesis using resolve_normalize[of "a @ ''/'' @ b" cwd] resolve_append[OF assms(1), of cwd b]
    by simp
qed

lemma resolve_path_join_names:
  "a \<noteq> [] \<Longrightarrow> b \<noteq> [] \<Longrightarrow> normalized (split_path b) \<Longrightarrow>
     resolve cwd (path_join a b) = resolve cwd a @ split_path b"
  by (simp add: resolve_path_join norm_acc_normalized)
section \<open>File-system calls\<close>

lemma mkdirp_frame:
  "mkdirp t d cs s = (s', r) \<Longrightarrow>
     lookup s' q = lookup s q \<or> (lookup s q = None \<and> lookup s' q = Some (Dir t))"
proof (induction cs arbitrary: d s)
  case Nil
  then show ?case by simp
next
  case (Cons c cs)
  consider (skip) "c = [] \<or> c = ''.''" | (up) "c = ''..''" | (name) "c \<noteq> [] \<and> c \<noteq> ''.'' \<and> c \<noteq> ''..''"
    by auto
  then show ?case
  proof cases
    case skip
    with Cons.prems have "mkdirp t d cs s = (s', r)" by auto
    from Cons.IH[OF this] show ?thesis .
  next
    case up
    show ?thesis
    proof (cases "lookup s (butlast d)")
      case None
      with up Cons.prems show ?thesis by simp
    next
      case (Some n)
      show ?thesis
      proof (cases n)
        case (Dir m)
        with up Some Cons.prems have "mkdirp t (butlast d) cs s = (s', r)" by simp
        from Cons.IH[OF this] show ?thesis .
      next
        case (File x m)
        with up Some Cons.prems show ?thesis by simp
      qed
    qed
  next
    case name
    show ?thesis
    proof (cases "lookup s (d @ [c])")
      case None
      with name Cons.prems have "mkdirp t (d @ [c]) cs (AList.update (d @ [c]) (Dir t) s) = (s', r)"
        by simp
      from Cons.IH[OF this] None show ?thesis by (auto simp: lookup_update split: if_splits)
    next
      case (Some n)
      show ?thesis
      proof (cases n)
        case (Dir m)
        with name Some Cons.prems have "mkdirp t (d @ [c]) cs s = (s', r)" by simp
        from Cons.IH[OF this] show ?thesis .
      next
        case (File x m)
        with name Some Cons.prems show ?thesis by simp
      qed
    qed
  qed
qed

lemma mkdirp_plain:
  "''..'' \<notin> set cs \<Longrightarrow> mkdirp t d cs s = (s', r) \<Longrightarrow> lookup s' q \<noteq> lookup s q \<Longrightarrow>
     strict_prefix d q \<and> prefix q (norm_acc d cs)"
proof (induction cs arbitrary: d s)
  case Nil
  then show ?case by simp
next
  case (Cons c cs)
  from Cons.prems(1) have nd: "''..'' \<notin> set cs" "c \<noteq> ''..''" by auto
  show ?case
  proof (cases "c = [] \<or> c = ''.''")
    case True
    with Cons.prems have "mkdirp t d cs s = (s', r)" by auto
    from Cons.IH[OF nd(1) this Cons.prems(3)] True show ?thesis by auto
  next
    case False
    have pre: "prefix (d @ [c]) (norm_acc (d @ [c]) cs)" by (rule norm_acc_prefix[OF nd(1)])
    have step: "norm_acc d (c # cs) = norm_acc (d @ [c]) cs" using False nd by simp
    show ?thesis
    proof (cases "lookup s (d @ [c])")
      case None
      let ?s1 = "AList.update (d @ [c]) (Dir t) s"
      from None False nd Cons.prems have run: "mkdirp t (d @ [c]) cs ?s1 = (s', r)" by simp
      show ?thesis
      proof (cases "q = d @ [c]")
        case True
        with pre step show ?thesis by (simp add: strict_prefix_def)
      next
        case F: False
        with Cons.prems(3) have "lookup s' q \<noteq> lookup ?s1 q" by (auto simp: lookup_update)
        from Cons.IH[OF nd(1) run this] step show ?thesis
          by (auto simp: strict_prefix_def prefix_def)
      qed
    next
      case (Some n)
      show ?thesis
      proof (cases n)
        case (Dir m)
        with False nd Some Cons.prems have "mkdirp t (d @ [c]) cs s = (s', r)" by simp
        from Cons.IH[OF nd(1) this Cons.prems(3)] step show ?thesis
          by (auto simp: strict_prefix_def prefix_def)
      next
        case (File x m)
        with False nd Some Cons.prems show ?thesis by simp
      qed
    qed
  qed
qed

lemma mkdirp_keeps_dir: "mkdirp t d cs s = (s', r) \<Longrightarrow> is_dir s q \<Longrightarrow> is_dir s' q"
  using mkdirp_frame[of t d cs s s' r q] by (auto simp: is_dir_iff)

lemma mkdirp_walk:
  "mkdirp t d cs s = (s', None) \<Longrightarrow> is_dir s d \<Longrightarrow>
     walk s' d cs = Inr (norm_acc d cs) \<and> is_dir s' (norm_acc d cs)"
proof (induction cs arbitrary: d s)
  case Nil
  then show ?case by simp
next
  case (Cons c cs)
  from mkdirp_keeps_dir[OF Cons.prems] obtain m' where d': "lookup s' d = Some (Dir m')"
    by (auto simp: is_dir_iff)
  consider (skip) "c = [] \<or> c = ''.''" | (up) "c = ''..''" | (name) "c \<noteq> [] \<and> c \<noteq> ''.'' \<and> c \<noteq> ''..''"
    by auto
  then show ?case
  proof cases
    case skip
    with Cons.prems have "mkdirp t d cs s = (s', None)" by auto
    from Cons.IH[OF this Cons.prems(2)] skip d' show ?thesis by auto
  next
    case up
    with Cons.prems(1) have "mkdirp t (butlast d) cs s = (s', None)" "is_dir s (butlast d)"
      by (auto simp: is_dir_iff split: option.splits node.splits)
    from Cons.IH[OF this] up d' show ?thesis by simp
  next
    case name
    with Cons.prems(1) obtain s1 where "mkdirp t (d @ [c]) cs s1 = (s', None)" "is_dir s1 (d @ [c])"
      by (auto simp: is_dir_iff lookup_update split: option.splits node.splits)
    from Cons.IH[OF this] name d' show ?thesis by simp
  qed
qed

lemma walk_append:
  "walk s d (xs @ ys) = (case walk s d xs of Inl e \<Rightarrow> Inl e | Inr q \<Rightarrow> walk s q ys)"
  by (induction xs arbitrary: d) (auto split: option.splits node.splits)

lemma mkdirSync_frame:
  "mkdirSync t cwd p s = (s', r) \<Longrightarrow>
     lookup s' q = lookup s q \<or> (lookup s q = None \<and> lookup s' q = Some (Dir t))"
  by (auto simp: mkdirSync_def split: if_splits sum.splits option.splits node.splits
      dest: mkdirp_frame[where q = q])

lemma mkdirSync_exists:
  assumes "mkdirSync t cwd p s = (s', None)"
  shows "locate s' cwd p = Inr (resolve cwd p) \<and> is_dir s' (resolve cwd p)"
proof (cases "absolute p")
  case True
  with assms have "mkdirp t [] (split_path p) s = (s', None)" "p \<noteq> []" "CHR 0x00 \<notin> set p"
    by (auto simp: mkdirSync_def split: if_splits)
  from mkdirp_walk[OF this(1)] this(2,3) True show ?thesis
    by (simp add: locate_def resolve_def components_def)
next
  case False
  with assms obtain d where w: "walk s [] (split_path cwd) = Inr d" and d: "is_dir s d"
    and run: "mkdirp t d (split_path p) s = (s', None)" and p: "p \<noteq> []" "CHR 0x00 \<notin> set p"
    by (auto simp: mkdirSync_def is_dir_iff split: if_splits sum.splits option.splits node.splits)
  have "walk s' [] (split_path cwd) = Inr d"
    by (rule walk_mono[OF w]) (rule mkdirp_keeps_dir[OF run])
  moreover have "d = norm_acc [] (split_path cwd)" using walk_resolve[OF w] .
  ultimately show ?thesis using mkdirp_walk[OF run d] p False
    by (simp add: locate_def resolve_def components_def walk_append norm_acc_append)
qed

lemma mkdirSync_plain:
  assumes "plain p" and "mkdirSync t cwd p s = (s', r)" and "lookup s' q \<noteq> lookup s q"
  shows "prefix q (resolve cwd p) \<and> q \<noteq> []"
proof (cases "absolute p")
  case True
  with assms have "mkdirp t [] (split_path p) s = (s', r)"
    by (auto simp: mkdirSync_def split: if_splits)
  from mkdirp_plain[OF _ this assms(3)] assms(1) True show ?thesis
    by (auto simp: plain_def resolve_def components_def)
next
  case False
  with assms(2,3) obtain d where w: "walk s [] (split_path cwd) = Inr d"
    and run: "mkdirp t d (split_path p) s = (s', r)"
    by (auto simp: mkdirSync_def split: if_splits sum.splits option.splits node.splits)
  have "d = norm_acc [] (split_path cwd)" using walk_resolve[OF w] .
  with mkdirp_plain[OF _ run assms(3)] assms(1) False show ?thesis
    by (auto simp: plain_def resolve_def components_def norm_acc_append)
qed

lemma writeFileSync_ok:
  "writeFileSync t cwd p c s = (s', None) \<Longrightarrow>
     lookup s' q = (if q = resolve cwd p then Some (File c t) else lookup s q)"
  by (auto simp: writeFileSync_def lookup_update dest!: locate_resolve
      split: sum.splits option.splits node.splits if_splits)

lemma writeFileSync_fail: "writeFileSync t cwd p c s = (s', Some e) \<Longrightarrow> s' = s"
  by (auto simp: writeFileSync_def split: sum.splits option.splits node.splits)

lemma writeFileSync_pre:
  "writeFileSync t cwd p c s = (s', None) \<Longrightarrow>
     locate s cwd p = Inr (resolve cwd p) \<and> \<not> is_dir s (resolve cwd p)"
  by (auto simp: writeFileSync_def is_dir_iff dest: locate_resolve
      split: sum.splits option.splits node.splits)

lemma writeFileSync_succeeds:
  "locate s cwd p = Inr q \<Longrightarrow> is_file s q \<Longrightarrow>
     writeFileSync t cwd p c s = (AList.update q (File c t) s, None)"
proof -
  assume l: "locate s cwd p = Inr q" and f: "is_file s q"
  from f have "q \<noteq> []" by (auto simp: is_file_def)
  then have "strict_prefix (butlast q) q"
    by (metis append_butlast_last_id prefix_order.dual_order.strict_iff_order prefixeq_butlast self_append_conv snoc_eq_iff_butlast)
  from locate_dirs[OF l this] obtain m where "lookup s (butlast q) = Some (Dir m)"
    by (auto simp: is_dir_iff)
  with l f show ?thesis by (auto simp: writeFileSync_def is_file_iff)
qed
section \<open>Sequences of calls\<close>

lemma op_change:
  assumes "run_op t cwd op s = (s', r)"
  shows "lookup s' q = lookup s q
       \<or> (lookup s q = None \<and> lookup s' q = Some (Dir t) \<and> (\<exists>p. op = MkdirSync p))
       \<or> (\<exists>p c. op = WriteFileSync p c \<and> resolve cwd p = q \<and> lookup s' q = Some (File c t)
            \<and> r = None \<and> \<not> is_dir s q)"
proof (cases op)
  case (MkdirSync p)
  with assms mkdirSync_frame[of t cwd p s s' r q] show ?thesis by auto
next
  case (WriteFileSync p c)
  show ?thesis
  proof (cases r)
    case None
    with assms WriteFileSync have w: "writeFileSync t cwd p c s = (s', None)" by simp
    from writeFileSync_ok[OF w, of q] writeFileSync_pre[OF w] WriteFileSync None show ?thesis
      by auto
  next
    case (Some e)
    with assms WriteFileSync writeFileSync_fail[of t cwd p c s s' e] show ?thesis by simp
  qed
qed

lemma op_keeps_dir:
  "run_op t cwd op s = (s', r) \<Longrightarrow> lookup s q = Some (Dir m) \<Longrightarrow> lookup s' q = Some (Dir m)"
  using op_change[of t cwd op s s' r q] by (auto simp: is_dir_iff)

lemma op_keeps_file:
  "run_op t cwd op s = (s', r) \<Longrightarrow> is_file s q \<Longrightarrow> is_file s' q"
  using op_change[of t cwd op s s' r q] by (auto simp: is_file_iff)

lemma ops_keeps_dir:
  "run_ops t cwd ops s = (s', r) \<Longrightarrow> lookup s q = Some (Dir m) \<Longrightarrow> lookup s' q = Some (Dir m)"
proof (induction ops arbitrary: s)
  case Nil
  then show ?case by simp
next
  case (Cons op ops)
  obtain s1 r1 where s1: "run_op t cwd op s = (s1, r1)" by (cases "run_op t cwd op s")
  from op_keeps_dir[OF s1 Cons.prems(2)] have d1: "lookup s1 q = Some (Dir m)" .
  show ?case
  proof (cases r1)
    case None
    with Cons.prems s1 have rest: "run_ops t cwd ops s1 = (s', r)" by simp
    from Cons.IH[OF rest d1] show ?thesis .
  next
    case (Some e)
    with Cons.prems s1 d1 show ?thesis by simp
  qed
qed

lemma ops_keeps_is_dir: "run_ops t cwd ops s = (s', r) \<Longrightarrow> is_dir s q \<Longrightarrow> is_dir s' q"
  using ops_keeps_dir[of t cwd ops s s' r q] by (auto simp: is_dir_iff)

lemma ops_keeps_file: "run_ops t cwd ops s = (s', r) \<Longrightarrow> is_file s q \<Longrightarrow> is_file s' q"
proof (induction ops arbitrary: s)
  case Nil
  then show ?case by simp
next
  case (Cons op ops)
  obtain s1 r1 where s1: "run_op t cwd op s = (s1, r1)" by (cases "run_op t cwd op s")
  from op_keeps_file[OF s1 Cons.prems(2)] have d1: "is_file s1 q" .
  show ?case
  proof (cases r1)
    case None
    with Cons.prems s1 have rest: "run_ops t cwd ops s1 = (s', r)" by simp
    from Cons.IH[OF rest d1] show ?thesis .
  next
    case (Some e)
    with Cons.prems s1 d1 show ?thesis by simp
  qed
qed

text \<open>What a sequence of calls can do to a location.\<close>

lemma ops_change:
  "run_ops t cwd ops s = (s', r) \<Longrightarrow>
     lookup s' q = lookup s q
     \<or> (lookup s q = None \<and> lookup s' q = Some (Dir t) \<and> (\<exists>p. MkdirSync p \<in> set ops))
     \<or> (\<exists>p c. WriteFileSync p c \<in> set ops \<and> resolve cwd p = q \<and> lookup s' q = Some (File c t))"
proof (induction ops arbitrary: s)
  case Nil
  then show ?case by simp
next
  case (Cons op ops)
  obtain s1 r1 where s1: "run_op t cwd op s = (s1, r1)" by (cases "run_op t cwd op s")
  note oc = op_change[OF s1, of q]
  show ?case
  proof (cases r1)
    case (Some e)
    with Cons.prems s1 have "s' = s1" by simp
    with oc show ?thesis by auto
  next
    case None
    with Cons.prems s1 have rest: "run_ops t cwd ops s1 = (s', r)" by simp
    note ih = Cons.IH[OF rest]
    from ih consider
        (unchanged) "lookup s' q = lookup s1 q"
      | (made) "lookup s1 q = None" "lookup s' q = Some (Dir t)" "\<exists>p. MkdirSync p \<in> set ops"
      | (wrote) "\<exists>p c. WriteFileSync p c \<in> set ops \<and> resolve cwd p = q \<and> lookup s' q = Some (File c t)"
      by auto
    then show ?thesis
    proof cases
      case unchanged
      with oc show ?thesis by auto
    next
      case made
      with oc show ?thesis by auto
    next
      case wrote
      then show ?thesis by auto
    qed
  qed
qed

lemma written_None:
  "written cwd ops q = None \<Longrightarrow> WriteFileSync p c \<in> set ops \<Longrightarrow> resolve cwd p \<noteq> q"
  by (induction ops) (auto split: option.splits fs_op.splits if_splits)

lemma written_Some:
  "written cwd ops q = Some c \<Longrightarrow> \<exists>p. WriteFileSync p c \<in> set ops \<and> resolve cwd p = q"
  by (induction ops) (auto split: option.splits fs_op.splits if_splits)

lemma ops_unwritten:
  "run_ops t cwd ops s = (s', r) \<Longrightarrow> written cwd ops q = None \<Longrightarrow>
     lookup s' q = lookup s q \<or> (lookup s q = None \<and> lookup s' q = Some (Dir t))"
  using ops_change[of t cwd ops s s' r q] written_None[of cwd ops q] by blast

lemma ops_keeps_content:
  "run_ops t cwd ops s = (s', r) \<Longrightarrow> lookup s q = Some (File c m) \<Longrightarrow> written cwd ops q = None \<Longrightarrow>
     lookup s' q = Some (File c m)"
  using ops_unwritten[of t cwd ops s s' r q] by auto

lemma ops_files:
  "run_ops t cwd ops s = (s', None) \<Longrightarrow> written cwd ops q = Some c \<Longrightarrow> lookup s' q = Some (File c t)"
proof (induction ops arbitrary: s)
  case Nil
  then show ?case by simp
next
  case (Cons op ops)
  obtain s1 where s1: "run_op t cwd op s = (s1, None)" and rest: "run_ops t cwd ops s1 = (s', None)"
    using Cons.prems(1) by (auto split: prod.splits option.splits)
  show ?case
  proof (cases "written cwd ops q")
    case (Some c')
    with Cons.prems(2) have "c' = c" by simp
    with Cons.IH[OF rest] Some show ?thesis by simp
  next
    case None
    with Cons.prems(2) obtain p where op: "op = WriteFileSync p c" "resolve cwd p = q"
      by (auto split: fs_op.splits if_splits)
    with s1 have "lookup s1 q = Some (File c t)" by (simp add: writeFileSync_ok)
    from ops_keeps_content[OF rest this None] show ?thesis .
  qed
qed

text \<open>A write that succeeded found its way, and the way stays.\<close>

lemma ops_located:
  "run_ops t cwd ops s = (s', None) \<Longrightarrow> WriteFileSync p c \<in> set ops \<Longrightarrow>
     locate s' cwd p = Inr (resolve cwd p)"
proof (induction ops arbitrary: s)
  case Nil
  then show ?case by simp
next
  case (Cons op ops)
  obtain s1 where s1: "run_op t cwd op s = (s1, None)" and rest: "run_ops t cwd ops s1 = (s', None)"
    using Cons.prems(1) by (auto split: prod.splits option.splits)
  show ?case
  proof (cases "WriteFileSync p c \<in> set ops")
    case True
    from Cons.IH[OF rest True] show ?thesis .
  next
    case False
    with Cons.prems(2) have op: "op = WriteFileSync p c" by simp
    with s1 have "locate s cwd p = Inr (resolve cwd p)" by (simp add: writeFileSync_pre)
    then have "locate s1 cwd p = Inr (resolve cwd p)"
      by (rule locate_mono) (use s1 in \<open>auto simp: is_dir_iff dest: op_keeps_dir\<close>)
    then show ?thesis
      by (rule locate_mono) (use rest in \<open>auto simp: is_dir_iff dest: ops_keeps_dir\<close>)
  qed
qed

lemma ops_made:
  "run_ops t cwd ops s = (s', None) \<Longrightarrow> MkdirSync p \<in> set ops \<Longrightarrow>
     locate s' cwd p = Inr (resolve cwd p) \<and> is_dir s' (resolve cwd p)"
proof (induction ops arbitrary: s)
  case Nil
  then show ?case by simp
next
  case (Cons op ops)
  obtain s1 where s1: "run_op t cwd op s = (s1, None)" and rest: "run_ops t cwd ops s1 = (s', None)"
    using Cons.prems(1) by (auto split: prod.splits option.splits)
  show ?case
  proof (cases "MkdirSync p \<in> set ops")
    case True
    from Cons.IH[OF rest True] show ?thesis .
  next
    case False
    with Cons.prems(2) have op: "op = MkdirSync p" by simp
    with s1 have m: "locate s1 cwd p = Inr (resolve cwd p)" "is_dir s1 (resolve cwd p)"
      using mkdirSync_exists[of t cwd p s s1] by simp_all
    have "locate s' cwd p = Inr (resolve cwd p)"
      by (rule locate_mono[OF m(1)]) (use rest in \<open>auto simp: is_dir_iff dest: ops_keeps_dir\<close>)
    with ops_keeps_is_dir[OF rest m(2)] show ?thesis by simp
  qed
qed

lemma run_ops_append:
  "run_ops t cwd (xs @ ys) s =
     (case run_ops t cwd xs s of (s1, None) \<Rightarrow> run_ops t cwd ys s1 | (s1, Some e) \<Rightarrow> (s1, Some e))"
  by (induction xs arbitrary: s) (auto split: prod.splits option.splits)

lemma written_append:
  "written cwd (xs @ ys) q = (case written cwd ys q of Some c \<Rightarrow> Some c | None \<Rightarrow> written cwd xs q)"
  by (induction xs) (auto split: option.splits)

lemma written_mkdirs: "written cwd (map (\<lambda>d. MkdirSync (g d)) ds) q = None"
  by (induction ds) auto

lemma last_entry_None: "last_entry es k = None \<longleftrightarrow> k \<notin> fst ` set es"
  by (induction es) (auto split: option.splits)

lemma last_entry_append:
  "last_entry (xs @ ys) k = (case last_entry ys k of Some v \<Rightarrow> Some v | None \<Rightarrow> last_entry xs k)"
  by (induction xs) (auto split: option.splits)

lemma last_entry_mem: "last_entry es k = Some v \<Longrightarrow> (k, v) \<in> set es"
  by (induction es) (auto split: option.splits if_splits)
section \<open>The run of \<^verbatim>\<open>main\<close>\<close>

lemma group_None: "group a = None \<longleftrightarrow> cancelled a"
  by (auto simp: group_def cancelled_def text_prompt_def split: prompt_result.splits)

lemma group_path: "group a = Some project \<Longrightarrow> path project \<noteq> []"
  by (auto simp: group_def text_prompt_def split: prompt_result.splits if_splits)

lemma main_cancelled: "cancelled a \<Longrightarrow> main cwd t a s = (s, ProcessExit 0 ''Operation cancelled.'')"
  by (simp add: main_def group_None[symmetric])

lemma main_run:
  assumes "group a = Some project"
  shows "main cwd t a s = (s', Completed)
     \<longleftrightarrow> run_ops t cwd (scaffold_ops cwd (path project) project s) s = (s', None)"
  using assms by (auto simp: main_def split: prod.splits option.splits)

lemma main_state:
  assumes "group a = Some project"
  shows "fst (main cwd t a s) = fst (run_ops t cwd (scaffold_ops cwd (path project) project s) s)"
  using assms by (auto simp: main_def split: prod.splits option.splits)

lemma rel_dirs_eval:
  "rel_dirs project =
     [[''docs'', ''design-docs''], [''docs'', ''exec-plans'', ''active''],
      [''docs'', ''exec-plans'', ''completed''], [''docs'', ''product-specs''],
      [''docs'', ''references''], [''docs'', ''generated''], [''scripts'']]
     @ (if includeCI project then [[''.github'', ''workflows'']] else [])"
  by (simp add: rel_dirs_def directories_def split_path_def)

lemma rel_files_eval:
  "rel_files project =
     [([''AGENTS.md''], getAgentsTemplate (projectType project)),
      ([''CLAUDE.md''], getAgentsTemplate (projectType project)),
      ([''ARCHITECTURE.md''], getArchitectureTemplate (projectType project)),
      ([''DESIGN.md''], getDesignTemplate),
      ([''PLANS.md''], getPlansTemplate),
      ([''PRODUCT_SENSE.md''], getProductSenseTemplate),
      ([''QUALITY_SCORE.md''], getQualityScoreTemplate),
      ([''RELIABILITY.md''], getReliabilityTemplate),
      ([''SECURITY.md''], getSecurityTemplate)]
     @ (if projectType project = Fullstack \<or> projectType project = Frontend
        then [([''FRONTEND.md''], getFrontendTemplate)] else [])
     @ [([''docs'', ''design-docs'', ''index.md''], designDocsIndex),
        ([''docs'', ''design-docs'', ''core-beliefs.md''], getCoreBeliefsTemplate),
        ([''docs'', ''design-docs'', ''template.md''], getDesignDocTemplate),
        ([''docs'', ''exec-plans'', ''template.md''], getExecPlanTemplate),
        ([''docs'', ''exec-plans'', ''tech-debt-tracker.md''], getTechDebtTrackerTemplate),
        ([''docs'', ''product-specs'', ''index.md''], productSpecsIndex),
        ([''docs'', ''product-specs'', ''template.md''], getProductSpecTemplate),
        ([''scripts'', ''validate-structure.'' @ scriptExt project],
           getValidationScriptTemplate (validationLanguage project))]
     @ (if validationLanguage project = Typescript
        then [([''scripts'', ''package.json''], stringify [] validationPackageJson)] else [])
     @ (if includeCI project
        then [([''.github'', ''workflows'', ''validate-docs.yml''],
                 getGithubWorkflowTemplate (validationLanguage project)),
              ([''.github'', ''markdown-link-check-config.json''], getMarkdownLinkCheckConfig)]
        else [])
     @ [([''.gitignore''], getGitignoreTemplate),
        ([''biome.json''], getBiomeConfigTemplate),
        ([''README.md''], getReadmeTemplate (projectType project) (validationLanguage project))]"
  by (simp add: rel_files_def files_def split_path_def scriptExt_def)


lemma dirs_names: "d \<in> set (directories project) \<Longrightarrow> d \<noteq> [] \<and> normalized (split_path d)"
  by (auto simp: directories_def split_path_def normalized_def split: if_splits)

lemma files_names: "(n, c) \<in> set (files project) \<Longrightarrow> n \<noteq> [] \<and> normalized (split_path n)"
  by (auto simp: files_def scriptExt_def split_path_def normalized_def split: if_splits)

lemma dir_target:
  "p \<noteq> [] \<Longrightarrow> d \<in> set (directories project) \<Longrightarrow>
     resolve cwd (path_join p d) = resolve cwd p @ split_path d"
  using dirs_names[of d project] by (simp add: resolve_path_join_names)

lemma file_target:
  "p \<noteq> [] \<Longrightarrow> (n, c) \<in> set (files project) \<Longrightarrow>
     resolve cwd (path_join p n) = resolve cwd p @ split_path n"
  using files_names[of n c project] by (simp add: resolve_path_join_names)

lemma written_writes:
  "(\<And>n c. (n, c) \<in> set fl \<Longrightarrow> resolve cwd (g n) = base @ split_path n) \<Longrightarrow>
     written cwd (map (\<lambda>(n, c). WriteFileSync (g n) c) fl) (base @ rel)
       = last_entry (map (\<lambda>(n, c). (split_path n, c)) fl) rel"
proof (induction fl)
  case Nil
  show ?case by simp
next
  case (Cons e fl)
  obtain n c where e: "e = (n, c)" by (cases e)
  have here: "resolve cwd (g n) = base @ split_path n" using Cons.prems[of n c] e by simp
  have ih: "written cwd (map (\<lambda>(n, c). WriteFileSync (g n) c) fl) (base @ rel)
       = last_entry (map (\<lambda>(n, c). (split_path n, c)) fl) rel"
    by (rule Cons.IH) (use Cons.prems in auto)
  show ?case using ih here e by (auto split: option.splits)
qed

lemma written_scaffold:
  assumes "p \<noteq> []"
  shows "written cwd (scaffold_ops cwd p project s) (resolve cwd p @ rel) = last_entry (rel_files project) rel"
proof -
  have "written cwd (map (\<lambda>(n, c). WriteFileSync (path_join p n) c) (files project)) (resolve cwd p @ rel)
      = last_entry (rel_files project) rel"
    unfolding rel_files_def by (rule written_writes) (rule file_target[OF assms])
  then show ?thesis
    by (simp add: scaffold_ops_def written_append written_mkdirs split: option.splits)
qed

lemma scaffold_ops_mem:
  "op \<in> set (scaffold_ops cwd p project s) \<longleftrightarrow>
     (op = MkdirSync p \<and> \<not> existsSync s cwd p)
     \<or> (\<exists>d\<in>set (directories project). op = MkdirSync (path_join p d))
     \<or> (\<exists>(n, c)\<in>set (files project). op = WriteFileSync (path_join p n) c)"
  by (auto simp: scaffold_ops_def)

text \<open>What a completed run leaves at the target.\<close>

lemma completed_file:
  assumes g: "group a = Some project" and m: "main cwd t a s = (s', Completed)"
    and f: "last_entry (rel_files project) rel = Some c"
  shows "lookup s' (resolve cwd (path project) @ rel) = Some (File c t)"
proof -
  from m g have run: "run_ops t cwd (scaffold_ops cwd (path project) project s) s = (s', None)"
    by (simp add: main_run)
  from ops_files[OF run, of "resolve cwd (path project) @ rel" c] f show ?thesis
    by (simp add: written_scaffold[OF group_path[OF g]])
qed

lemma completed_located:
  assumes g: "group a = Some project" and m: "main cwd t a s = (s', Completed)"
    and f: "(n, c) \<in> set (files project)"
  shows "locate s' cwd (path_join (path project) n) = Inr (resolve cwd (path project) @ split_path n)"
proof -
  from m g have run: "run_ops t cwd (scaffold_ops cwd (path project) project s) s = (s', None)"
    by (simp add: main_run)
  have "WriteFileSync (path_join (path project) n) c \<in> set (scaffold_ops cwd (path project) project s)"
    using f by (auto simp: scaffold_ops_mem)
  from ops_located[OF run this] show ?thesis
    by (simp add: file_target[OF group_path[OF g] f])
qed

lemma completed_above:
  assumes g: "group a = Some project" and m: "main cwd t a s = (s', Completed)"
    and f: "(n, c) \<in> set (files project)"
    and x: "strict_prefix x (resolve cwd (path project) @ split_path n)"
  shows "is_dir s' x"
  using locate_dirs[OF completed_located[OF g m f] x] .

lemma completed_base:
  assumes g: "group a = Some project" and m: "main cwd t a s = (s', Completed)"
  shows "is_dir s' (resolve cwd (path project))"
proof -
  have "(''AGENTS.md'', getAgentsTemplate (projectType project)) \<in> set (files project)"
    by (simp add: files_def)
  from completed_above[OF g m this, of "resolve cwd (path project)"] show ?thesis
    by (simp add: split_path_def strict_prefix_def)
qed

lemma completed_dir:
  assumes g: "group a = Some project" and m: "main cwd t a s = (s', Completed)"
    and d: "d \<in> set (directories project)"
  shows "locate s' cwd (path_join (path project) d) = Inr (resolve cwd (path project) @ split_path d)
       \<and> is_dir s' (resolve cwd (path project) @ split_path d)"
proof -
  from m g have run: "run_ops t cwd (scaffold_ops cwd (path project) project s) s = (s', None)"
    by (simp add: main_run)
  have "MkdirSync (path_join (path project) d) \<in> set (scaffold_ops cwd (path project) project s)"
    using d by (auto simp: scaffold_ops_mem)
  from ops_made[OF run this] show ?thesis
    by (simp add: dir_target[OF group_path[OF g] d])
qed
subsection \<open>The shape of a joined path\<close>

lemma normalizeString_append:
  "normalizeString al res (xs @ ys) = normalizeString al (normalizeString al res xs) ys"
  by (induction xs arbitrary: res) auto

lemma normalizeString_names: "normalized ys \<Longrightarrow> normalizeString al res ys = res @ ys"
  by (induction ys arbitrary: res) (auto simp: normalized_def)

lemma normalizeString_plain:
  "''..'' \<notin> set cs \<Longrightarrow>
     normalizeString al res cs = res @ filter (\<lambda>c. c \<noteq> [] \<and> c \<noteq> ''.'') cs"
  by (induction cs arbitrary: res) auto

lemma split_path_append': "split_path (a @ CHR ''/'' # b) = split_path a @ split_path b"
  using split_path_append[of a b] by simp

lemma normalize_ne: "normalize x \<noteq> []"
  by (simp add: normalize_def Let_def)

lemma path_join_ne: "path_join a b \<noteq> []"
  by (simp add: path_join_def normalize_ne)

lemma last_split_sep:
  "xs \<noteq> [] \<Longrightarrow> (last (split_sep acc xs) = []) = (last xs = CHR ''/'')"
proof (induction xs arbitrary: acc)
  case Nil
  then show ?case by simp
next
  case (Cons c cs)
  show ?case
  proof (cases "cs = []")
    case True
    then show ?thesis by simp
  next
    case False
    with Cons.IH[OF False] show ?thesis by (simp add: split_sep_ne)
  qed
qed

lemma names_last: "normalized (split_path d) \<Longrightarrow> d \<noteq> [] \<and> last d \<noteq> CHR ''/''"
proof -
  assume n: "normalized (split_path d)"
  have "split_path d \<noteq> []" by (simp add: split_path_def split_sep_ne)
  then have "last (split_path d) \<in> set (split_path d)" by simp
  with n have l: "last (split_path d) \<noteq> []" by (auto simp: normalized_def list_all_iff)
  then have "d \<noteq> []" by (auto simp: split_path_def)
  with l last_split_sep[of d "[]"] show ?thesis by (simp add: split_path_def)
qed

lemma split_normalize:
  assumes "x \<noteq> []" and "normalizeString (hd x \<noteq> CHR ''/'') [] (split_path x) = ns" and "ns \<noteq> []"
  shows "split_path (normalize x) =
     (if hd x = CHR ''/'' then [[]] else []) @ ns @ (if last x = CHR ''/'' then [[]] else [])"
    and "absolute (normalize x) = (hd x = CHR ''/'')"
proof -
  have nd: "c \<noteq> [] \<and> c \<noteq> ''.''" if "c \<in> set ns" for c
    using normalizeString_nodot[of c "hd x \<noteq> CHR ''/''" "[]" "split_path x"] that assms(2) by simp
  have sf: "CHR ''/'' \<notin> set c" if "c \<in> set ns" for c
    using normalizeString_set[of c "hd x \<noteq> CHR ''/''" "[]" "split_path x"] that
      split_path_slashfree[of c x] assms(2) by auto
  have r0: "unsplit ns \<noteq> []"
    using unsplit_Nil_iff[of ns] nd assms(3) by blast
  define tr where "tr = (if last x = CHR ''/'' then ''/'' else [])"
  have nz: "normalize x = (if hd x = CHR ''/'' then ''/'' else []) @ unsplit ns @ tr"
    using assms r0 by (simp add: normalize_def Let_def tr_def)
  have "split_path (unsplit ns) = ns" by (rule split_unsplit) (use assms(3) sf in auto)
  then have sp: "split_path (unsplit ns @ tr) = ns @ (if last x = CHR ''/'' then [[]] else [])"
    using split_path_snoc_slash[of "unsplit ns"] by (simp add: tr_def)
  show "split_path (normalize x) =
     (if hd x = CHR ''/'' then [[]] else []) @ ns @ (if last x = CHR ''/'' then [[]] else [])"
    using sp by (simp add: nz split_path_slash_cons)
  from assms(3) have "hd ns \<in> set ns" by simp
  from nd[OF this] sf[OF this] have h: "hd ns \<noteq> []" "hd (hd ns) \<noteq> CHR ''/''"
    by (auto simp: neq_Nil_conv)
  have "hd (unsplit ns @ tr) = hd (hd ns)" using hd_unsplit[OF assms(3) h(1)] r0 by simp
  with h(2) show "absolute (normalize x) = (hd x = CHR ''/'')"
    by (simp add: nz absolute_def)
qed

lemma split_path_join:
  assumes p: "p \<noteq> []" and pl: "plain p" and d: "normalized (split_path d)"
  shows "split_path (path_join p d) =
     (if absolute p then [[]] else []) @ filter (\<lambda>c. c \<noteq> [] \<and> c \<noteq> ''.'') (split_path p) @ split_path d"
    and "absolute (path_join p d) = absolute p"
proof -
  let ?x = "p @ ''/'' @ d"
  let ?ns = "filter (\<lambda>c. c \<noteq> [] \<and> c \<noteq> ''.'') (split_path p) @ split_path d"
  from names_last[OF d] have dn: "d \<noteq> []" "last d \<noteq> CHR ''/''" by simp_all
  have pj: "path_join p d = normalize ?x" using p dn by (simp add: path_join_def)
  have hx: "hd ?x = hd p" using p by simp
  have lx: "last ?x = last d" using dn by simp
  have ns: "normalizeString (hd ?x \<noteq> CHR ''/'') [] (split_path ?x) = ?ns"
    using pl d by (simp add: split_path_append' normalizeString_append normalizeString_plain
        normalizeString_names plain_def)
  have xn: "?x \<noteq> []" using p by simp
  have nn: "?ns \<noteq> []" by (simp add: split_path_def split_sep_ne)
  note a = split_normalize(1)[OF xn ns nn] and b = split_normalize(2)[OF xn ns nn]
  show "split_path (path_join p d) = (if absolute p then [[]] else []) @ ?ns"
    using a p dn unfolding pj hx lx by (simp add: absolute_def)
  show "absolute (path_join p d) = absolute p"
    using b p unfolding pj hx by (simp add: absolute_def)
qed

lemma split_sep_chars: "c \<in> set (split_sep acc xs) \<Longrightarrow> set c \<subseteq> set acc \<union> set xs"
proof (induction xs arbitrary: acc)
  case Nil
  then show ?case by simp
next
  case (Cons a xs)
  show ?case
  proof (cases "a = CHR ''/''")
    case True
    with Cons.prems have "c = acc \<or> c \<in> set (split_sep [] xs)" by simp
    then show ?thesis using Cons.IH[of "[]"] by auto
  next
    case False
    with Cons.prems have "c \<in> set (split_sep (acc @ [a]) xs)" by simp
    from Cons.IH[OF this] show ?thesis by auto
  qed
qed

lemma unsplit_chars: "set (unsplit cs) \<subseteq> \<Union> (set ` set cs) \<union> {CHR ''/''}"
  by (induction cs rule: unsplit.induct) auto

lemma path_join_chars:
  assumes "p \<noteq> []" and "plain p" and "normalized (split_path d)"
  shows "set (path_join p d) \<subseteq> set p \<union> set d \<union> {CHR ''/''}"
proof -
  let ?cs = "(if absolute p then [[]] else [])
       @ filter (\<lambda>c. c \<noteq> [] \<and> c \<noteq> ''.'') (split_path p) @ split_path d"
  have "path_join p d = unsplit (split_path (path_join p d))"
  proof -
    have "unsplit (split_sep acc xs) = acc @ xs" for acc xs
    proof (induction xs arbitrary: acc)
      case Nil
      show ?case by simp
    next
      case (Cons a xs)
      show ?case
      proof (cases "a = CHR ''/''")
        case True
        obtain y ys where "split_sep [] xs = y # ys" using split_sep_ne[of "[]" xs] by (cases "split_sep [] xs") auto
        with Cons.IH[of "[]"] True show ?thesis by simp
      next
        case False
        with Cons.IH[of "acc @ [a]"] show ?thesis by simp
      qed
    qed
    from this[of "[]"] show ?thesis by (simp add: split_path_def)
  qed
  also have "\<dots> = unsplit ?cs" using split_path_join(1)[OF assms] by simp
  finally have "set (path_join p d) \<subseteq> \<Union> (set ` set ?cs) \<union> {CHR ''/''}"
    using unsplit_chars[of ?cs] by simp
  moreover have "set c \<subseteq> set p" if "c \<in> set (split_path p)" for c
    using split_sep_chars[of c "[]" p] that by (simp add: split_path_def)
  moreover have "set c \<subseteq> set d" if "c \<in> set (split_path d)" for c
    using split_sep_chars[of c "[]" d] that by (simp add: split_path_def)
  ultimately show ?thesis by (auto split: if_splits)
qed

subsection \<open>Resolving a joined path\<close>

lemma walk_filter:
  "''..'' \<notin> set cs \<Longrightarrow> walk s d cs = Inr q \<Longrightarrow>
     walk s d (filter (\<lambda>c. c \<noteq> [] \<and> c \<noteq> ''.'') cs) = Inr q"
proof (induction cs arbitrary: d)
  case Nil
  then show ?case by simp
next
  case (Cons c cs)
  from Cons.prems(2) obtain m where m: "lookup s d = Some (Dir m)"
    by (auto split: option.splits node.splits)
  show ?case
  proof (cases "c = [] \<or> c = ''.''")
    case True
    with Cons.prems m have "walk s d cs = Inr q" by auto
    from Cons.IH[OF _ this] Cons.prems(1) True show ?thesis by auto
  next
    case False
    with Cons.prems m have "walk s (d @ [c]) cs = Inr q" by auto
    from Cons.IH[OF _ this] Cons.prems(1) False m show ?thesis by auto
  qed
qed

lemma mkdirp_append:
  "mkdirp t d xs s = (s1, None) \<Longrightarrow> mkdirp t d (xs @ ys) s = mkdirp t (norm_acc d xs) ys s1"
  by (induction xs arbitrary: d s) (auto split: option.splits node.splits if_splits)

lemma mkdirp_existing:
  "normalized xs \<Longrightarrow> walk s d xs = Inr q \<Longrightarrow> is_dir s q \<Longrightarrow> mkdirp t d xs s = (s, None)"
proof (induction xs arbitrary: d)
  case Nil
  then show ?case by simp
next
  case (Cons c cs)
  from Cons.prems(1) have c: "c \<noteq> [] \<and> c \<noteq> ''.'' \<and> c \<noteq> ''..''" and n: "normalized cs"
    by (auto simp: normalized_def)
  from Cons.prems(2) c have w: "walk s (d @ [c]) cs = Inr q"
    by (auto split: option.splits node.splits)
  have "is_dir s (d @ [c])"
  proof (cases cs)
    case Nil
    with w Cons.prems(3) show ?thesis by simp
  next
    case (Cons a as)
    with w show ?thesis by (auto simp: is_dir_def split: option.splits node.splits)
  qed
  then obtain m where "lookup s (d @ [c]) = Some (Dir m)" by (auto simp: is_dir_iff)
  with c Cons.IH[OF n w Cons.prems(3)] show ?case by simp
qed

lemma filter_names_normalized:
  "''..'' \<notin> set cs \<Longrightarrow> normalized (filter (\<lambda>c. c \<noteq> [] \<and> c \<noteq> ''.'') cs)"
  by (induction cs) (auto simp: normalized_def)

lemma locate_start:
  assumes "locate s cwd p = Inr q" and "\<not> absolute p"
  shows "walk s [] (split_path cwd) = Inr (norm_acc [] (split_path cwd))
       \<and> is_dir s (norm_acc [] (split_path cwd))
       \<and> walk s (norm_acc [] (split_path cwd)) (split_path p) = Inr q"
proof -
  from assms have w: "walk s [] (split_path cwd @ split_path p) = Inr q"
    by (auto simp: locate_def split: if_splits)
  then obtain d where d: "walk s [] (split_path cwd) = Inr d" "walk s d (split_path p) = Inr q"
    by (auto simp: walk_append split: sum.splits)
  obtain c cs where "split_path p = c # cs"
    using split_sep_ne[of "[]" p] by (cases "split_path p") (auto simp: split_path_def)
  with d(2) have "is_dir s d" by (auto simp: is_dir_def split: option.splits node.splits)
  with d walk_resolve[OF d(1)] show ?thesis by simp
qed

text \<open>Where the target is a directory, a path joined to the typed path is resolved from the
  target on.\<close>

lemma locate_path_join:
  assumes p: "plain p" "CHR 0x00 \<notin> set p" and d: "normalized (split_path d)" "CHR 0x00 \<notin> set d"
    and l: "locate s cwd p = Inr base" and b: "is_dir s base"
  shows "locate s cwd (path_join p d) = walk s base (split_path d)"
proof -
  from l have pn: "p \<noteq> []" by (auto simp: locate_def split: if_splits)
  let ?f = "filter (\<lambda>c. c \<noteq> [] \<and> c \<noteq> ''.'') (split_path p)"
  note sh = split_path_join[OF pn p(1) d(1)]
  have nul: "CHR 0x00 \<notin> set (path_join p d)"
    using path_join_chars[OF pn p(1) d(1)] p(2) d(2) by auto
  have ne: "path_join p d \<noteq> []" by (rule path_join_ne)
  have pl: "''..'' \<notin> set (split_path p)" using p(1) by (simp add: plain_def)
  show ?thesis
  proof (cases "absolute p")
    case True
    with l pn p(2) have "walk s [] (split_path p) = Inr base" by (simp add: locate_def)
    from walk_filter[OF pl this] have "walk s [] ([] # ?f) = Inr base" by simp
    then have "walk s [] (([] # ?f) @ split_path d) = walk s base (split_path d)"
      using walk_append[of s "[]" "[] # ?f" "split_path d"] by simp
    then show ?thesis using sh True nul ne by (simp add: locate_def)
  next
    case False
    from locate_start[OF l False] have st: "walk s [] (split_path cwd) = Inr (norm_acc [] (split_path cwd))"
      and w: "walk s (norm_acc [] (split_path cwd)) (split_path p) = Inr base" by simp_all
    from walk_filter[OF pl w] st have "walk s [] (split_path cwd @ ?f) = Inr base"
      by (simp add: walk_append)
    then have "walk s [] (split_path cwd @ ?f @ split_path d) = walk s base (split_path d)"
      using walk_append[of s "[]" "split_path cwd @ ?f" "split_path d"] by simp
    then show ?thesis using sh False nul ne by (simp add: locate_def)
  qed
qed

lemma mkdirSync_path_join:
  assumes p: "plain p" "CHR 0x00 \<notin> set p" and d: "normalized (split_path d)" "CHR 0x00 \<notin> set d"
    and l: "locate s cwd p = Inr base" and b: "is_dir s base"
  shows "mkdirSync t cwd (path_join p d) s = mkdirp t base (split_path d) s"
proof -
  from l have pn: "p \<noteq> []" by (auto simp: locate_def split: if_splits)
  let ?f = "filter (\<lambda>c. c \<noteq> [] \<and> c \<noteq> ''.'') (split_path p)"
  note sh = split_path_join[OF pn p(1) d(1)]
  have nul: "CHR 0x00 \<notin> set (path_join p d)"
    using path_join_chars[OF pn p(1) d(1)] p(2) d(2) by auto
  have ne: "path_join p d \<noteq> []" by (rule path_join_ne)
  have pl: "''..'' \<notin> set (split_path p)" using p(1) by (simp add: plain_def)
  note fn = filter_names_normalized[OF pl]
  show ?thesis
  proof (cases "absolute p")
    case True
    with l pn p(2) have "walk s [] (split_path p) = Inr base" by (simp add: locate_def)
    from walk_filter[OF pl this] have w: "walk s [] ?f = Inr base" .
    from mkdirp_existing[OF fn w b] have "mkdirp t [] ?f s = (s, None)" .
    from mkdirp_append[OF this, of "split_path d"] walk_resolve[OF w]
    have "mkdirp t [] ([] # ?f @ split_path d) s = mkdirp t base (split_path d) s"
      by simp
    then show ?thesis using sh True nul ne by (simp add: mkdirSync_def)
  next
    case False
    let ?d0 = "norm_acc [] (split_path cwd)"
    from locate_start[OF l False] have st: "walk s [] (split_path cwd) = Inr ?d0"
      and d0: "is_dir s ?d0" and w: "walk s ?d0 (split_path p) = Inr base" by simp_all
    from walk_filter[OF pl w] have w': "walk s ?d0 ?f = Inr base" .
    from mkdirp_existing[OF fn w' b] have "mkdirp t ?d0 ?f s = (s, None)" .
    from mkdirp_append[OF this, of "split_path d"] walk_resolve[OF w']
    have "mkdirp t ?d0 (?f @ split_path d) s = mkdirp t base (split_path d) s"
      by simp
    moreover from d0 obtain m where "lookup s ?d0 = Some (Dir m)" by (auto simp: is_dir_iff)
    ultimately show ?thesis using sh False nul ne st by (simp add: mkdirSync_def)
  qed
qed
section \<open>Runs that complete\<close>

lemma mkdirp_succeeds:
  "''..'' \<notin> set cs \<Longrightarrow> (\<And>q. strict_prefix d q \<Longrightarrow> prefix q (norm_acc d cs) \<Longrightarrow> \<not> is_file s q)
     \<Longrightarrow> \<exists>s'. mkdirp t d cs s = (s', None)"
proof (induction cs arbitrary: d s)
  case Nil
  show ?case by simp
next
  case (Cons c cs)
  from Cons.prems(1) have nd: "''..'' \<notin> set cs" "c \<noteq> ''..''" by auto
  show ?case
  proof (cases "c = [] \<or> c = ''.''")
    case True
    have "\<exists>s'. mkdirp t d cs s = (s', None)"
      by (rule Cons.IH[OF nd(1)]) (use Cons.prems(2) True in auto)
    with True show ?thesis by auto
  next
    case False
    have step: "norm_acc d (c # cs) = norm_acc (d @ [c]) cs" using False nd by simp
    have pre: "prefix (d @ [c]) (norm_acc (d @ [c]) cs)" by (rule norm_acc_prefix[OF nd(1)])
    have nf: "\<not> is_file s (d @ [c])"
      by (rule Cons.prems(2)) (use pre step in \<open>auto simp: strict_prefix_def\<close>)
    have below: "\<not> is_file s q" if "strict_prefix (d @ [c]) q" "prefix q (norm_acc (d @ [c]) cs)" for q
      by (rule Cons.prems(2)) (use that step in \<open>auto simp: strict_prefix_def prefix_def\<close>)
    show ?thesis
    proof (cases "lookup s (d @ [c])")
      case None
      let ?s1 = "AList.update (d @ [c]) (Dir t) s"
      have "\<exists>s'. mkdirp t (d @ [c]) cs ?s1 = (s', None)"
      proof (rule Cons.IH[OF nd(1)])
        fix q assume q: "strict_prefix (d @ [c]) q" "prefix q (norm_acc (d @ [c]) cs)"
        then have "lookup ?s1 q = lookup s q" by (auto simp: lookup_update strict_prefix_def)
        with below[OF q] show "\<not> is_file ?s1 q" by (simp add: is_file_def)
      qed
      with None False nd show ?thesis by simp
    next
      case (Some n)
      show ?thesis
      proof (cases n)
        case (Dir m)
        have "\<exists>s'. mkdirp t (d @ [c]) cs s = (s', None)"
          by (rule Cons.IH[OF nd(1)]) (rule below)
        with Some Dir False nd show ?thesis by simp
      next
        case (File x m)
        with Some nf show ?thesis by (simp add: is_file_def)
      qed
    qed
  qed
qed

lemma exists_cwd:
  "existsSync s cwd ''.'' \<Longrightarrow>
     walk s [] (split_path cwd) = Inr (norm_acc [] (split_path cwd)) \<and> is_dir s (norm_acc [] (split_path cwd))"
proof -
  assume "existsSync s cwd ''.''"
  then obtain q where "locate s cwd ''.'' = Inr q"
    by (auto simp: existsSync_def split: sum.splits)
  from locate_start[OF this] show ?thesis by (simp add: absolute_def)
qed

lemma mkdirSync_succeeds:
  assumes "p \<noteq> []" and "CHR 0x00 \<notin> set p" and "plain p" and "existsSync s cwd ''.''"
    and "\<And>q. prefix q (resolve cwd p) \<Longrightarrow> \<not> is_file s q"
  shows "\<exists>s'. mkdirSync t cwd p s = (s', None)"
proof (cases "absolute p")
  case True
  have "\<exists>s'. mkdirp t [] (split_path p) s = (s', None)"
    by (rule mkdirp_succeeds)
       (use assms(3,5) True in \<open>auto simp: plain_def resolve_def components_def\<close>)
  with assms True show ?thesis by (simp add: mkdirSync_def)
next
  case False
  let ?d0 = "norm_acc [] (split_path cwd)"
  from exists_cwd[OF assms(4)] obtain m where w: "walk s [] (split_path cwd) = Inr ?d0"
    and m: "lookup s ?d0 = Some (Dir m)" by (auto simp: is_dir_iff)
  have "\<exists>s'. mkdirp t ?d0 (split_path p) s = (s', None)"
    by (rule mkdirp_succeeds)
       (use assms(3,5) False in \<open>auto simp: plain_def resolve_def components_def norm_acc_append\<close>)
  with assms False w m show ?thesis by (simp add: mkdirSync_def)
qed

lemma walk_prefix:
  "normalized (xs @ ys) \<Longrightarrow> walk s d (xs @ ys) = Inr q \<Longrightarrow> is_dir s q \<Longrightarrow>
     walk s d xs = Inr (d @ xs) \<and> is_dir s (d @ xs)"
proof (induction xs arbitrary: d)
  case Nil
  show ?case
  proof (cases ys)
    case Nil
    with Cons Nil.prems show ?thesis by simp
  next
    case (Cons a as)
    with Nil.prems show ?thesis by (auto simp: is_dir_def split: option.splits node.splits)
  qed
next
  case (Cons c cs)
  from Cons.prems(1) have c: "c \<noteq> [] \<and> c \<noteq> ''.'' \<and> c \<noteq> ''..''" and n: "normalized (cs @ ys)"
    by (auto simp: normalized_def)
  from Cons.prems(2) c obtain m where m: "lookup s d = Some (Dir m)"
    and w: "walk s (d @ [c]) (cs @ ys) = Inr q"
    by (auto split: option.splits node.splits)
  from Cons.IH[OF n w Cons.prems(3)] c m show ?case by simp
qed

text \<open>The directories of a plan, made below a target that is a directory with no file
  below it.\<close>

lemma mkdirs_complete:
  assumes p: "plain p" "CHR 0x00 \<notin> set p"
    and ds: "\<And>d. d \<in> set ds \<Longrightarrow> normalized (split_path d) \<and> CHR 0x00 \<notin> set d"
    and l: "locate s cwd p = Inr base" and b: "is_dir s base"
    and nf: "\<And>rel. \<not> is_file s (base @ rel)"
  shows "\<exists>s'. run_ops t cwd (map (\<lambda>d. MkdirSync (path_join p d)) ds) s = (s', None)
       \<and> locate s' cwd p = Inr base \<and> is_dir s' base
       \<and> (\<forall>d\<in>set ds. walk s' base (split_path d) = Inr (base @ split_path d)
             \<and> is_dir s' (base @ split_path d))
       \<and> (\<forall>q. lookup s' q \<noteq> lookup s q \<longrightarrow>
             (\<exists>d\<in>set ds. strict_prefix base q \<and> prefix q (base @ split_path d)))"
  using ds l b nf
proof (induction ds arbitrary: s)
  case Nil
  then show ?case by simp
next
  case (Cons d ds)
  from Cons.prems(1)[of d] have d: "normalized (split_path d)" "CHR 0x00 \<notin> set d" by simp_all
  then have dd: "''..'' \<notin> set (split_path d)" by (auto simp: normalized_def list_all_iff)
  have tgt: "norm_acc base (split_path d) = base @ split_path d"
    by (rule norm_acc_normalized[OF d(1)])
  have eq: "mkdirSync t cwd (path_join p d) s = mkdirp t base (split_path d) s"
    by (rule mkdirSync_path_join[OF p d Cons.prems(2,3)])
  have "\<exists>s1. mkdirp t base (split_path d) s = (s1, None)"
  proof (rule mkdirp_succeeds[OF dd])
    fix q assume "strict_prefix base q"
    then obtain rel where "q = base @ rel" by (auto simp: strict_prefix_def prefix_def)
    with Cons.prems(4) show "\<not> is_file s q" by simp
  qed
  then obtain s1 where s1: "mkdirp t base (split_path d) s = (s1, None)" by blast
  have keep: "is_dir s1 x" if "is_dir s x" for x using mkdirp_keeps_dir[OF s1 that] .
  have l1: "locate s1 cwd p = Inr base" by (rule locate_mono[OF Cons.prems(2)]) (rule keep)
  have b1: "is_dir s1 base" by (rule keep[OF Cons.prems(3)])
  have nf1: "\<not> is_file s1 (base @ rel)" for rel
    using mkdirp_frame[OF s1, of "base @ rel"] Cons.prems(4)[of rel] by (auto simp: is_file_iff)
  from mkdirp_walk[OF s1 Cons.prems(3)] tgt
  have w1: "walk s1 base (split_path d) = Inr (base @ split_path d)" "is_dir s1 (base @ split_path d)"
    by simp_all
  have ch1: "strict_prefix base q \<and> prefix q (base @ split_path d)" if "lookup s1 q \<noteq> lookup s q" for q
    using mkdirp_plain[OF dd s1 that] tgt by simp
  have "\<exists>s'. run_ops t cwd (map (\<lambda>d. MkdirSync (path_join p d)) ds) s1 = (s', None)
       \<and> locate s' cwd p = Inr base \<and> is_dir s' base
       \<and> (\<forall>d\<in>set ds. walk s' base (split_path d) = Inr (base @ split_path d)
             \<and> is_dir s' (base @ split_path d))
       \<and> (\<forall>q. lookup s' q \<noteq> lookup s1 q \<longrightarrow>
             (\<exists>d\<in>set ds. strict_prefix base q \<and> prefix q (base @ split_path d)))"
    by (rule Cons.IH) (use Cons.prems(1) l1 b1 nf1 in auto)
  then obtain s' where run: "run_ops t cwd (map (\<lambda>d. MkdirSync (path_join p d)) ds) s1 = (s', None)"
    and l': "locate s' cwd p = Inr base" and b': "is_dir s' base"
    and w': "\<forall>d\<in>set ds. walk s' base (split_path d) = Inr (base @ split_path d)
             \<and> is_dir s' (base @ split_path d)"
    and ch': "\<forall>q. lookup s' q \<noteq> lookup s1 q \<longrightarrow>
             (\<exists>d\<in>set ds. strict_prefix base q \<and> prefix q (base @ split_path d))"
    by blast
  have keep': "is_dir s' x" if "is_dir s1 x" for x using ops_keeps_is_dir[OF run that] .
  have wd: "walk s' base (split_path d) = Inr (base @ split_path d)"
    by (rule walk_mono[OF w1(1)]) (rule keep')
  have "run_ops t cwd (map (\<lambda>d. MkdirSync (path_join p d)) (d # ds)) s = (s', None)"
    using eq s1 run by simp
  moreover have "\<forall>q. lookup s' q \<noteq> lookup s q \<longrightarrow>
             (\<exists>d\<in>set (d # ds). strict_prefix base q \<and> prefix q (base @ split_path d))"
    using ch1 ch' by (metis list.set_intros(1,2))
  ultimately show ?case using l' b' w' wd keep'[OF w1(2)] by auto
qed

text \<open>The files of a plan, written where the parent of each is a directory and none is one
  itself.\<close>

lemma writes_complete:
  assumes p: "plain p" "CHR 0x00 \<notin> set p"
    and fl: "\<And>n c. (n, c) \<in> set fl \<Longrightarrow> normalized (split_path n) \<and> CHR 0x00 \<notin> set n"
    and l: "locate s cwd p = Inr base" and b: "is_dir s base"
    and par: "\<And>n c. (n, c) \<in> set fl \<Longrightarrow>
        walk s base (butlast (split_path n)) = Inr (base @ butlast (split_path n))
        \<and> is_dir s (base @ butlast (split_path n)) \<and> \<not> is_dir s (base @ split_path n)"
  shows "\<exists>s'. run_ops t cwd (map (\<lambda>(n, c). WriteFileSync (path_join p n) c) fl) s = (s', None)"
  using fl l b par
proof (induction fl arbitrary: s)
  case Nil
  show ?case by simp
next
  case (Cons e fl)
  obtain n c where e: "e = (n, c)" by (cases e)
  let ?r = "split_path n"
  from Cons.prems(1)[of n c] e have n: "normalized ?r" "CHR 0x00 \<notin> set n" by simp_all
  have rne: "?r \<noteq> []" by (simp add: split_path_def split_sep_ne)
  then have r: "?r = butlast ?r @ [last ?r]" by simp
  from n(1) rne have ln: "last ?r \<noteq> [] \<and> last ?r \<noteq> ''.'' \<and> last ?r \<noteq> ''..''"
    by (auto simp: normalized_def list_all_iff)
  from Cons.prems(4)[of n c] e have par: "walk s base (butlast ?r) = Inr (base @ butlast ?r)"
    "is_dir s (base @ butlast ?r)" "\<not> is_dir s (base @ ?r)" by simp_all
  from par(2) obtain m where m: "lookup s (base @ butlast ?r) = Some (Dir m)" by (auto simp: is_dir_iff)
  have "walk s base (butlast ?r @ [last ?r]) = Inr ((base @ butlast ?r) @ [last ?r])"
    using par(1) m ln by (simp add: walk_append)
  then have w: "walk s base ?r = Inr (base @ ?r)" using r by (metis append.assoc)
  have loc: "locate s cwd (path_join p n) = Inr (base @ ?r)"
    using locate_path_join[OF p n Cons.prems(2,3)] w by simp
  have bl: "butlast (base @ ?r) = base @ butlast ?r" using rne by (simp add: butlast_append)
  have m': "lookup s (butlast (base @ ?r)) = Some (Dir m)" using m bl by simp
  define s1 where "s1 = AList.update (base @ ?r) (File c t) s"
  have s1: "writeFileSync t cwd (path_join p n) c s = (s1, None)"
    unfolding s1_def using loc par(3) m'
    by (auto simp: writeFileSync_def is_dir_iff split: option.splits node.splits)
  have op1: "run_op t cwd (WriteFileSync (path_join p n) c) s = (s1, None)" using s1 by simp
  have keep: "is_dir s1 x" if "is_dir s x" for x
    using op_keeps_dir[OF op1] that by (auto simp: is_dir_iff)
  have nodir: "\<not> is_dir s1 x" if "\<not> is_dir s x" for x
    using op_change[OF op1, of x] that by (auto simp: is_dir_iff)
  have "\<exists>s'. run_ops t cwd (map (\<lambda>(n, c). WriteFileSync (path_join p n) c) fl) s1 = (s', None)"
  proof (rule Cons.IH)
    show "locate s1 cwd p = Inr base" by (rule locate_mono[OF Cons.prems(2)]) (rule keep)
    show "is_dir s1 base" by (rule keep[OF Cons.prems(3)])
  next
    fix n' c' assume "(n', c') \<in> set fl"
    then show "normalized (split_path n') \<and> CHR 0x00 \<notin> set n'" using Cons.prems(1)[of n' c'] by simp
  next
    fix n' c' assume "(n', c') \<in> set fl"
    with Cons.prems(4)[of n' c']
    have a: "walk s base (butlast (split_path n')) = Inr (base @ butlast (split_path n'))"
      "is_dir s (base @ butlast (split_path n'))" "\<not> is_dir s (base @ split_path n')" by simp_all
    have "walk s1 base (butlast (split_path n')) = Inr (base @ butlast (split_path n'))"
      by (rule walk_mono[OF a(1)]) (rule keep)
    with keep[OF a(2)] nodir[OF a(3)]
    show "walk s1 base (butlast (split_path n')) = Inr (base @ butlast (split_path n'))
        \<and> is_dir s1 (base @ butlast (split_path n')) \<and> \<not> is_dir s1 (base @ split_path n')"
      by simp
  qed
  with s1 e show ?case by auto
qed

lemma fresh_lookup: "fresh s base \<Longrightarrow> rel \<noteq> [] \<Longrightarrow> lookup s (base @ rel) = None"
proof -
  assume f: "fresh s base" and r: "rel \<noteq> []"
  have "base @ rel \<notin> fst ` set s"
  proof
    assume "base @ rel \<in> fst ` set s"
    then obtain e where "e \<in> set s" "fst e = base @ rel" by auto
    with f have "\<not> strict_prefix base (base @ rel)" by (auto simp: fresh_def list_all_iff)
    with r show False by (simp add: strict_prefix_def)
  qed
  then have "map_of s (base @ rel) = None" by (simp add: map_of_eq_None_iff)
  with r show ?thesis by (simp add: lookup_def)
qed

lemma dirs_nul: "d \<in> set (directories project) \<Longrightarrow> CHR 0x00 \<notin> set d"
  by (auto simp: directories_def split: if_splits)

lemma files_nul: "(n, c) \<in> set (files project) \<Longrightarrow> CHR 0x00 \<notin> set n"
  by (auto simp: files_def scriptExt_def split: if_splits)

lemma scaffold_plan_ok: "plan_ok (rel_dirs project) (rel_files project)"
  unfolding rel_dirs_eval rel_files_eval
  by (simp add: plan_ok_def scriptExt_def)
text \<open>
  A run completes where the working directory exists, the typed path has no \<^verbatim>\<open>..\<close> and no
  null byte, no file is on the way to the target and nothing exists below the target.
\<close>

lemma scaffold_completes:
  assumes pn: "p \<noteq> []" and pl: "plain p" and nul: "CHR 0x00 \<notin> set p"
    and cw: "existsSync s cwd ''.''"
    and clear: "\<And>q. prefix q (resolve cwd p) \<Longrightarrow> \<not> is_file s q"
    and fr: "fresh s (resolve cwd p)"
  shows "\<exists>s'. run_ops t cwd (scaffold_ops cwd p project s) s = (s', None)"
proof -
  let ?base = "resolve cwd p"
  let ?A = "if \<not> existsSync s cwd p then [MkdirSync p] else []"
  let ?B = "map (\<lambda>dir. MkdirSync (path_join p dir)) (directories project)"
  let ?C = "map (\<lambda>(name, contents). WriteFileSync (path_join p name) contents) (files project)"
  have "\<exists>s1. run_ops t cwd ?A s = (s1, None) \<and> locate s1 cwd p = Inr ?base \<and> is_dir s1 ?base
           \<and> (\<forall>rel. rel \<noteq> [] \<longrightarrow> lookup s1 (?base @ rel) = None)"
  proof (cases "existsSync s cwd p")
    case True
    then obtain q where q: "locate s cwd p = Inr q" "lookup s q \<noteq> None"
      by (auto simp: existsSync_def split: sum.splits)
    from locate_resolve[OF q(1)] have qb: "q = ?base" .
    from clear[of ?base] have "\<not> is_file s ?base" by simp
    with q(2) qb have "is_dir s ?base"
      by (auto simp: is_dir_def is_file_def split: option.splits node.splits)
    with q(1) qb True fresh_lookup[OF fr] show ?thesis by simp
  next
    case False
    from mkdirSync_succeeds[OF pn nul pl cw clear] obtain s1 where s1: "mkdirSync t cwd p s = (s1, None)"
      by blast
    have "lookup s1 (?base @ rel) = None" if "rel \<noteq> []" for rel
    proof (rule ccontr)
      assume "lookup s1 (?base @ rel) \<noteq> None"
      with fresh_lookup[OF fr that] have "lookup s1 (?base @ rel) \<noteq> lookup s (?base @ rel)" by simp
      from mkdirSync_plain[OF pl s1 this] that show False by simp
    qed
    with mkdirSync_exists[OF s1] s1 False show ?thesis by simp
  qed
  then obtain s1 where a: "run_ops t cwd ?A s = (s1, None)" and l1: "locate s1 cwd p = Inr ?base"
    and b1: "is_dir s1 ?base" and f1: "\<And>rel. rel \<noteq> [] \<Longrightarrow> lookup s1 (?base @ rel) = None"
    by blast
  have nf1: "\<not> is_file s1 (?base @ rel)" for rel
    using b1 f1[of rel] by (cases "rel = []") (auto simp: is_file_def is_dir_iff)
  from mkdirs_complete[OF pl nul _ l1 b1 nf1, of "directories project" t]
  obtain s2 where b: "run_ops t cwd ?B s1 = (s2, None)" and l2: "locate s2 cwd p = Inr ?base"
    and b2: "is_dir s2 ?base"
    and w2: "\<And>d. d \<in> set (directories project) \<Longrightarrow>
          walk s2 ?base (split_path d) = Inr (?base @ split_path d) \<and> is_dir s2 (?base @ split_path d)"
    and ch2: "\<And>q. lookup s2 q \<noteq> lookup s1 q \<Longrightarrow>
          \<exists>d\<in>set (directories project). strict_prefix ?base q \<and> prefix q (?base @ split_path d)"
    using dirs_names dirs_nul by (metis (no_types, lifting))
  have "\<exists>s'. run_ops t cwd ?C s2 = (s', None)"
  proof (rule writes_complete[OF pl nul _ l2 b2])
    fix n c assume "(n, c) \<in> set (files project)"
    then show "normalized (split_path n) \<and> CHR 0x00 \<notin> set n"
      using files_names files_nul by blast
  next
    fix n c assume f: "(n, c) \<in> set (files project)"
    let ?r = "split_path n"
    from f have "(?r, c) \<in> set (rel_files project)" by (force simp: rel_files_def)
    with scaffold_plan_ok[of project] have ok: "?r \<noteq> []"
      "\<not> list_ex (prefix ?r) (rel_dirs project)"
      "butlast ?r = [] \<or> list_ex (prefix (butlast ?r)) (rel_dirs project)"
      by (auto simp: plan_ok_def list_all_iff)
    have par: "walk s2 ?base (butlast ?r) = Inr (?base @ butlast ?r) \<and> is_dir s2 (?base @ butlast ?r)"
    proof (cases "butlast ?r = []")
      case True
      with b2 show ?thesis by simp
    next
      case False
      with ok(3) obtain d where d: "d \<in> set (directories project)" "prefix (butlast ?r) (split_path d)"
        by (auto simp: list_ex_iff rel_dirs_def)
      then obtain ys where ys: "split_path d = butlast ?r @ ys" by (auto simp: prefix_def)
      from dirs_names[OF d(1)] have "normalized (butlast ?r @ ys)" by (simp add: ys)
      from walk_prefix[OF this, of s2 ?base] w2[OF d(1)] ys show ?thesis by simp
    qed
    have "lookup s2 (?base @ ?r) = None"
    proof (rule ccontr)
      assume "lookup s2 (?base @ ?r) \<noteq> None"
      with f1[OF ok(1)] have "lookup s2 (?base @ ?r) \<noteq> lookup s1 (?base @ ?r)" by simp
      from ch2[OF this] obtain d where "d \<in> set (directories project)" "prefix ?r (split_path d)"
        by auto
      with ok(2) show False by (auto simp: list_ex_iff rel_dirs_def)
    qed
    then have "\<not> is_dir s2 (?base @ ?r)" by (simp add: is_dir_def)
    with par show "walk s2 ?base (butlast ?r) = Inr (?base @ butlast ?r)
        \<and> is_dir s2 (?base @ butlast ?r) \<and> \<not> is_dir s2 (?base @ ?r)" by simp
  qed
  then obtain s' where c: "run_ops t cwd ?C s2 = (s', None)" by blast
  have "run_ops t cwd (?A @ ?B @ ?C) s = (s', None)"
    using a b c by (simp only: run_ops_append prod.case option.case)
  then show ?thesis unfolding scaffold_ops_def by blast
qed

lemma main_completes:
  assumes "group a = Some project" and "plain (path project)" and "CHR 0x00 \<notin> set (path project)"
    and "existsSync s cwd ''.''"
    and "\<And>q. prefix q (resolve cwd (path project)) \<Longrightarrow> \<not> is_file s q"
    and "fresh s (resolve cwd (path project))"
  shows "\<exists>s'. main cwd t a s = (s', Completed)"
  using scaffold_completes[OF group_path[OF assms(1)] assms(2-6), of t project] assms(1)
  by (auto simp: main_run)

lemma demo_group: "group demo_session = Some demo_project"
  by (simp add: group_def demo_session_def demo_project_def text_prompt_def)

lemma demo_base: "resolve ''/home'' (path demo_project) = [''home'', ''my-agent-project'']"
  by (simp add: resolve_def components_def absolute_def split_path_def demo_project_def)

lemma home_cwd: "existsSync home ''/home'' ''.''"
  by (simp add: existsSync_def locate_def absolute_def split_path_def home_def lookup_def)

lemma demo_completes: "\<exists>s'. main ''/home'' t demo_session home = (s', Completed)"
proof (rule main_completes[OF demo_group])
  show "plain (path demo_project)" by (simp add: plain_def demo_project_def split_path_def)
  show "CHR 0x00 \<notin> set (path demo_project)" by (simp add: demo_project_def)
  show "existsSync home ''/home'' ''.''" by (rule home_cwd)
  show "fresh home (resolve ''/home'' (path demo_project))"
    by (simp add: demo_base fresh_def home_def)
  fix q assume "prefix q (resolve ''/home'' (path demo_project))"
  then show "\<not> is_file home q"
    by (auto simp: is_file_def lookup_def home_def split: option.splits node.splits if_splits)
qed

lemma demo_group_ci: "group demo_session_ci = Some demo_project_ci"
  by (simp add: group_def demo_session_ci_def demo_project_ci_def text_prompt_def)

lemma demo_base_ci: "resolve ''/home'' (path demo_project_ci) = [''srv'', ''app'']"
  by (simp add: resolve_def components_def absolute_def split_path_def demo_project_ci_def)

lemma demo_completes_ci: "\<exists>s'. main ''/home'' t demo_session_ci home = (s', Completed)"
proof (rule main_completes[OF demo_group_ci])
  show "plain (path demo_project_ci)" by (simp add: plain_def demo_project_ci_def split_path_def)
  show "CHR 0x00 \<notin> set (path demo_project_ci)" by (simp add: demo_project_ci_def)
  show "existsSync home ''/home'' ''.''" by (rule home_cwd)
  show "fresh home (resolve ''/home'' (path demo_project_ci))"
    by (simp add: demo_base_ci fresh_def home_def)
  fix q assume "prefix q (resolve ''/home'' (path demo_project_ci))"
  then show "\<not> is_file home q"
    by (auto simp: is_file_def lookup_def home_def split: option.splits node.splits if_splits)
qed

section \<open>The validator on two small directories\<close>

lemmas validator_simps = collect_def validateRootDocs_def validateDocsStructure_def
  validateCrossLinks_def validateDocFreshness_def requiredDocs_def requiredDirs_def
  requiredIndexes_def existsSync_def readFileSync_def readdirSync_def statSync_def entries_def
  locate_def absolute_def split_path_def path_join_def normalize_def Let_def lookup_def
  push_error_def push_warning_def lineCount_def match_link_def

lemma blocked_collect: "collect blocked ''/p'' ''/p'' now = (\<lparr>errors = [], warnings = []\<rparr>, Some EISDIR)"
  by (simp add: blocked_def validator_simps)

lemma bare_collect:
  "collect bare ''/q'' ''/q'' now =
     (\<lparr>errors = [],
       warnings = [''Missing index file: docs/design-docs/index.md'',
                   ''Missing index file: docs/product-specs/index.md'',
                   ''No design documents found in docs/design-docs/'']\<rparr>, None)"
  by (simp add: bare_def validator_simps)

section \<open>Claims\<close>

subsection \<open>Cancellation\<close>

text \<open>
  C2. If the user cancels the interactive session, the process shows the message
  \<^verbatim>\<open>Operation cancelled.\<close> and ends with exit status 0, the status with which a completed
  run ends as well; the status of a cancelled run is not different from zero.
\<close>

theorem cancel_exits_zero:
  assumes "cancelled a"
  shows "snd (main cwd t a s) = ProcessExit 0 ''Operation cancelled.''
       \<and> exit_status (snd (main cwd t a s)) = Some 0"
  by (simp add: main_cancelled[OF assms])

theorem cancel_exits_zero_witness:
  "cancelled \<lparr>ask_path = Submit ''demo'', ask_projectType = Cancel, ask_validationLanguage = Cancel,
      ask_includeObservability = Cancel, ask_includeCI = Cancel\<rparr>
   \<and> snd (main ''/home'' 0 \<lparr>ask_path = Submit ''demo'', ask_projectType = Cancel,
      ask_validationLanguage = Cancel, ask_includeObservability = Cancel, ask_includeCI = Cancel\<rparr> home)
     = ProcessExit 0 ''Operation cancelled.''"
  using cancel_exits_zero[of "\<lparr>ask_path = Submit ''demo'', ask_projectType = Cancel,
      ask_validationLanguage = Cancel, ask_includeObservability = Cancel, ask_includeCI = Cancel\<rparr>"
      "''/home''" 0 home]
  by (simp add: cancelled_def)

text \<open>A session cancelled at its first prompt ends with status 0.\<close>

theorem cancel_nonzero_counterexample:
  "cancelled \<lparr>ask_path = Cancel, ask_projectType = Cancel, ask_validationLanguage = Cancel,
      ask_includeObservability = Cancel, ask_includeCI = Cancel\<rparr>
   \<and> exit_status (snd (main ''/home'' 0 \<lparr>ask_path = Cancel, ask_projectType = Cancel,
      ask_validationLanguage = Cancel, ask_includeObservability = Cancel, ask_includeCI = Cancel\<rparr> home))
     = Some 0"
  by (simp add: cancelled_def main_def group_def text_prompt_def)

text \<open>
  C10. A cancelled run has no effect on the file system: whatever the state is, and
  whether the target exists or not, the state after the run is the state before it.
\<close>

theorem cancel_no_effect:
  assumes "cancelled a"
  shows "fst (main cwd t a s) = s"
  by (simp add: main_cancelled[OF assms])

theorem cancel_no_effect_witness:
  "cancelled \<lparr>ask_path = Submit ''demo'', ask_projectType = Submit Fullstack,
      ask_validationLanguage = Cancel, ask_includeObservability = Cancel, ask_includeCI = Cancel\<rparr>
   \<and> fst (main ''/home'' 0 \<lparr>ask_path = Submit ''demo'', ask_projectType = Submit Fullstack,
      ask_validationLanguage = Cancel, ask_includeObservability = Cancel, ask_includeCI = Cancel\<rparr>
      home) = home"
  using cancel_no_effect[of "\<lparr>ask_path = Submit ''demo'', ask_projectType = Submit Fullstack,
      ask_validationLanguage = Cancel, ask_includeObservability = Cancel, ask_includeCI = Cancel\<rparr>"
      "''/home''" 0 home]
  by (simp add: cancelled_def)

subsection \<open>The agent guide and its duplicate\<close>

text \<open>
  C4. After every run that completes, for every answer of the questionnaire, the file
  \<^verbatim>\<open>CLAUDE.md\<close> of the target holds byte for byte what \<^verbatim>\<open>AGENTS.md\<close> holds, the text of
  \<^verbatim>\<open>getAgentsTemplate(projectType)\<close>; the paths that \<^verbatim>\<open>main\<close> joined for them lead to these
  two files, and the validator reads the same string from both.
\<close>

theorem claude_equals_agents:
  assumes "group a = Some project" and "main cwd t a s = (s', Completed)"
  shows "lookup s' (resolve cwd (path project) @ [''CLAUDE.md''])
           = Some (File (getAgentsTemplate (projectType project)) t)
       \<and> lookup s' (resolve cwd (path project) @ [''AGENTS.md''])
           = Some (File (getAgentsTemplate (projectType project)) t)
       \<and> readFileSync s' cwd (path_join (path project) ''CLAUDE.md'')
           = Inr (decode_utf8 (getAgentsTemplate (projectType project)))
       \<and> readFileSync s' cwd (path_join (path project) ''AGENTS.md'')
           = Inr (decode_utf8 (getAgentsTemplate (projectType project)))"
proof -
  let ?c = "getAgentsTemplate (projectType project)"
  have c: "last_entry (rel_files project) [''CLAUDE.md''] = Some ?c"
    unfolding rel_files_eval by (simp add: last_entry_append)
  have a: "last_entry (rel_files project) [''AGENTS.md''] = Some ?c"
    unfolding rel_files_eval by (simp add: last_entry_append)
  have mc: "(''CLAUDE.md'', ?c) \<in> set (files project)" by (simp add: files_def)
  have ma: "(''AGENTS.md'', ?c) \<in> set (files project)" by (simp add: files_def)
  from completed_file[OF assms c] completed_file[OF assms a]
    completed_located[OF assms mc] completed_located[OF assms ma]
  show ?thesis by (simp add: readFileSync_def split_path_def)
qed

theorem claude_equals_agents_witness:
  "snd (main ''/home'' 0 demo_session home) = Completed
   \<and> lookup (fst (main ''/home'' 0 demo_session home)) [''home'', ''my-agent-project'', ''CLAUDE.md'']
       = Some (File (getAgentsTemplate Backend) 0)
   \<and> lookup (fst (main ''/home'' 0 demo_session home)) [''home'', ''my-agent-project'', ''AGENTS.md'']
       = Some (File (getAgentsTemplate Backend) 0)"
proof -
  from demo_completes obtain s' where m: "main ''/home'' 0 demo_session home = (s', Completed)"
    by blast
  from claude_equals_agents[OF demo_group m, unfolded demo_base] show ?thesis
    by (simp add: m demo_project_def)
qed

subsection \<open>The exit status of the validator\<close>

text \<open>
  C8. The script ends with status 0 if and only if all four checks ran to their end, no
  file-system call having thrown, and the error list is empty then; in every other case it
  ends with status 1. An empty error list alone is not enough: an exception that nothing
  catches ends the script with status 1 whatever the lists hold. The warning list is no
  part of the condition.
\<close>

theorem validator_exit_iff:
  "validator_exit s cwd now =
     (if snd (collect s cwd cwd now) = None \<and> errors (fst (collect s cwd cwd now)) = [] then 0 else 1)"
  by (auto simp: validator_exit_def validate_def split: prod.splits option.splits)

text \<open>In a directory with every required document, every required directory and three
  warnings the script ends with status 0.\<close>

theorem validator_exit_iff_witness:
  "validator_exit bare ''/q'' 0 = 0
   \<and> snd (collect bare ''/q'' ''/q'' 0) = None
   \<and> errors (fst (collect bare ''/q'' ''/q'' 0)) = []
   \<and> length (warnings (fst (collect bare ''/q'' ''/q'' 0))) = 3"
  using validator_exit_iff[of bare "''/q''" 0] by (simp add: bare_collect)

text \<open>Where \<^verbatim>\<open>AGENTS.md\<close> is a directory, \<^verbatim>\<open>readFileSync\<close> throws in the first check: the
  error list is empty and the script ends with status 1.\<close>

theorem validator_exit_counterexample:
  "errors (fst (collect blocked ''/p'' ''/p'' 0)) = []
   \<and> snd (collect blocked ''/p'' ''/p'' 0) = Some EISDIR
   \<and> validator_exit blocked ''/p'' 0 = 1"
  by (simp add: blocked_collect validator_exit_def validate_def)

end
